theory Spec2Isabelle
  imports Complex_Main "HOL-Library.Monad_Syntax"
begin

section \<open>Value types of the diff engine\<close>

text \<open>
  The engine of \<^verbatim>\<open>advancedLinesDiffComputer.ts\<close> works on JavaScript values.
  Numbers that hold line numbers, columns, offsets and counts are integers (\<open>int\<close>:
  differences of them may be negative). A string is the list of its UTF-16 code units,
  which is what \<^verbatim>\<open>length\<close>, \<^verbatim>\<open>charCodeAt\<close> and indexing count. A function that throws
  (a property read on \<^verbatim>\<open>undefined\<close>) returns \<open>None\<close>.
\<close>

type_synonym jsstring = "nat list"

text \<open>
  Modelled from the spec: the geometry primitives \<^verbatim>\<open>OffsetRange\<close>, \<^verbatim>\<open>LineRange\<close>,
  \<^verbatim>\<open>Position\<close> and \<^verbatim>\<open>Range\<close> (vs/editor/common/core) are imported by the source file and
  not part of it. They are half-open ranges and 1-based positions with the range
  arithmetic the spec lists (isEmpty, length, containsRange, intersect, join, delta,
  overlapOrTouch, toOffsetRange = [start - 1, end - 1)).
\<close>

record OffsetRange =
  start :: int
  endExclusive :: int

definition isEmptyO :: "OffsetRange \<Rightarrow> bool" where
  "isEmptyO r = (start r = endExclusive r)"

definition lengthO :: "OffsetRange \<Rightarrow> int" where
  "lengthO r = endExclusive r - start r"

definition joinO :: "OffsetRange \<Rightarrow> OffsetRange \<Rightarrow> OffsetRange" where
  "joinO a b = \<lparr>start = min (start a) (start b), endExclusive = max (endExclusive a) (endExclusive b)\<rparr>"

definition containsRange :: "OffsetRange \<Rightarrow> OffsetRange \<Rightarrow> bool" where
  "containsRange a b = (start a \<le> start b \<and> endExclusive b \<le> endExclusive a)"

definition tryCreate :: "int \<Rightarrow> int \<Rightarrow> OffsetRange option" where
  "tryCreate s e = (if s > e then None else Some \<lparr>start = s, endExclusive = e\<rparr>)"

definition intersect :: "OffsetRange \<Rightarrow> OffsetRange \<Rightarrow> OffsetRange option" where
  "intersect a b = tryCreate (max (start a) (start b)) (min (endExclusive a) (endExclusive b))"

text \<open>\<^verbatim>\<open>Array.prototype.slice(s, e)\<close>: negative indices count from the end, both are clamped.\<close>

definition js_slice :: "'a list \<Rightarrow> int \<Rightarrow> int \<Rightarrow> 'a list" where
  "js_slice xs s e =
     (let n = int (length xs);
          s' = (if s < 0 then max (n + s) 0 else min s n);
          e' = (if e < 0 then max (n + e) 0 else min e n)
      in take (nat (e' - s')) (drop (nat s') xs))"

definition sliceO :: "OffsetRange \<Rightarrow> 'a list \<Rightarrow> 'a list" where
  "sliceO r xs = js_slice xs (start r) (endExclusive r)"

record LineRange =
  startLineNumber :: int
  endLineNumberExclusive :: int

definition isEmptyL :: "LineRange \<Rightarrow> bool" where
  "isEmptyL r = (startLineNumber r = endLineNumberExclusive r)"

definition lengthL :: "LineRange \<Rightarrow> int" where
  "lengthL r = endLineNumberExclusive r - startLineNumber r"

definition joinL :: "LineRange \<Rightarrow> LineRange \<Rightarrow> LineRange" where
  "joinL a b = \<lparr>startLineNumber = min (startLineNumber a) (startLineNumber b),
                endLineNumberExclusive = max (endLineNumberExclusive a) (endLineNumberExclusive b)\<rparr>"

definition delta :: "LineRange \<Rightarrow> int \<Rightarrow> LineRange" where
  "delta r k = \<lparr>startLineNumber = startLineNumber r + k,
                endLineNumberExclusive = endLineNumberExclusive r + k\<rparr>"

definition overlapOrTouch :: "LineRange \<Rightarrow> LineRange \<Rightarrow> bool" where
  "overlapOrTouch a b =
     (startLineNumber a \<le> endLineNumberExclusive b \<and> startLineNumber b \<le> endLineNumberExclusive a)"

definition intersectL :: "LineRange \<Rightarrow> LineRange \<Rightarrow> LineRange option" where
  "intersectL a b =
     (let s = max (startLineNumber a) (startLineNumber b);
          e = min (endLineNumberExclusive a) (endLineNumberExclusive b)
      in if s \<le> e then Some \<lparr>startLineNumber = s, endLineNumberExclusive = e\<rparr> else None)"

definition toOffsetRange :: "LineRange \<Rightarrow> OffsetRange" where
  "toOffsetRange r = \<lparr>start = startLineNumber r - 1, endExclusive = endLineNumberExclusive r - 1\<rparr>"

record Position =
  lineNumber :: int
  column :: int

record Range =
  rangeStartLineNumber :: int
  startColumn :: int
  endLineNumber :: int
  endColumn :: int

text \<open>
  Modelled from the spec: the constructor of \<^verbatim>\<open>Range\<close> is not part of the source file.
  A \<^verbatim>\<open>Range\<close> keeps its start position before its end position: built from a
  reversed pair, it stores the two positions in order.
\<close>

definition mkRange :: "int \<Rightarrow> int \<Rightarrow> int \<Rightarrow> int \<Rightarrow> Range" where
  "mkRange sl sc el ec =
     (if sl > el \<or> (sl = el \<and> sc > ec)
      then \<lparr>rangeStartLineNumber = el, startColumn = ec, endLineNumber = sl, endColumn = sc\<rparr>
      else \<lparr>rangeStartLineNumber = sl, startColumn = sc, endLineNumber = el, endColumn = ec\<rparr>)"

definition fromPositions :: "Position \<Rightarrow> Position \<Rightarrow> Range" where
  "fromPositions s e = mkRange (lineNumber s) (column s) (lineNumber e) (column e)"

text \<open>
  Modelled from the spec: the classes \<^verbatim>\<open>SequenceDiff\<close>, \<^verbatim>\<open>RangeMapping\<close>,
  \<^verbatim>\<open>LineRangeMapping\<close> and \<^verbatim>\<open>DetailedLineRangeMapping\<close> are imported by the source file
  and not part of it. They are the pairs of ranges of the spec's data model; a
  detailed mapping adds the list of its inner changes; \<^verbatim>\<open>join\<close> joins side by side.
\<close>

record SequenceDiff =
  seq1Range :: OffsetRange
  seq2Range :: OffsetRange

definition joinS :: "SequenceDiff \<Rightarrow> SequenceDiff \<Rightarrow> SequenceDiff" where
  "joinS a b = \<lparr>seq1Range = joinO (seq1Range a) (seq1Range b),
                seq2Range = joinO (seq2Range a) (seq2Range b)\<rparr>"

record RangeMapping =
  originalRange :: Range
  modifiedRange :: Range

record LineRangeMapping =
  original :: LineRange
  modified :: LineRange

record DetailedLineRangeMapping = LineRangeMapping +
  innerChanges :: "RangeMapping list"

definition joinM :: "LineRangeMapping \<Rightarrow> LineRangeMapping \<Rightarrow> LineRangeMapping" where
  "joinM a b = \<lparr>original = joinL (original a) (original b),
                modified = joinL (modified a) (modified b)\<rparr>"

text \<open>
  Modelled from the spec: \<^verbatim>\<open>checkAdjacentItems\<close> (vs/base/common/assert) is not part of
  the source file. It holds when the predicate holds of every two neighbours of the
  list ("every adjacent pair").
\<close>

fun checkAdjacentItems :: "('a \<Rightarrow> 'a \<Rightarrow> bool) \<Rightarrow> 'a list \<Rightarrow> bool" where
  "checkAdjacentItems p [] = True"
| "checkAdjacentItems p [a] = True"
| "checkAdjacentItems p (a # b # rest) = (p a b \<and> checkAdjacentItems p (b # rest))"

section \<open>Merging two lists of sequence diffs\<close>

text \<open>
  \<^verbatim>\<open>mergeSequenceDiffs\<close>: while one of the two lists is non-empty, the head with the
  smaller \<^verbatim>\<open>seq1Range.start\<close> is shifted off its list (the second list's head on a tie)
  and either joined to the last diff of the result, when that one ends at or after the
  start of the new one, or pushed.
\<close>

definition pushOrJoin :: "SequenceDiff list \<Rightarrow> SequenceDiff \<Rightarrow> SequenceDiff list" where
  "pushOrJoin result next =
     (if result \<noteq> [] \<and> endExclusive (seq1Range (last result)) \<ge> start (seq1Range next)
      then butlast result @ [joinS (last result) next]
      else result @ [next])"

fun mergeLoop :: "SequenceDiff list \<Rightarrow> SequenceDiff list \<Rightarrow> SequenceDiff list \<Rightarrow> SequenceDiff list" where
  "mergeLoop [] [] result = result"
| "mergeLoop (sd1 # rest1) [] result = mergeLoop rest1 [] (pushOrJoin result sd1)"
| "mergeLoop [] (sd2 # rest2) result = mergeLoop [] rest2 (pushOrJoin result sd2)"
| "mergeLoop (sd1 # rest1) (sd2 # rest2) result =
     (if start (seq1Range sd1) < start (seq1Range sd2)
      then mergeLoop rest1 (sd2 # rest2) (pushOrJoin result sd1)
      else mergeLoop (sd1 # rest1) rest2 (pushOrJoin result sd2))"

definition mergeSequenceDiffs :: "SequenceDiff list \<Rightarrow> SequenceDiff list \<Rightarrow> SequenceDiff list" where
  "mergeSequenceDiffs sequenceDiffs1 sequenceDiffs2 = mergeLoop sequenceDiffs1 sequenceDiffs2 []"

section \<open>Arrays and strings of the host language\<close>

text \<open>Reading \<^verbatim>\<open>xs[i]\<close>: \<^verbatim>\<open>undefined\<close> (here \<open>None\<close>) outside the array.\<close>

definition js_nth :: "'a list \<Rightarrow> int \<Rightarrow> 'a option" where
  "js_nth xs i = (if 0 \<le> i \<and> i < int (length xs) then Some (xs ! nat i) else None)"

text \<open>
  \<^verbatim>\<open>String.prototype.trim\<close>, \<^verbatim>\<open>trimStart\<close> and \<^verbatim>\<open>trimEnd\<close> strip the code units
  that ECMAScript calls white space or line terminators.
\<close>

definition isWhiteSpace :: "nat \<Rightarrow> bool" where
  "isWhiteSpace c =
     (c = 9 \<or> c = 10 \<or> c = 11 \<or> c = 12 \<or> c = 13 \<or> c = 32 \<or> c = 160 \<or> c = 5760
      \<or> (8192 \<le> c \<and> c \<le> 8202) \<or> c = 8232 \<or> c = 8233 \<or> c = 8239 \<or> c = 8287
      \<or> c = 12288 \<or> c = 65279)"

definition trimStart :: "jsstring \<Rightarrow> jsstring" where
  "trimStart s = dropWhile isWhiteSpace s"

definition trimEnd :: "jsstring \<Rightarrow> jsstring" where
  "trimEnd s = rev (dropWhile isWhiteSpace (rev s))"

definition trim :: "jsstring \<Rightarrow> jsstring" where
  "trim s = trimEnd (trimStart s)"

text \<open>\<^verbatim>\<open>Array.prototype.join\<close> with a separator.\<close>

fun js_join :: "jsstring \<Rightarrow> jsstring list \<Rightarrow> jsstring" where
  "js_join sep [] = []"
| "js_join sep [x] = x"
| "js_join sep (x # y # rest) = x @ sep @ js_join sep (y # rest)"

text \<open>
  Modelled from the spec: the binary searches of vs/base/common/arraysFind are not part
  of the source file. \<^verbatim>\<open>findLastIdxMonotonous(array, p)\<close> binary-searches for the
  greatest index whose element satisfies \<open>p\<close>, assuming that \<open>p\<close> holds on a prefix
  of the array; it returns -1 when the search ends before the first element.
  \<^verbatim>\<open>findLastMonotonous\<close> returns the element there (\<^verbatim>\<open>undefined\<close> for -1).
\<close>

function findLastIdxLoop :: "'a list \<Rightarrow> ('a \<Rightarrow> bool) \<Rightarrow> nat \<Rightarrow> nat \<Rightarrow> int" where
  "findLastIdxLoop array p i j =
     (if i < j
      then (let k = (i + j) div 2
            in if p (array ! k) then findLastIdxLoop array p (k + 1) j
               else findLastIdxLoop array p i k)
      else int i - 1)"
  by pat_completeness auto
termination
  by (relation "measure (\<lambda>(array, p, i, j). j - i)") auto

definition findLastIdxMonotonous :: "'a list \<Rightarrow> ('a \<Rightarrow> bool) \<Rightarrow> int" where
  "findLastIdxMonotonous array p = findLastIdxLoop array p 0 (length array)"

definition findLastMonotonous :: "'a list \<Rightarrow> ('a \<Rightarrow> bool) \<Rightarrow> 'a option" where
  "findLastMonotonous array p = js_nth array (findLastIdxMonotonous array p)"

text \<open>
  Modelled from the spec: \<^verbatim>\<open>groupAdjacentBy\<close> (vs/base/common/arrays) is not part of
  the source file. It cuts a list into runs of neighbours: an item joins the current
  group when the predicate holds of the previous item and it, and starts a new group
  otherwise.
\<close>

fun groupLoop :: "('a \<Rightarrow> 'a \<Rightarrow> bool) \<Rightarrow> 'a list \<Rightarrow> 'a list \<Rightarrow> 'a list list" where
  "groupLoop shouldBeGrouped [] currentGroup = [currentGroup]"
| "groupLoop shouldBeGrouped (item # items) currentGroup =
     (if shouldBeGrouped (last currentGroup) item
      then groupLoop shouldBeGrouped items (currentGroup @ [item])
      else currentGroup # groupLoop shouldBeGrouped items [item])"

definition groupAdjacentBy :: "('a \<Rightarrow> 'a \<Rightarrow> bool) \<Rightarrow> 'a list \<Rightarrow> 'a list list" where
  "groupAdjacentBy shouldBeGrouped items =
     (case items of [] \<Rightarrow> [] | item # rest \<Rightarrow> groupLoop shouldBeGrouped rest [item])"

text \<open>Mapping a function that may throw over an array: the first throw ends the map.\<close>

fun mapM :: "('a \<Rightarrow> 'b option) \<Rightarrow> 'a list \<Rightarrow> 'b list option" where
  "mapM f [] = Some []"
| "mapM f (x # xs) =
     (case f x of None \<Rightarrow> None
      | Some y \<Rightarrow> (case mapM f xs of None \<Rightarrow> None | Some ys \<Rightarrow> Some (y # ys)))"

section \<open>From character mappings to line-range mappings\<close>

text \<open>
  \<^verbatim>\<open>getLineRangeMapping\<close>. The end delta is computed first, with \<^verbatim>\<open>lineStartDelta\<close>
  still 0; the start delta reads the length of the modified start line and, only when
  the modified start column is past it, the length of the original start line. Either
  read throws when the line does not exist.
\<close>

definition lineEndDeltaOf :: "RangeMapping \<Rightarrow> int" where
  "lineEndDeltaOf rangeMapping =
     (let lineStartDelta = 0 in
      if endColumn (modifiedRange rangeMapping) = 1 \<and> endColumn (originalRange rangeMapping) = 1
         \<and> rangeStartLineNumber (originalRange rangeMapping) + lineStartDelta
             \<le> endLineNumber (originalRange rangeMapping)
         \<and> rangeStartLineNumber (modifiedRange rangeMapping) + lineStartDelta
             \<le> endLineNumber (modifiedRange rangeMapping)
      then - 1 else 0)"

definition lineStartDeltaOf :: "RangeMapping \<Rightarrow> jsstring list \<Rightarrow> jsstring list \<Rightarrow> int \<Rightarrow> int option" where
  "lineStartDeltaOf rangeMapping originalLines modifiedLines lineEndDelta =
     (case js_nth modifiedLines (rangeStartLineNumber (modifiedRange rangeMapping) - 1) of
        None \<Rightarrow> None
      | Some modifiedLine \<Rightarrow>
          if startColumn (modifiedRange rangeMapping) - 1 \<ge> int (length modifiedLine)
          then (case js_nth originalLines (rangeStartLineNumber (originalRange rangeMapping) - 1) of
                  None \<Rightarrow> None
                | Some originalLine \<Rightarrow>
                    Some (if startColumn (originalRange rangeMapping) - 1 \<ge> int (length originalLine)
                           \<and> rangeStartLineNumber (originalRange rangeMapping)
                               \<le> endLineNumber (originalRange rangeMapping) + lineEndDelta
                           \<and> rangeStartLineNumber (modifiedRange rangeMapping)
                               \<le> endLineNumber (modifiedRange rangeMapping) + lineEndDelta
                          then 1 else 0))
          else Some 0)"

definition getLineRangeMapping ::
  "RangeMapping \<Rightarrow> jsstring list \<Rightarrow> jsstring list \<Rightarrow> DetailedLineRangeMapping option" where
  "getLineRangeMapping rangeMapping originalLines modifiedLines =
     (let lineEndDelta = lineEndDeltaOf rangeMapping in
      case lineStartDeltaOf rangeMapping originalLines modifiedLines lineEndDelta of
        None \<Rightarrow> None
      | Some lineStartDelta \<Rightarrow>
          Some \<lparr>original =
                  \<lparr>startLineNumber = rangeStartLineNumber (originalRange rangeMapping) + lineStartDelta,
                   endLineNumberExclusive = endLineNumber (originalRange rangeMapping) + 1 + lineEndDelta\<rparr>,
                modified =
                  \<lparr>startLineNumber = rangeStartLineNumber (modifiedRange rangeMapping) + lineStartDelta,
                   endLineNumberExclusive = endLineNumber (modifiedRange rangeMapping) + 1 + lineEndDelta\<rparr>,
                innerChanges = [rangeMapping]\<rparr>)"

text \<open>
  \<^verbatim>\<open>lineRangeMappingFromRangeMappings\<close> groups neighbours whose original or modified
  line ranges overlap or touch, and makes one change of each group: the join of its
  first and last line ranges, with the first inner change of every member.
\<close>

definition shouldBeGrouped :: "DetailedLineRangeMapping \<Rightarrow> DetailedLineRangeMapping \<Rightarrow> bool" where
  "shouldBeGrouped a1 a2 =
     (overlapOrTouch (original a1) (original a2) \<or> overlapOrTouch (modified a1) (modified a2))"

definition changeOfGroup :: "DetailedLineRangeMapping list \<Rightarrow> DetailedLineRangeMapping" where
  "changeOfGroup g =
     \<lparr>original = joinL (original (hd g)) (original (last g)),
      modified = joinL (modified (hd g)) (modified (last g)),
      innerChanges = map (\<lambda>a. hd (innerChanges a)) g\<rparr>"

definition lineRangeMappingFromRangeMappings ::
  "RangeMapping list \<Rightarrow> jsstring list \<Rightarrow> jsstring list \<Rightarrow> DetailedLineRangeMapping list option" where
  "lineRangeMappingFromRangeMappings alignments originalLines modifiedLines =
     (case mapM (\<lambda>a. getLineRangeMapping a originalLines modifiedLines) alignments of
        None \<Rightarrow> None
      | Some ms \<Rightarrow> Some (map changeOfGroup (groupAdjacentBy shouldBeGrouped ms)))"

text \<open>
  The function ends with an assertion. Modelled from the spec: \<^verbatim>\<open>assertFn\<close>
  (vs/base/common/assert) is not part of the source file; the spec has the assertions
  as checks that surface nothing to the caller, so a failed one is reported and the
  function returns its result all the same. This is the condition it evaluates;
  \<^verbatim>\<open>dontAssertStartLine\<close> is the function's fourth parameter and reaches nothing else.
\<close>

definition lineBoundaryInvariant :: "DetailedLineRangeMapping \<Rightarrow> DetailedLineRangeMapping \<Rightarrow> bool" where
  "lineBoundaryInvariant m1 m2 =
     (startLineNumber (original m2) - endLineNumberExclusive (original m1)
        = startLineNumber (modified m2) - endLineNumberExclusive (modified m1)
      \<and> endLineNumberExclusive (original m1) < startLineNumber (original m2)
      \<and> endLineNumberExclusive (modified m1) < startLineNumber (modified m2))"

definition assertedOfChanges :: "bool \<Rightarrow> DetailedLineRangeMapping list \<Rightarrow> bool" where
  "assertedOfChanges dontAssertStartLine changes =
     (if \<not> dontAssertStartLine \<and> changes \<noteq> []
         \<and> startLineNumber (original (hd changes)) \<noteq> startLineNumber (modified (hd changes))
      then False
      else checkAdjacentItems lineBoundaryInvariant changes)"

section \<open>The two sequence views\<close>

text \<open>
  \<^verbatim>\<open>LineSequence\<close>: one hash per line (equal exactly when the trimmed lines are equal),
  and the lines themselves.
\<close>

record LineSequence =
  trimmedHash :: "int list"
  seqLines :: "jsstring list"

text \<open>
  \<^verbatim>\<open>LinesSliceCharSequence\<close>: the characters of a range of lines, a line feed after
  every line but the document's last, and two tables to translate an offset back into
  a position.
\<close>

record LinesSliceCharSequence =
  elements :: "nat list"
  firstCharOffsetByLine :: "int list"
  lineRange :: OffsetRange
  additionalOffsetByLine :: "int list"
  lines :: "jsstring list"
  considerWhitespaceChanges :: bool

text \<open>
  The constructor's loop over the lines \<open>i\<close> of the range. \<^verbatim>\<open>normaliseLine\<close> is what a
  line contributes: the offset recorded for it and its characters. Reading a line that
  does not exist throws at its \<^verbatim>\<open>length\<close>. The table \<^verbatim>\<open>firstCharOffsetByLine\<close> is written at
  index \<open>i - start + 1\<close>, which is its length at that moment (an earlier line of the
  range is never the document's last), so the write is modelled as a push.
\<close>

definition normaliseLine :: "bool \<Rightarrow> bool \<Rightarrow> jsstring \<Rightarrow> int \<times> jsstring" where
  "normaliseLine trimFirstLineFully cws l =
     (if trimFirstLineFully then (int (length l), [])
      else if \<not> cws
      then (let trimmedStartLine = trimStart l
            in (int (length l) - int (length trimmedStartLine), trimEnd trimmedStartLine))
      else (0, l))"

function sliceLoop ::
  "jsstring list \<Rightarrow> bool \<Rightarrow> int \<Rightarrow> int \<Rightarrow> bool \<Rightarrow> nat list \<Rightarrow> int list \<Rightarrow> int list
   \<Rightarrow> (nat list \<times> int list \<times> int list) option" where
  "sliceLoop lns cws endEx i trimFirstLineFully elems firstOffs addOffs =
     (if i < endEx
      then (case js_nth lns i of
              None \<Rightarrow> None
            | Some l \<Rightarrow>
                (let offset = fst (normaliseLine trimFirstLineFully cws l);
                     line = snd (normaliseLine trimFirstLineFully cws l)
                 in if i < int (length lns) - 1
                    then sliceLoop lns cws endEx (i + 1) False (elems @ line @ [10])
                           (firstOffs @ [int (length (elems @ line @ [10]))]) (addOffs @ [offset])
                    else sliceLoop lns cws endEx (i + 1) False (elems @ line) firstOffs
                           (addOffs @ [offset])))
      else Some (elems, firstOffs, addOffs))"
  by pat_completeness auto
termination
  by (relation "measure (\<lambda>(lns, cws, endEx, i, t, e, f, a). nat (endEx - i))") auto

definition effectiveLineRange :: "jsstring list \<Rightarrow> OffsetRange \<Rightarrow> OffsetRange \<times> bool" where
  "effectiveLineRange lns r =
     (if start r > 0 \<and> endExclusive r \<ge> int (length lns)
      then (\<lparr>start = start r - 1, endExclusive = endExclusive r\<rparr>, True)
      else (r, False))"

definition newLinesSliceCharSequence ::
  "jsstring list \<Rightarrow> OffsetRange \<Rightarrow> bool \<Rightarrow> LinesSliceCharSequence option" where
  "newLinesSliceCharSequence lns r cws =
     (let (r', trimFirstLineFully) = effectiveLineRange lns r in
      case sliceLoop lns cws (endExclusive r') (start r') trimFirstLineFully [] [0] [] of
        None \<Rightarrow> None
      | Some (elems, firstOffs, addOffs) \<Rightarrow>
          Some \<lparr>elements = elems, firstCharOffsetByLine = firstOffs, lineRange = r',
                additionalOffsetByLine = addOffs @ [0], lines = lns,
                considerWhitespaceChanges = cws\<rparr>)"

definition lengthC :: "LinesSliceCharSequence \<Rightarrow> int" where
  "lengthC s = int (length (elements s))"

text \<open>
  \<^verbatim>\<open>translateOffset\<close>. When the search finds no line (index -1) the tables are read
  at -1 and the column is not a number; the model has no position for that (\<open>None\<close>).
\<close>

definition translateOffset :: "LinesSliceCharSequence \<Rightarrow> int \<Rightarrow> Position option" where
  "translateOffset s offset =
     (if isEmptyO (lineRange s)
      then Some \<lparr>lineNumber = start (lineRange s) + 1, column = 1\<rparr>
      else (let i = findLastIdxMonotonous (firstCharOffsetByLine s) (\<lambda>v. v \<le> offset)
            in case (js_nth (firstCharOffsetByLine s) i, js_nth (additionalOffsetByLine s) i) of
                 (Some firstCharOffset, Some additionalOffset) \<Rightarrow>
                    Some \<lparr>lineNumber = start (lineRange s) + i + 1,
                          column = offset - firstCharOffset + additionalOffset + 1\<rparr>
               | _ \<Rightarrow> None))"

definition translateRange :: "LinesSliceCharSequence \<Rightarrow> OffsetRange \<Rightarrow> Range option" where
  "translateRange s r =
     (case (translateOffset s (start r), translateOffset s (endExclusive r)) of
        (Some a, Some b) \<Rightarrow> Some (fromPositions a b)
      | _ \<Rightarrow> None)"

definition isWordChar :: "nat \<Rightarrow> bool" where
  "isWordChar charCode =
     ((charCode \<ge> 97 \<and> charCode \<le> 122) \<or> (charCode \<ge> 65 \<and> charCode \<le> 90)
      \<or> (charCode \<ge> 48 \<and> charCode \<le> 57))"

fun findWordStart :: "nat list \<Rightarrow> nat \<Rightarrow> nat" where
  "findWordStart elems 0 = 0"
| "findWordStart elems (Suc n) = (if isWordChar (elems ! n) then findWordStart elems n else Suc n)"

function findWordEnd :: "nat list \<Rightarrow> nat \<Rightarrow> nat" where
  "findWordEnd elems e =
     (if e < length elems \<and> isWordChar (elems ! e) then findWordEnd elems (e + 1) else e)"
  by pat_completeness auto
termination
  by (relation "measure (\<lambda>(elems, e). length elems - e)") auto

definition findWordContaining :: "LinesSliceCharSequence \<Rightarrow> int \<Rightarrow> OffsetRange option" where
  "findWordContaining s offset =
     (if offset < 0 \<or> offset \<ge> int (length (elements s)) then None
      else if \<not> isWordChar (elements s ! nat offset) then None
      else Some \<lparr>start = int (findWordStart (elements s) (nat offset)),
                 endExclusive = int (findWordEnd (elements s) (nat offset))\<rparr>)"

text \<open>What a diff algorithm is given: either kind of sequence.\<close>

datatype ISequence = LineSeq LineSequence | CharSeq LinesSliceCharSequence

section \<open>Covering full words\<close>

record ModifiedWord =
  added :: int
  deleted :: int
  count :: int
  s1Range :: OffsetRange
  s2Range :: OffsetRange

text \<open>
  The state of \<^verbatim>\<open>coverFullWords\<close>: the diffs pushed to \<^verbatim>\<open>additional\<close> so far and the
  word being accumulated (\<^verbatim>\<open>lastModifiedWord\<close>), if any.
\<close>

type_synonym coverState = "SequenceDiff list \<times> ModifiedWord option"

definition maybePushWordToAdditional :: "coverState \<Rightarrow> coverState" where
  "maybePushWordToAdditional st =
     (case snd st of
        None \<Rightarrow> st
      | Some w \<Rightarrow>
          (let originalLength1 = lengthO (s1Range w) - deleted w
           in (if max (deleted w) (added w) + (count w - 1) > originalLength1
               then fst st @ [\<lparr>seq1Range = s1Range w, seq2Range = s2Range w\<rparr>]
               else fst st,
               None)))"

definition lengthOrZero :: "OffsetRange option \<Rightarrow> int" where
  "lengthOrZero r = (case r of None \<Rightarrow> 0 | Some x \<Rightarrow> lengthO x)"

definition startWord :: "coverState \<Rightarrow> OffsetRange \<Rightarrow> OffsetRange \<Rightarrow> SequenceDiff list \<times> ModifiedWord" where
  "startWord st r1 r2 =
     (case snd st of
        None \<Rightarrow> (fst st, \<lparr>added = 0, deleted = 0, count = 0, s1Range = r1, s2Range = r2\<rparr>)
      | Some w \<Rightarrow>
          if containsRange (s1Range w) r1 \<and> containsRange (s2Range w) r2 then (fst st, w)
          else if \<not> (endExclusive (s1Range w) < start r1 \<and> endExclusive (s2Range w) < start r2)
          then (fst st,
                w\<lparr>deleted := deleted w + lengthOrZero (tryCreate (endExclusive (s1Range w)) (start r1)),
                  added := added w + lengthOrZero (tryCreate (endExclusive (s2Range w)) (start r2)),
                  s1Range := joinO (s1Range w) r1,
                  s2Range := joinO (s2Range w) r2\<rparr>)
          else (fst (maybePushWordToAdditional st),
                \<lparr>added = 0, deleted = 0, count = 0, s1Range = r1, s2Range = r2\<rparr>))"

definition processWord :: "SequenceDiff \<Rightarrow> coverState \<Rightarrow> OffsetRange \<Rightarrow> OffsetRange \<Rightarrow> coverState" where
  "processWord s st r1 r2 =
     (let (additional, w) = startWord st r1 r2
      in (additional,
          Some (w\<lparr>count := count w + 1,
                  deleted := deleted w + lengthOrZero (intersect r1 (seq1Range s)),
                  added := added w + lengthOrZero (intersect r2 (seq2Range s))\<rparr>)))"

definition coverStep ::
  "LinesSliceCharSequence \<Rightarrow> LinesSliceCharSequence \<Rightarrow> coverState \<Rightarrow> SequenceDiff \<Rightarrow> coverState" where
  "coverStep sequence1 sequence2 st s =
     (let w1Before = findWordContaining sequence1 (start (seq1Range s) - 1);
          w2Before = findWordContaining sequence2 (start (seq2Range s) - 1);
          w1After = findWordContaining sequence1 (endExclusive (seq1Range s));
          w2After = findWordContaining sequence2 (endExclusive (seq2Range s))
      in case (w1Before, w1After, w2Before, w2After) of
           (Some b1, Some a1, Some b2, Some a2) \<Rightarrow>
              if b1 = a1 \<and> b2 = a2 then processWord s st b1 b2
              else processWord s (processWord s st b1 b2) a1 a2
         | _ \<Rightarrow>
              (let st1 = (case (w1Before, w2Before) of
                            (Some b1, Some b2) \<Rightarrow> processWord s st b1 b2 | _ \<Rightarrow> st)
               in case (w1After, w2After) of
                    (Some a1, Some a2) \<Rightarrow> processWord s st1 a1 a2 | _ \<Rightarrow> st1))"

definition coverFullWords ::
  "LinesSliceCharSequence \<Rightarrow> LinesSliceCharSequence \<Rightarrow> SequenceDiff list \<Rightarrow> SequenceDiff list" where
  "coverFullWords sequence1 sequence2 sequenceDiffs =
     (let st = foldl (coverStep sequence1 sequence2) ([], None) sequenceDiffs;
          additional = fst (maybePushWordToAdditional st)
      in mergeSequenceDiffs sequenceDiffs additional)"

section \<open>Timeouts and the diff algorithms\<close>

text \<open>
  A timeout answers \<^verbatim>\<open>isValid()\<close>. The answer of a \<^verbatim>\<open>DateTimeout\<close> depends on the
  wall clock, so a timeout is modelled by the answers it gives to the successive
  calls: \<open>t n\<close> is the answer to call number \<open>n\<close> from now.
\<close>

type_synonym Timeout = "nat \<Rightarrow> bool"

definition InfiniteTimeout :: Timeout where
  "InfiniteTimeout = (\<lambda>n. True)"

definition isValid :: "Timeout \<Rightarrow> bool \<times> Timeout" where
  "isValid t = (t 0, \<lambda>n. t (Suc n))"

text \<open>
  The two diff algorithms (dynamic programming, Myers) and the four post-processors
  of vs/editor/common/diff/algorithms are imported by the source file and not part of
  it; the spec treats them as collaborators behind one contract. They are parameters
  of the model, as is the clock behind \<^verbatim>\<open>new DateTimeout(ms)\<close>. A diff algorithm returns
  its diffs and whether it hit the timeout.
\<close>

type_synonym DiffAlgorithmResult = "SequenceDiff list \<times> bool"

record Collaborators =
  dynamicProgrammingDiffing ::
    "ISequence \<Rightarrow> ISequence \<Rightarrow> Timeout \<Rightarrow> (int \<Rightarrow> int \<Rightarrow> real option) option \<Rightarrow> DiffAlgorithmResult"
  myersDiffingAlgorithm :: "ISequence \<Rightarrow> ISequence \<Rightarrow> Timeout \<Rightarrow> DiffAlgorithmResult"
  optimizeSequenceDiffs :: "ISequence \<Rightarrow> ISequence \<Rightarrow> SequenceDiff list \<Rightarrow> SequenceDiff list"
  removeRandomLineMatches :: "ISequence \<Rightarrow> ISequence \<Rightarrow> SequenceDiff list \<Rightarrow> SequenceDiff list"
  smoothenSequenceDiffs :: "ISequence \<Rightarrow> ISequence \<Rightarrow> SequenceDiff list \<Rightarrow> SequenceDiff list"
  removeRandomMatches :: "ISequence \<Rightarrow> ISequence \<Rightarrow> SequenceDiff list \<Rightarrow> SequenceDiff list"
  newDateTimeout :: "int \<Rightarrow> Timeout"

section \<open>Refining a line diff into character mappings\<close>

definition rangeMappingOf ::
  "LinesSliceCharSequence \<Rightarrow> LinesSliceCharSequence \<Rightarrow> SequenceDiff \<Rightarrow> RangeMapping option" where
  "rangeMappingOf slice1 slice2 d =
     (case (translateRange slice1 (seq1Range d), translateRange slice2 (seq2Range d)) of
        (Some a, Some b) \<Rightarrow> Some \<lparr>originalRange = a, modifiedRange = b\<rparr>
      | _ \<Rightarrow> None)"

definition refineDiff ::
  "Collaborators \<Rightarrow> jsstring list \<Rightarrow> jsstring list \<Rightarrow> SequenceDiff \<Rightarrow> Timeout \<Rightarrow> bool
   \<Rightarrow> (RangeMapping list \<times> bool) option" where
  "refineDiff env originalLines modifiedLines diff timeout cws =
     (case newLinesSliceCharSequence originalLines (seq1Range diff) cws of
        None \<Rightarrow> None
      | Some slice1 \<Rightarrow>
     (case newLinesSliceCharSequence modifiedLines (seq2Range diff) cws of
        None \<Rightarrow> None
      | Some slice2 \<Rightarrow>
          (let diffResult =
                 (if lengthC slice1 + lengthC slice2 < 500
                  then dynamicProgrammingDiffing env (CharSeq slice1) (CharSeq slice2) timeout None
                  else myersDiffingAlgorithm env (CharSeq slice1) (CharSeq slice2) timeout);
               diffs1 = optimizeSequenceDiffs env (CharSeq slice1) (CharSeq slice2) (fst diffResult);
               diffs2 = coverFullWords slice1 slice2 diffs1;
               diffs3 = smoothenSequenceDiffs env (CharSeq slice1) (CharSeq slice2) diffs2;
               diffs4 = removeRandomMatches env (CharSeq slice1) (CharSeq slice2) diffs3
           in case mapM (rangeMappingOf slice1 slice2) diffs4 of
                None \<Rightarrow> None
              | Some result \<Rightarrow> Some (result, snd diffResult))))"

section \<open>Moves: simple deletions against simple insertions\<close>

text \<open>
  \<^verbatim>\<open>chrKeys\<close> is a map of the module, filled by \<^verbatim>\<open>getKey\<close>: a character's key is the
  size of the map when the character is first seen. It is modelled by the list of the
  characters in the order of their keys, passed in and returned.
\<close>

fun indexOf :: "'a \<Rightarrow> 'a list \<Rightarrow> nat option" where
  "indexOf x [] = None"
| "indexOf x (y # ys) = (if x = y then Some 0 else map_option Suc (indexOf x ys))"

definition getKey :: "nat \<Rightarrow> nat list \<Rightarrow> nat \<times> nat list" where
  "getKey chr chrKeys =
     (case indexOf chr chrKeys of
        Some key \<Rightarrow> (key, chrKeys)
      | None \<Rightarrow> (length chrKeys, chrKeys @ [chr]))"

text \<open>
  A histogram is a JavaScript array written at arbitrary indices: writing past its end
  extends it, and an index never written reads as 0 (\<^verbatim>\<open>|| 0\<close>, \<^verbatim>\<open>?? 0\<close>).
\<close>

definition histAt :: "int list \<Rightarrow> nat \<Rightarrow> int" where
  "histAt h i = (if i < length h then h ! i else 0)"

definition bump :: "int list \<Rightarrow> nat \<Rightarrow> int list" where
  "bump h key =
     (if key < length h then h[key := h ! key + 1]
      else h @ replicate (key - length h) 0 @ [1])"

record LineRangeFragment =
  rangeF :: LineRange
  source :: nat
  totalCount :: int
  histogram :: "int list"

text \<open>
  The constructor of \<^verbatim>\<open>LineRangeFragment\<close>: every character of every line of the range
  is counted, and one line feed per line. \<^verbatim>\<open>source\<close>, the change a fragment was made of,
  is kept as the index of that change (the code compares the objects by identity).
\<close>

type_synonym fragState = "nat list \<times> int \<times> int list"

definition addChar :: "fragState \<Rightarrow> nat \<Rightarrow> fragState" where
  "addChar st chr =
     (case st of (chrKeys, counter, h) \<Rightarrow>
        (let (key, chrKeys') = getKey chr chrKeys in (chrKeys', counter + 1, bump h key)))"

definition addLine :: "fragState \<Rightarrow> jsstring \<Rightarrow> fragState" where
  "addLine st line = addChar (foldl addChar st line) 10"

function fragLoop :: "jsstring list \<Rightarrow> int \<Rightarrow> int \<Rightarrow> fragState \<Rightarrow> fragState option" where
  "fragLoop lns endEx i st =
     (if i < endEx
      then (case js_nth lns i of None \<Rightarrow> None
            | Some line \<Rightarrow> fragLoop lns endEx (i + 1) (addLine st line))
      else Some st)"
  by pat_completeness auto
termination
  by (relation "measure (\<lambda>(lns, endEx, i, st). nat (endEx - i))") auto

definition newLineRangeFragment ::
  "LineRange \<Rightarrow> jsstring list \<Rightarrow> nat \<Rightarrow> nat list \<Rightarrow> (LineRangeFragment \<times> nat list) option" where
  "newLineRangeFragment r lns src chrKeys =
     (case fragLoop lns (endLineNumberExclusive r - 1) (startLineNumber r - 1) (chrKeys, 0, []) of
        None \<Rightarrow> None
      | Some (chrKeys', counter, h) \<Rightarrow>
          Some (\<lparr>rangeF = r, source = src, totalCount = counter, histogram = h\<rparr>, chrKeys'))"

text \<open>
  \<^verbatim>\<open>computeSimilarity\<close>. The arithmetic of the code is floating point; the model computes
  in the reals. Two empty fragments divide 0 by 0: the result is not a number (\<open>None\<close>),
  and every comparison with it is false.
\<close>

definition sumDifferences :: "int list \<Rightarrow> int list \<Rightarrow> int" where
  "sumDifferences h1 h2 =
     sum_list (map (\<lambda>i. \<bar>histAt h1 i - histAt h2 i\<bar>) [0..<max (length h1) (length h2)])"

definition computeSimilarity :: "LineRangeFragment \<Rightarrow> LineRangeFragment \<Rightarrow> real option" where
  "computeSimilarity this other =
     (if totalCount this + totalCount other = 0 then None
      else Some (1 - real_of_int (sumDifferences (histogram this) (histogram other))
                       / real_of_int (totalCount this + totalCount other)))"

text \<open>The fragments of the selected changes, built in order (each may add keys).\<close>

fun newFragments ::
  "(DetailedLineRangeMapping \<Rightarrow> LineRange) \<Rightarrow> jsstring list \<Rightarrow> (nat \<times> DetailedLineRangeMapping) list
   \<Rightarrow> nat list \<Rightarrow> (LineRangeFragment list \<times> nat list) option" where
  "newFragments side lns [] chrKeys = Some ([], chrKeys)"
| "newFragments side lns ((idx, d) # rest) chrKeys =
     (case newLineRangeFragment (side d) lns idx chrKeys of
        None \<Rightarrow> None
      | Some (f, chrKeys1) \<Rightarrow>
          (case newFragments side lns rest chrKeys1 of
             None \<Rightarrow> None
           | Some (fs, chrKeys2) \<Rightarrow> Some (f # fs, chrKeys2)))"

text \<open>
  The inner loop: the first insertion of the greatest similarity, when that is above
  the start value -1.
\<close>

definition betterOf ::
  "LineRangeFragment \<Rightarrow> real \<times> LineRangeFragment option \<Rightarrow> LineRangeFragment
   \<Rightarrow> real \<times> LineRangeFragment option" where
  "betterOf deletion acc insertion =
     (case computeSimilarity deletion insertion of
        None \<Rightarrow> acc
      | Some similarity \<Rightarrow> if similarity > fst acc then (similarity, Some insertion) else acc)"

definition findBest :: "LineRangeFragment \<Rightarrow> LineRangeFragment list \<Rightarrow> real \<times> LineRangeFragment option" where
  "findBest deletion insertions = foldl (betterOf deletion) (- 1, None) insertions"

text \<open>
  The state of the outer loop: the insertions not yet paired (a set of objects, in
  insertion order), the moves and the excluded changes.
\<close>

type_synonym pairState = "LineRangeFragment list \<times> LineRangeMapping list \<times> nat list"

definition pairDeletion :: "LineRangeFragment \<Rightarrow> pairState \<Rightarrow> pairState" where
  "pairDeletion deletion st =
     (case st of (insertions, moves, excludedChanges) \<Rightarrow>
        (case findBest deletion insertions of
           (highestSimilarity, Some best) \<Rightarrow>
              if highestSimilarity > 0.90
              then (filter (\<lambda>f. source f \<noteq> source best) insertions,
                    moves @ [\<lparr>original = rangeF deletion, modified = rangeF best\<rparr>],
                    excludedChanges @ [source deletion, source best])
              else st
         | (highestSimilarity, None) \<Rightarrow> st))"

fun pairLoop :: "LineRangeFragment list \<Rightarrow> pairState \<Rightarrow> Timeout \<Rightarrow> pairState \<times> Timeout" where
  "pairLoop [] st timeout = (st, timeout)"
| "pairLoop (deletion # rest) st timeout =
     (let st1 = pairDeletion deletion st;
          (valid, timeout1) = isValid timeout
      in if \<not> valid then (st1, timeout1) else pairLoop rest st1 timeout1)"

definition isSimpleDeletion :: "nat \<times> DetailedLineRangeMapping \<Rightarrow> bool" where
  "isSimpleDeletion c = (isEmptyL (modified (snd c)) \<and> lengthL (original (snd c)) \<ge> 3)"

definition isSimpleInsertion :: "nat \<times> DetailedLineRangeMapping \<Rightarrow> bool" where
  "isSimpleInsertion c = (isEmptyL (original (snd c)) \<and> lengthL (modified (snd c)) \<ge> 3)"

definition computeMovesFromSimpleDeletionsToSimpleInsertions ::
  "DetailedLineRangeMapping list \<Rightarrow> jsstring list \<Rightarrow> jsstring list \<Rightarrow> Timeout \<Rightarrow> nat list
   \<Rightarrow> ((LineRangeMapping list \<times> nat list) \<times> Timeout \<times> nat list) option" where
  "computeMovesFromSimpleDeletionsToSimpleInsertions changes originalLines modifiedLines timeout chrKeys =
     (case newFragments original originalLines (filter isSimpleDeletion (enumerate 0 changes)) chrKeys of
        None \<Rightarrow> None
      | Some (deletions, chrKeys1) \<Rightarrow>
     (case newFragments modified modifiedLines (filter isSimpleInsertion (enumerate 0 changes)) chrKeys1 of
        None \<Rightarrow> None
      | Some (insertions, chrKeys2) \<Rightarrow>
          (case pairLoop deletions (insertions, [], []) timeout of
             ((rest, moves, excludedChanges), timeout1) \<Rightarrow>
                Some ((moves, excludedChanges), timeout1, chrKeys2))))"

section \<open>Moves: unchanged blocks of three lines and more\<close>

text \<open>
  Modelled from the spec: \<^verbatim>\<open>LineRangeSet\<close> (vs/editor/common/core/lineRange) is not part
  of the source file. It is a list of line ranges, sorted, no two touching, with
  \<^verbatim>\<open>addRange\<close> (union, coalescing the ranges that touch the new one), \<^verbatim>\<open>subtractFrom(r)\<close>
  (the part of \<open>r\<close> not yet in the set), \<^verbatim>\<open>getWithDelta(k)\<close> (every range shifted by \<open>k\<close>)
  and \<^verbatim>\<open>getIntersection\<close> (the pointwise intersection).
\<close>

type_synonym LineRangeSet = "LineRange list"

definition addRange :: "LineRangeSet \<Rightarrow> LineRange \<Rightarrow> LineRangeSet" where
  "addRange rs r =
     (if lengthL r = 0 then rs
      else (let before = takeWhile (\<lambda>x. endLineNumberExclusive x < startLineNumber r) rs;
                rest = dropWhile (\<lambda>x. endLineNumberExclusive x < startLineNumber r) rs;
                touching = takeWhile (\<lambda>x. startLineNumber x \<le> endLineNumberExclusive r) rest;
                after = dropWhile (\<lambda>x. startLineNumber x \<le> endLineNumberExclusive r) rest
            in before @ [foldl joinL r touching] @ after))"

fun subtractLoop :: "LineRange list \<Rightarrow> int \<Rightarrow> int \<Rightarrow> LineRange list" where
  "subtractLoop [] startLine endEx =
     (if startLine < endEx then [\<lparr>startLineNumber = startLine, endLineNumberExclusive = endEx\<rparr>] else [])"
| "subtractLoop (x # xs) startLine endEx =
     (if startLineNumber x > startLine
      then [\<lparr>startLineNumber = startLine, endLineNumberExclusive = startLineNumber x\<rparr>] else [])
     @ subtractLoop xs (endLineNumberExclusive x) endEx"

definition subtractFrom :: "LineRangeSet \<Rightarrow> LineRange \<Rightarrow> LineRangeSet" where
  "subtractFrom rs r =
     subtractLoop
       (filter (\<lambda>x. endLineNumberExclusive x \<ge> startLineNumber r
                    \<and> startLineNumber x \<le> endLineNumberExclusive r) rs)
       (startLineNumber r) (endLineNumberExclusive r)"

definition getWithDelta :: "LineRangeSet \<Rightarrow> int \<Rightarrow> LineRangeSet" where
  "getWithDelta rs k = map (\<lambda>r. delta r k) rs"

fun getIntersection :: "LineRangeSet \<Rightarrow> LineRangeSet \<Rightarrow> LineRangeSet" where
  "getIntersection [] ys = []"
| "getIntersection (x # xs) [] = []"
| "getIntersection (x # xs) (y # ys) =
     (case intersectL x y of
        Some i \<Rightarrow> if isEmptyL i then [] else [i]
      | None \<Rightarrow> [])
     @ (if endLineNumberExclusive x < endLineNumberExclusive y
        then getIntersection xs (y # ys)
        else getIntersection (x # xs) ys)"

text \<open>
  The key of three consecutive lines is the string of their three hashes, separated by
  colons; a hash read outside the array prints as \<^verbatim>\<open>undefined\<close>. Two keys are equal
  exactly when the three (optional) hashes are, so the triple is the key.
\<close>

type_synonym key3 = "int option \<times> int option \<times> int option"

definition keyAt :: "int list \<Rightarrow> int \<Rightarrow> key3" where
  "keyAt hashed i = (js_nth hashed (i - 1), js_nth hashed (i + 1 - 1), js_nth hashed (i + 2 - 1))"

text \<open>
  \<^verbatim>\<open>original3LineHashes\<close> is a multi-map from keys to ranges, read in insertion order:
  the list of its entries.
\<close>

definition original3LineHashesOf :: "DetailedLineRangeMapping list \<Rightarrow> int list \<Rightarrow> (key3 \<times> LineRange) list" where
  "original3LineHashesOf changes hashedOriginalLines =
     concat (map (\<lambda>change.
        map (\<lambda>i. (keyAt hashedOriginalLines i, \<lparr>startLineNumber = i, endLineNumberExclusive = i + 3\<rparr>))
            [startLineNumber (original change) .. endLineNumberExclusive (original change) - 2 - 1])
        changes)"

record PossibleMapping =
  modifiedLineRange :: LineRange
  originalLineRange :: LineRange

text \<open>
  The mappings are objects, shared by \<^verbatim>\<open>possibleMappings\<close> and \<^verbatim>\<open>lastMappings\<close> and
  extended in place: \<^verbatim>\<open>possibleMappings\<close> is the list of the objects, and \<^verbatim>\<open>lastMappings\<close>
  and \<^verbatim>\<open>nextMappings\<close> hold indices into it.
\<close>

fun findExtendable :: "PossibleMapping list \<Rightarrow> nat list \<Rightarrow> LineRange \<Rightarrow> LineRange \<Rightarrow> nat option" where
  "findExtendable possibleMappings [] r currentModifiedRange = None"
| "findExtendable possibleMappings (j # js) r currentModifiedRange =
     (if endLineNumberExclusive (originalLineRange (possibleMappings ! j)) + 1 = endLineNumberExclusive r
         \<and> endLineNumberExclusive (modifiedLineRange (possibleMappings ! j)) + 1
             = endLineNumberExclusive currentModifiedRange
      then Some j
      else findExtendable possibleMappings js r currentModifiedRange)"

definition matchRange ::
  "nat list \<Rightarrow> LineRange \<Rightarrow> PossibleMapping list \<times> nat list \<Rightarrow> LineRange \<Rightarrow> PossibleMapping list \<times> nat list" where
  "matchRange lastMappings currentModifiedRange st r =
     (case st of (possibleMappings, nextMappings) \<Rightarrow>
        (case findExtendable possibleMappings lastMappings r currentModifiedRange of
           Some j \<Rightarrow>
             (possibleMappings[j :=
                 \<lparr>modifiedLineRange =
                    \<lparr>startLineNumber = startLineNumber (modifiedLineRange (possibleMappings ! j)),
                     endLineNumberExclusive = endLineNumberExclusive currentModifiedRange\<rparr>,
                  originalLineRange =
                    \<lparr>startLineNumber = startLineNumber (originalLineRange (possibleMappings ! j)),
                     endLineNumberExclusive = endLineNumberExclusive r\<rparr>\<rparr>],
              nextMappings @ [j])
         | None \<Rightarrow>
             (possibleMappings @ [\<lparr>modifiedLineRange = currentModifiedRange, originalLineRange = r\<rparr>],
              nextMappings @ [length possibleMappings])))"

definition windowStep ::
  "(key3 \<times> LineRange) list \<Rightarrow> int list \<Rightarrow> PossibleMapping list \<times> nat list \<Rightarrow> int
   \<Rightarrow> PossibleMapping list \<times> nat list" where
  "windowStep original3LineHashes hashedModifiedLines st i =
     (case st of (possibleMappings, lastMappings) \<Rightarrow>
        (let key = keyAt hashedModifiedLines i;
             currentModifiedRange = \<lparr>startLineNumber = i, endLineNumberExclusive = i + 3\<rparr>
         in foldl (matchRange lastMappings currentModifiedRange) (possibleMappings, [])
              (map snd (filter (\<lambda>e. fst e = key) original3LineHashes))))"

definition changeStep ::
  "(key3 \<times> LineRange) list \<Rightarrow> int list \<Rightarrow> PossibleMapping list \<Rightarrow> DetailedLineRangeMapping
   \<Rightarrow> PossibleMapping list" where
  "changeStep original3LineHashes hashedModifiedLines possibleMappings change =
     fst (foldl (windowStep original3LineHashes hashedModifiedLines) (possibleMappings, [])
            [startLineNumber (modified change) .. endLineNumberExclusive (modified change) - 2 - 1])"

fun changesLoop ::
  "(key3 \<times> LineRange) list \<Rightarrow> int list \<Rightarrow> DetailedLineRangeMapping list \<Rightarrow> PossibleMapping list
   \<Rightarrow> Timeout \<Rightarrow> PossibleMapping list option \<times> Timeout" where
  "changesLoop original3LineHashes hashedModifiedLines [] possibleMappings timeout =
     (Some possibleMappings, timeout)"
| "changesLoop original3LineHashes hashedModifiedLines (change # rest) possibleMappings timeout =
     (let possibleMappings1 = changeStep original3LineHashes hashedModifiedLines possibleMappings change;
          (valid, timeout1) = isValid timeout
      in if \<not> valid then (None, timeout1)
         else changesLoop original3LineHashes hashedModifiedLines rest possibleMappings1 timeout1)"

type_synonym takenState = "LineRangeMapping list \<times> LineRangeSet \<times> LineRangeSet"

definition takeSection :: "int \<Rightarrow> takenState \<Rightarrow> LineRange \<Rightarrow> takenState" where
  "takeSection diffOrigToMod st s =
     (case st of (moves, modifiedSet, originalSet) \<Rightarrow>
        if lengthL s < 3 then st
        else (moves @ [\<lparr>original = delta s (- diffOrigToMod), modified = s\<rparr>],
              addRange modifiedSet s,
              addRange originalSet (delta s (- diffOrigToMod))))"

definition takeMapping :: "takenState \<Rightarrow> PossibleMapping \<Rightarrow> takenState" where
  "takeMapping st mapping =
     (case st of (moves, modifiedSet, originalSet) \<Rightarrow>
        (let diffOrigToMod = startLineNumber (modifiedLineRange mapping)
                               - startLineNumber (originalLineRange mapping);
             modifiedSections = subtractFrom modifiedSet (modifiedLineRange mapping);
             originalTranslatedSections =
               getWithDelta (subtractFrom originalSet (originalLineRange mapping)) diffOrigToMod;
             modifiedIntersectedSections = getIntersection modifiedSections originalTranslatedSections
         in foldl (takeSection diffOrigToMod) st modifiedIntersectedSections))"

text \<open>
  \<^verbatim>\<open>computeUnchangedMoves\<close>. The two sorts are the host's stable sort with a comparator
  on one number, ascending by the start of the modified range and descending by the
  length of the modified range. A timeout between two changes ends it with no moves.
\<close>

definition computeUnchangedMoves ::
  "DetailedLineRangeMapping list \<Rightarrow> int list \<Rightarrow> int list \<Rightarrow> Timeout
   \<Rightarrow> LineRangeMapping list \<times> Timeout" where
  "computeUnchangedMoves changes hashedOriginalLines hashedModifiedLines timeout =
     (let original3LineHashes = original3LineHashesOf changes hashedOriginalLines;
          sortedChanges = sort_key (\<lambda>c. startLineNumber (modified c)) changes
      in case changesLoop original3LineHashes hashedModifiedLines sortedChanges [] timeout of
           (None, timeout1) \<Rightarrow> ([], timeout1)
         | (Some possibleMappings, timeout1) \<Rightarrow>
             (fst (foldl takeMapping ([], [], [])
                     (sort_key (\<lambda>m. - lengthL (modifiedLineRange m)) possibleMappings)),
              timeout1))"

section \<open>Joining, filtering and refining the moves\<close>

text \<open>
  Modelled from the spec: \<^verbatim>\<open>MovedText\<close> (vs/editor/common/diff/linesDiffComputer) is not
  part of the source file: a line-range mapping with the detailed changes inside it
  (the field \<^verbatim>\<open>changes\<close>, here \<^verbatim>\<open>moveChanges\<close>).
\<close>

record MovedText =
  lineRangeMapping :: LineRangeMapping
  moveChanges :: "DetailedLineRangeMapping list"

text \<open>
  The joining loop of \<^verbatim>\<open>computeMoves\<close>: \<^verbatim>\<open>joinedMoves\<close> starts with the first move; each
  further move is joined to the last joined one when it lies after it on both sides
  with at most two lines between them in all, is skipped when its original lines,
  trimmed and joined by line feeds, have at most 10 characters, and is pushed
  otherwise.
\<close>

definition originalTextOf :: "jsstring list \<Rightarrow> LineRangeMapping \<Rightarrow> jsstring" where
  "originalTextOf originalLines current =
     js_join [10] (map trim (sliceO (toOffsetRange (original current)) originalLines))"

fun joinLoop :: "jsstring list \<Rightarrow> LineRangeMapping list \<Rightarrow> LineRangeMapping list \<Rightarrow> LineRangeMapping list" where
  "joinLoop originalLines [] joinedMoves = joinedMoves"
| "joinLoop originalLines (current # rest) joinedMoves =
     (let lastMove = last joinedMoves;
          originalDist = startLineNumber (original current) - endLineNumberExclusive (original lastMove);
          modifiedDist = startLineNumber (modified current) - endLineNumberExclusive (modified lastMove);
          currentMoveAfterLast = (originalDist \<ge> 0 \<and> modifiedDist \<ge> 0)
      in if currentMoveAfterLast \<and> originalDist + modifiedDist \<le> 2
         then joinLoop originalLines rest (butlast joinedMoves @ [joinM lastMove current])
         else if int (length (originalTextOf originalLines current)) \<le> 10
         then joinLoop originalLines rest joinedMoves
         else joinLoop originalLines rest (joinedMoves @ [current]))"

text \<open>
  A joined move is kept when its distance to the last change that ends at or before its
  original start differs on the two sides (the empty ranges at line 1 stand in when
  there is no such change). Modelled from the spec: \<^verbatim>\<open>MonotonousArray\<close>
  (vs/base/common/arraysFind) is not part of the source file; its
  \<^verbatim>\<open>findLastMonotonous\<close> is the search for the last change that satisfies the
  predicate.
\<close>

definition differentDistances :: "DetailedLineRangeMapping list \<Rightarrow> LineRangeMapping \<Rightarrow> bool" where
  "differentDistances changes m =
     (let (modifiedEnd, originalEnd) =
            (case findLastMonotonous changes
                    (\<lambda>c. endLineNumberExclusive (original c) \<le> startLineNumber (original m)) of
               Some c \<Rightarrow> (endLineNumberExclusive (modified c), endLineNumberExclusive (original c))
             | None \<Rightarrow> (1, 1));
          modifiedDistToPrevDiff = startLineNumber (modified m) - modifiedEnd;
          originalDistToPrevDiff = startLineNumber (original m) - originalEnd
      in modifiedDistToPrevDiff \<noteq> originalDistToPrevDiff)"

definition moveWithDiffs ::
  "Collaborators \<Rightarrow> jsstring list \<Rightarrow> jsstring list \<Rightarrow> Timeout \<Rightarrow> bool \<Rightarrow> LineRangeMapping
   \<Rightarrow> MovedText option" where
  "moveWithDiffs env originalLines modifiedLines timeout cws m =
     (case refineDiff env originalLines modifiedLines
             \<lparr>seq1Range = toOffsetRange (original m), seq2Range = toOffsetRange (modified m)\<rparr>
             timeout cws of
        None \<Rightarrow> None
      | Some (mappings, hit) \<Rightarrow>
          (case lineRangeMappingFromRangeMappings mappings originalLines modifiedLines of
             None \<Rightarrow> None
           | Some cs \<Rightarrow> Some \<lparr>lineRangeMapping = m, moveChanges = cs\<rparr>))"

text \<open>
  \<^verbatim>\<open>computeMoves\<close>. The changes a pairing excluded are left out of the second search by
  their identity, here their index.
\<close>

definition notExcluded :: "nat list \<Rightarrow> DetailedLineRangeMapping list \<Rightarrow> DetailedLineRangeMapping list" where
  "notExcluded excludedChanges changes =
     map snd (filter (\<lambda>c. fst c \<notin> set excludedChanges) (enumerate 0 changes))"

definition joinedMovesOf ::
  "DetailedLineRangeMapping list \<Rightarrow> jsstring list \<Rightarrow> LineRangeMapping list \<Rightarrow> LineRangeMapping list" where
  "joinedMovesOf changes originalLines moves =
     (case sort_key (\<lambda>m. startLineNumber (original m)) moves of
        [] \<Rightarrow> []
      | first # rest \<Rightarrow> filter (differentDistances changes) (joinLoop originalLines rest [first]))"

definition computeMoves ::
  "Collaborators \<Rightarrow> DetailedLineRangeMapping list \<Rightarrow> jsstring list \<Rightarrow> jsstring list
   \<Rightarrow> int list \<Rightarrow> int list \<Rightarrow> Timeout \<Rightarrow> bool \<Rightarrow> nat list \<Rightarrow> (MovedText list \<times> nat list) option" where
  "computeMoves env changes originalLines modifiedLines hashedOriginalLines hashedModifiedLines
                timeout cws chrKeys =
     (case computeMovesFromSimpleDeletionsToSimpleInsertions changes originalLines modifiedLines
             timeout chrKeys of
        None \<Rightarrow> None
      | Some ((moves, excludedChanges), timeout1, chrKeys1) \<Rightarrow>
          (case isValid timeout1 of
             (valid, timeout2) \<Rightarrow>
               if \<not> valid then Some ([], chrKeys1)
               else (case computeUnchangedMoves (notExcluded excludedChanges changes)
                            hashedOriginalLines hashedModifiedLines timeout2 of
                       (unchangedMoves, timeout3) \<Rightarrow>
                         (case mapM (moveWithDiffs env originalLines modifiedLines timeout3 cws)
                                 (joinedMovesOf changes originalLines (moves @ unchangedMoves)) of
                            None \<Rightarrow> None
                          | Some movesWithDiffs \<Rightarrow> Some (movesWithDiffs, chrKeys1)))))"

section \<open>The entry point\<close>

text \<open>
  Modelled from the spec: the options and \<^verbatim>\<open>LinesDiff\<close>
  (vs/editor/common/diff/linesDiffComputer) are not part of the source file. The
  option \<^verbatim>\<open>computeMoves\<close> is the field \<^verbatim>\<open>computeMovesOpt\<close>.
\<close>

record Options =
  ignoreTrimWhitespace :: bool
  maxComputationTimeMs :: int
  computeMovesOpt :: bool

record LinesDiff =
  changes :: "DetailedLineRangeMapping list"
  moves :: "MovedText list"
  hitTimeout :: bool

text \<open>
  \<^verbatim>\<open>perfectHashes\<close>: the hash of a text is the size of the map when the text is first
  seen; the map is the list of the texts in the order of their hashes.
\<close>

definition getOrCreateHash :: "jsstring \<Rightarrow> jsstring list \<Rightarrow> int \<times> jsstring list" where
  "getOrCreateHash text' perfectHashes =
     (case indexOf text' perfectHashes of
        Some h \<Rightarrow> (int h, perfectHashes)
      | None \<Rightarrow> (int (length perfectHashes), perfectHashes @ [text']))"

fun hashLines :: "jsstring list \<Rightarrow> jsstring list \<Rightarrow> int list \<times> jsstring list" where
  "hashLines [] perfectHashes = ([], perfectHashes)"
| "hashLines (l # ls) perfectHashes =
     (let (h, perfectHashes1) = getOrCreateHash (trim l) perfectHashes;
          (hs, perfectHashes2) = hashLines ls perfectHashes1
      in (h # hs, perfectHashes2))"

text \<open>
  The equality score handed to the dynamic-programming diff. It compares the lines as
  they are, not their trimmed texts. \<^verbatim>\<open>Math.log\<close> is the natural logarithm. Where both
  offsets are outside their arrays the two reads are equal (\<^verbatim>\<open>undefined\<close>) and the length
  read throws.
\<close>

definition equalityScore :: "jsstring list \<Rightarrow> jsstring list \<Rightarrow> int \<Rightarrow> int \<Rightarrow> real option" where
  "equalityScore originalLines modifiedLines offset1 offset2 =
     (if js_nth originalLines offset1 = js_nth modifiedLines offset2
      then (case js_nth modifiedLines offset2 of
              None \<Rightarrow> None
            | Some l \<Rightarrow> Some (if length l = 0 then 0.1 else 1 + ln (1 + real (length l))))
      else Some 0.99)"

text \<open>
  The choice of the line diff: dynamic programming with the equality score when the
  two documents have fewer than 1700 lines together, Myers (with its default timeout,
  the infinite one) otherwise.
\<close>

definition lineAlignmentResult ::
  "Collaborators \<Rightarrow> jsstring list \<Rightarrow> jsstring list \<Rightarrow> LineSequence \<Rightarrow> LineSequence \<Rightarrow> Timeout
   \<Rightarrow> DiffAlgorithmResult" where
  "lineAlignmentResult env originalLines modifiedLines sequence1 sequence2 timeout =
     (if int (length (trimmedHash sequence1)) + int (length (trimmedHash sequence2)) < 1700
      then dynamicProgrammingDiffing env (LineSeq sequence1) (LineSeq sequence2) timeout
             (Some (equalityScore originalLines modifiedLines))
      else myersDiffingAlgorithm env (LineSeq sequence1) (LineSeq sequence2) InfiniteTimeout)"

text \<open>
  \<^verbatim>\<open>scanForWhitespaceChanges\<close>: with \<^verbatim>\<open>considerWhitespaceChanges\<close>, every pair of lines
  of an unchanged run that differ as strings is refined on its own.
\<close>

definition scanStep ::
  "Collaborators \<Rightarrow> jsstring list \<Rightarrow> jsstring list \<Rightarrow> Timeout \<Rightarrow> bool \<Rightarrow> int \<Rightarrow> int
   \<Rightarrow> (RangeMapping list \<times> bool) option \<Rightarrow> int \<Rightarrow> (RangeMapping list \<times> bool) option" where
  "scanStep env originalLines modifiedLines timeout cws seq1LastStart seq2LastStart acc i =
     (case acc of
        None \<Rightarrow> None
      | Some (alignments, hit) \<Rightarrow>
          (let seq1Offset = seq1LastStart + i; seq2Offset = seq2LastStart + i
           in if js_nth originalLines seq1Offset = js_nth modifiedLines seq2Offset then acc
              else (case refineDiff env originalLines modifiedLines
                           \<lparr>seq1Range = \<lparr>start = seq1Offset, endExclusive = seq1Offset + 1\<rparr>,
                            seq2Range = \<lparr>start = seq2Offset, endExclusive = seq2Offset + 1\<rparr>\<rparr>
                           timeout cws of
                      None \<Rightarrow> None
                    | Some (mappings, h) \<Rightarrow> Some (alignments @ mappings, hit \<or> h))))"

definition scanForWhitespaceChanges ::
  "Collaborators \<Rightarrow> jsstring list \<Rightarrow> jsstring list \<Rightarrow> Timeout \<Rightarrow> bool \<Rightarrow> int \<Rightarrow> int \<Rightarrow> int
   \<Rightarrow> RangeMapping list \<times> bool \<Rightarrow> (RangeMapping list \<times> bool) option" where
  "scanForWhitespaceChanges env originalLines modifiedLines timeout cws seq1LastStart seq2LastStart
                            equalLinesCount acc =
     (if \<not> cws then Some acc
      else foldl (scanStep env originalLines modifiedLines timeout cws seq1LastStart seq2LastStart)
             (Some acc) [0 .. equalLinesCount - 1])"

text \<open>
  The loop over the line diffs, then the scan of the lines after the last diff. The
  assertion at the head of the loop body reports and goes on; it is not part of the
  result.
\<close>

fun diffLoop ::
  "Collaborators \<Rightarrow> jsstring list \<Rightarrow> jsstring list \<Rightarrow> Timeout \<Rightarrow> bool \<Rightarrow> SequenceDiff list
   \<Rightarrow> int \<Rightarrow> int \<Rightarrow> RangeMapping list \<times> bool \<Rightarrow> (RangeMapping list \<times> bool) option" where
  "diffLoop env originalLines modifiedLines timeout cws [] seq1LastStart seq2LastStart acc =
     scanForWhitespaceChanges env originalLines modifiedLines timeout cws seq1LastStart seq2LastStart
       (int (length originalLines) - seq1LastStart) acc"
| "diffLoop env originalLines modifiedLines timeout cws (diff # rest) seq1LastStart seq2LastStart acc =
     (case scanForWhitespaceChanges env originalLines modifiedLines timeout cws seq1LastStart
             seq2LastStart (start (seq1Range diff) - seq1LastStart) acc of
        None \<Rightarrow> None
      | Some (alignments, hit) \<Rightarrow>
          (case refineDiff env originalLines modifiedLines diff timeout cws of
             None \<Rightarrow> None
           | Some (mappings, h) \<Rightarrow>
               diffLoop env originalLines modifiedLines timeout cws rest
                 (endExclusive (seq1Range diff)) (endExclusive (seq2Range diff))
                 (alignments @ mappings, hit \<or> h)))"

text \<open>
  What \<^verbatim>\<open>computeDiff\<close> does with the result of the line diff: the two post-processors,
  the loop over the diffs, the aggregation into changes and, when asked for, the moves.
  \<^verbatim>\<open>chrKeys\<close>, the module's map of character keys, is passed in and returned.
\<close>

definition diffFromLineAlignment ::
  "Collaborators \<Rightarrow> nat list \<Rightarrow> jsstring list \<Rightarrow> jsstring list \<Rightarrow> Options \<Rightarrow> Timeout
   \<Rightarrow> LineSequence \<Rightarrow> LineSequence \<Rightarrow> DiffAlgorithmResult \<Rightarrow> (LinesDiff \<times> nat list) option" where
  "diffFromLineAlignment env chrKeys originalLines modifiedLines options timeout sequence1 sequence2
                         result =
     (let cws = (\<not> ignoreTrimWhitespace options);
          lineAlignments1 = optimizeSequenceDiffs env (LineSeq sequence1) (LineSeq sequence2) (fst result);
          lineAlignments2 = removeRandomLineMatches env (LineSeq sequence1) (LineSeq sequence2) lineAlignments1
      in case diffLoop env originalLines modifiedLines timeout cws lineAlignments2 0 0 ([], snd result) of
           None \<Rightarrow> None
         | Some (alignments, hit) \<Rightarrow>
             (case lineRangeMappingFromRangeMappings alignments originalLines modifiedLines of
                None \<Rightarrow> None
              | Some cs \<Rightarrow>
                  if computeMovesOpt options
                  then (case computeMoves env cs originalLines modifiedLines (trimmedHash sequence1)
                               (trimmedHash sequence2) timeout cws chrKeys of
                          None \<Rightarrow> None
                        | Some (ms, chrKeys1) \<Rightarrow>
                            Some (\<lparr>changes = cs, moves = ms, hitTimeout = hit\<rparr>, chrKeys1))
                  else Some (\<lparr>changes = cs, moves = [], hitTimeout = hit\<rparr>, chrKeys)))"

text \<open>
  \<^verbatim>\<open>computeDiff\<close>. The two fast paths come first; the second reads the first line of
  either document. Past them the lines are hashed by their trimmed texts, the line diff
  is chosen and run, and its result is processed as above.
\<close>

definition computeDiff ::
  "Collaborators \<Rightarrow> nat list \<Rightarrow> jsstring list \<Rightarrow> jsstring list \<Rightarrow> Options
   \<Rightarrow> (LinesDiff \<times> nat list) option" where
  "computeDiff env chrKeys originalLines modifiedLines options =
     (if length originalLines \<le> 1 \<and> originalLines = modifiedLines
      then Some (\<lparr>changes = [], moves = [], hitTimeout = False\<rparr>, chrKeys)
      else if (length originalLines = 1 \<and> length (originalLines ! 0) = 0)
              \<or> (length modifiedLines = 1 \<and> length (modifiedLines ! 0) = 0)
      then (case (js_nth originalLines 0, js_nth modifiedLines 0) of
              (Some original0, Some modified0) \<Rightarrow>
                 Some (\<lparr>changes =
                         [\<lparr>original = \<lparr>startLineNumber = 1,
                                        endLineNumberExclusive = int (length originalLines) + 1\<rparr>,
                           modified = \<lparr>startLineNumber = 1,
                                        endLineNumberExclusive = int (length modifiedLines) + 1\<rparr>,
                           innerChanges =
                             [\<lparr>originalRange = mkRange 1 1 (int (length originalLines))
                                                  (int (length original0) + 1),
                               modifiedRange = mkRange 1 1 (int (length modifiedLines))
                                                  (int (length modified0) + 1)\<rparr>]\<rparr>],
                        moves = [], hitTimeout = False\<rparr>, chrKeys)
            | _ \<Rightarrow> None)
      else
        (let timeout = (if maxComputationTimeMs options = 0 then InfiniteTimeout
                        else newDateTimeout env (maxComputationTimeMs options));
             (srcDocLines, perfectHashes1) = hashLines originalLines [];
             (tgtDocLines, perfectHashes2) = hashLines modifiedLines perfectHashes1;
             sequence1 = \<lparr>trimmedHash = srcDocLines, seqLines = originalLines\<rparr>;
             sequence2 = \<lparr>trimmedHash = tgtDocLines, seqLines = modifiedLines\<rparr>
         in diffFromLineAlignment env chrKeys originalLines modifiedLines options timeout
              sequence1 sequence2
              (lineAlignmentResult env originalLines modifiedLines sequence1 sequence2 timeout)))"

text \<open>
  For evaluating the engine on concrete documents, one instance of the collaborators:
  both diff algorithms report nothing for equal sequences and one diff that replaces
  the whole of either sequence otherwise (what the algorithms themselves fall back to
  on a timeout), the post-processors change nothing, and a \<^verbatim>\<open>DateTimeout\<close> never
  expires.
\<close>

definition seqElements :: "ISequence \<Rightarrow> int list" where
  "seqElements s = (case s of LineSeq l \<Rightarrow> trimmedHash l | CharSeq c \<Rightarrow> map int (elements c))"

definition replaceAll :: "ISequence \<Rightarrow> ISequence \<Rightarrow> DiffAlgorithmResult" where
  "replaceAll seq1 seq2 =
     (if seqElements seq1 = seqElements seq2 then ([], False)
      else ([\<lparr>seq1Range = \<lparr>start = 0, endExclusive = int (length (seqElements seq1))\<rparr>,
              seq2Range = \<lparr>start = 0, endExclusive = int (length (seqElements seq2))\<rparr>\<rparr>], False))"

definition plainCollaborators :: Collaborators where
  "plainCollaborators =
     \<lparr>dynamicProgrammingDiffing = (\<lambda>seq1 seq2 timeout score. replaceAll seq1 seq2),
      myersDiffingAlgorithm = (\<lambda>seq1 seq2 timeout. replaceAll seq1 seq2),
      optimizeSequenceDiffs = (\<lambda>seq1 seq2 diffs. diffs),
      removeRandomLineMatches = (\<lambda>seq1 seq2 diffs. diffs),
      smoothenSequenceDiffs = (\<lambda>seq1 seq2 diffs. diffs),
      removeRandomMatches = (\<lambda>seq1 seq2 diffs. diffs),
      newDateTimeout = (\<lambda>ms. InfiniteTimeout)\<rparr>"

section \<open>Vocabulary of the properties\<close>

text \<open>
  Sequence diffs by the start of their first range; two diffs of which the first ends
  strictly before the second starts; a list that is sorted and separated in this way.
\<close>

definition seq1Start :: "SequenceDiff \<Rightarrow> int" where
  "seq1Start d = start (seq1Range d)"

definition separated :: "SequenceDiff \<Rightarrow> SequenceDiff \<Rightarrow> bool" where
  "separated a b = (endExclusive (seq1Range a) < start (seq1Range b))"

definition mergedOk :: "SequenceDiff list \<Rightarrow> bool" where
  "mergedOk ds = (sorted (map seq1Start ds) \<and> checkAdjacentItems separated ds)"

text \<open>
  A predicate that holds on a prefix of a list, which is what a binary search for its
  last index needs; and the two tables of a slice as the constructor keeps them: the
  first offsets sorted, starting with 0, none past the elements, and at most one more
  of them than additional offsets.
\<close>

definition prefixPred :: "('a \<Rightarrow> bool) \<Rightarrow> 'a list \<Rightarrow> bool" where
  "prefixPred p xs = (\<forall>a b. a \<le> b \<and> b < length xs \<and> p (xs ! b) \<longrightarrow> p (xs ! a))"

definition tablesOk :: "nat list \<Rightarrow> int list \<Rightarrow> int list \<Rightarrow> bool" where
  "tablesOk elems firstOffs addOffs =
     (sorted firstOffs \<and> firstOffs \<noteq> [] \<and> hd firstOffs = 0
      \<and> length firstOffs \<le> length addOffs + 1
      \<and> (\<forall>x\<in>set firstOffs. x \<le> int (length elems)))"

text \<open>The inputs that \<^verbatim>\<open>computeDiff\<close> answers on one of its two fast paths.\<close>

definition fastPath :: "jsstring list \<Rightarrow> jsstring list \<Rightarrow> bool" where
  "fastPath originalLines modifiedLines =
     ((length originalLines \<le> 1 \<and> originalLines = modifiedLines)
      \<or> originalLines = [[]] \<or> modifiedLines = [[]])"

text \<open>A mapping whose two line ranges have the same length.\<close>

definition equalLength :: "LineRangeMapping \<Rightarrow> bool" where
  "equalLength m = (lengthL (original m) = lengthL (modified m))"

text \<open>
  The text of a fragment is the lines of its range, each followed by a line feed. The
  character difference of two texts is the sum, over the characters of either, of the
  absolute difference of the character's two counts. \<^verbatim>\<open>counts\<close> says that a histogram
  and a total, read through the keys \<open>ks\<close>, count the characters of a text.
\<close>

definition fragmentText :: "LineRange \<Rightarrow> jsstring list \<Rightarrow> jsstring" where
  "fragmentText r lns =
     concat (map (\<lambda>i. lns ! nat i @ [10]) [startLineNumber r - 1 .. endLineNumberExclusive r - 2])"

definition charDifference :: "jsstring \<Rightarrow> jsstring \<Rightarrow> int" where
  "charDifference t1 t2 = (\<Sum>c\<in>set t1 \<union> set t2. \<bar>int (count_list t1 c) - int (count_list t2 c)\<bar>)"

definition counts :: "nat list \<Rightarrow> int list \<Rightarrow> int \<Rightarrow> jsstring \<Rightarrow> bool" where
  "counts ks h cnt tx =
     (distinct ks \<and> set tx \<subseteq> set ks \<and> length h \<le> length ks \<and> cnt = int (length tx)
      \<and> (\<forall>k<length ks. histAt h k = int (count_list tx (ks ! k))))"

text \<open>
  What the inner loop of the pairing has found after the insertions \<open>seen\<close>: no
  similarity among them is above the highest one, and the best insertion, if there is
  one, is among them and has the highest similarity.
\<close>

definition bestSoFar :: "LineRangeFragment \<Rightarrow> LineRangeFragment list \<Rightarrow> real \<times> LineRangeFragment option \<Rightarrow> bool" where
  "bestSoFar deletion seen acc =
     ((\<forall>x\<in>set seen. \<forall>s. computeSimilarity deletion x = Some s \<longrightarrow> s \<le> fst acc)
      \<and> (case snd acc of
            None \<Rightarrow> fst acc = - 1
          | Some best \<Rightarrow> best \<in> set seen \<and> computeSimilarity deletion best = Some (fst acc)))"

text \<open>
  The pairing loop asks the timeout once after each deletion and returns when the
  answer is no. Of \<open>n\<close> deletions it so handles one more than the number of leading
  answers that are yes, and at most \<open>n\<close>.
\<close>

definition deletionsHandled :: "Timeout \<Rightarrow> nat \<Rightarrow> nat" where
  "deletionsHandled timeout n = min n (Suc (length (takeWhile timeout [0..<n])))"

text \<open>
  Line-range mappings with well-formed ranges; two neighbours in order (starts and ends
  do not decrease, and they are grouped or equally far apart on the two sides); a
  group of such mappings.
\<close>

definition validRanges :: "DetailedLineRangeMapping \<Rightarrow> bool" where
  "validRanges a =
     (startLineNumber (original a) \<le> endLineNumberExclusive (original a)
      \<and> startLineNumber (modified a) \<le> endLineNumberExclusive (modified a))"

definition inOrder :: "DetailedLineRangeMapping \<Rightarrow> DetailedLineRangeMapping \<Rightarrow> bool" where
  "inOrder a b =
     (startLineNumber (original a) \<le> startLineNumber (original b)
      \<and> endLineNumberExclusive (original a) \<le> endLineNumberExclusive (original b)
      \<and> startLineNumber (modified a) \<le> startLineNumber (modified b)
      \<and> endLineNumberExclusive (modified a) \<le> endLineNumberExclusive (modified b)
      \<and> (shouldBeGrouped a b
          \<or> startLineNumber (original b) - endLineNumberExclusive (original a)
              = startLineNumber (modified b) - endLineNumberExclusive (modified a)))"

definition groupOk :: "DetailedLineRangeMapping list \<Rightarrow> bool" where
  "groupOk g = (g \<noteq> [] \<and> successively inOrder g \<and> list_all validRanges g)"

section \<open>Merged sequence diffs are separated\<close>

lemma checkAdjacentItems_successively: "checkAdjacentItems p xs = successively p xs"
  by (induction p xs rule: checkAdjacentItems.induct) auto

lemma pushOrJoin_ok:
  assumes "mergedOk result" and "result \<noteq> [] \<Longrightarrow> seq1Start (last result) \<le> seq1Start nxt"
  shows "mergedOk (pushOrJoin result nxt) \<and> pushOrJoin result nxt \<noteq> []
         \<and> seq1Start (last (pushOrJoin result nxt)) \<le> seq1Start nxt"
proof (cases result rule: rev_cases)
  case Nil
  then show ?thesis by (simp add: pushOrJoin_def mergedOk_def)
next
  case (snoc ys y)
  with assms have le: "seq1Start y \<le> seq1Start nxt" by simp
  from assms(1) snoc have s: "sorted (map seq1Start ys @ [seq1Start y])"
    and a: "successively separated (ys @ [y])"
    by (simp_all add: mergedOk_def checkAdjacentItems_successively)
  show ?thesis
  proof (cases "endExclusive (seq1Range y) \<ge> start (seq1Range nxt)")
    case True
    have st: "seq1Start (joinS y nxt) = seq1Start y"
      using le by (simp add: joinS_def joinO_def seq1Start_def)
    have "successively separated (ys @ [joinS y nxt])"
      using a st by (auto simp: successively_append_iff separated_def seq1Start_def)
    then show ?thesis
      using True snoc s st le by (simp add: pushOrJoin_def mergedOk_def checkAdjacentItems_successively)
  next
    case False
    then have "separated y nxt" by (simp add: separated_def)
    then have "successively separated ((ys @ [y]) @ [nxt])"
      using a by (simp add: successively_append_iff)
    moreover have "sorted (map seq1Start ((ys @ [y]) @ [nxt]))"
      using s le by (auto simp: sorted_append)
    ultimately show ?thesis
      using False snoc by (simp add: pushOrJoin_def mergedOk_def checkAdjacentItems_successively)
  qed
qed

lemma mergeLoop_ok:
  "sorted (map seq1Start xs) \<Longrightarrow> sorted (map seq1Start ys) \<Longrightarrow> mergedOk result \<Longrightarrow>
   (result \<noteq> [] \<Longrightarrow> \<forall>d\<in>set xs \<union> set ys. seq1Start (last result) \<le> seq1Start d) \<Longrightarrow>
   mergedOk (mergeLoop xs ys result)"
proof (induction xs ys result rule: mergeLoop.induct)
  case (1 result)
  then show ?case by simp
next
  case (2 sd1 rest1 result)
  have p: "mergedOk (pushOrJoin result sd1) \<and> pushOrJoin result sd1 \<noteq> []
         \<and> seq1Start (last (pushOrJoin result sd1)) \<le> seq1Start sd1"
    using 2(4,5) by (intro pushOrJoin_ok) auto
  show ?case using 2(2,3) p by (auto intro!: 2(1))
next
  case (3 sd2 rest2 result)
  have p: "mergedOk (pushOrJoin result sd2) \<and> pushOrJoin result sd2 \<noteq> []
         \<and> seq1Start (last (pushOrJoin result sd2)) \<le> seq1Start sd2"
    using 3(4,5) by (intro pushOrJoin_ok) auto
  show ?case using 3(2,3) p by (auto intro!: 3(1))
next
  case (4 sd1 rest1 sd2 rest2 result)
  show ?case
  proof (cases "start (seq1Range sd1) < start (seq1Range sd2)")
    case True
    have p: "mergedOk (pushOrJoin result sd1) \<and> pushOrJoin result sd1 \<noteq> []
         \<and> seq1Start (last (pushOrJoin result sd1)) \<le> seq1Start sd1"
      using 4(5,6) by (intro pushOrJoin_ok) auto
    have "mergedOk (mergeLoop rest1 (sd2 # rest2) (pushOrJoin result sd1))"
      using True 4(3,4) p by (intro 4(1)) (auto simp: seq1Start_def)
    then show ?thesis using True by simp
  next
    case False
    have p: "mergedOk (pushOrJoin result sd2) \<and> pushOrJoin result sd2 \<noteq> []
         \<and> seq1Start (last (pushOrJoin result sd2)) \<le> seq1Start sd2"
      using 4(5,6) by (intro pushOrJoin_ok) auto
    have "mergedOk (mergeLoop (sd1 # rest1) rest2 (pushOrJoin result sd2))"
      using False 4(3,4) p by (intro 4(2)) (auto simp: seq1Start_def)
    then show ?thesis using False by simp
  qed
qed

text \<open>
  C10. For two lists of sequence diffs, each sorted by the start of its range in the
  first sequence, the list that \<^verbatim>\<open>mergeSequenceDiffs\<close> returns is sorted by that start,
  and of every two neighbours in it the earlier ends strictly before the later starts
  (in the first sequence): diffs that touch or overlap have been joined.
\<close>

theorem mergeSequenceDiffs_separated:
  assumes "sorted (map (\<lambda>d. start (seq1Range d)) sequenceDiffs1)"
    and "sorted (map (\<lambda>d. start (seq1Range d)) sequenceDiffs2)"
  shows "sorted (map (\<lambda>d. start (seq1Range d)) (mergeSequenceDiffs sequenceDiffs1 sequenceDiffs2))
       \<and> checkAdjacentItems (\<lambda>a b. endExclusive (seq1Range a) < start (seq1Range b))
            (mergeSequenceDiffs sequenceDiffs1 sequenceDiffs2)"
proof -
  have "mergedOk (mergeLoop sequenceDiffs1 sequenceDiffs2 [])"
    using assms by (intro mergeLoop_ok) (simp_all add: seq1Start_def[abs_def] mergedOk_def)
  then show ?thesis
    by (simp add: mergedOk_def mergeSequenceDiffs_def seq1Start_def[abs_def] separated_def[abs_def])
qed

theorem mergeSequenceDiffs_separated_witness:
  "sorted (map (\<lambda>d. start (seq1Range d))
     (mergeSequenceDiffs
        [\<lparr>seq1Range = \<lparr>start = 0, endExclusive = 2\<rparr>, seq2Range = \<lparr>start = 0, endExclusive = 2\<rparr>\<rparr>,
         \<lparr>seq1Range = \<lparr>start = 5, endExclusive = 6\<rparr>, seq2Range = \<lparr>start = 5, endExclusive = 7\<rparr>\<rparr>]
        [\<lparr>seq1Range = \<lparr>start = 1, endExclusive = 3\<rparr>, seq2Range = \<lparr>start = 1, endExclusive = 3\<rparr>\<rparr>,
         \<lparr>seq1Range = \<lparr>start = 9, endExclusive = 10\<rparr>, seq2Range = \<lparr>start = 10, endExclusive = 11\<rparr>\<rparr>]))
   \<and> checkAdjacentItems (\<lambda>a b. endExclusive (seq1Range a) < start (seq1Range b))
     (mergeSequenceDiffs
        [\<lparr>seq1Range = \<lparr>start = 0, endExclusive = 2\<rparr>, seq2Range = \<lparr>start = 0, endExclusive = 2\<rparr>\<rparr>,
         \<lparr>seq1Range = \<lparr>start = 5, endExclusive = 6\<rparr>, seq2Range = \<lparr>start = 5, endExclusive = 7\<rparr>\<rparr>]
        [\<lparr>seq1Range = \<lparr>start = 1, endExclusive = 3\<rparr>, seq2Range = \<lparr>start = 1, endExclusive = 3\<rparr>\<rparr>,
         \<lparr>seq1Range = \<lparr>start = 9, endExclusive = 10\<rparr>, seq2Range = \<lparr>start = 10, endExclusive = 11\<rparr>\<rparr>])"
  by (rule mergeSequenceDiffs_separated) simp_all

section \<open>The trailing line break of a character mapping\<close>

lemma lineStartDeltaOf_Some:
  assumes "1 \<le> rangeStartLineNumber (modifiedRange rm)"
    and "rangeStartLineNumber (modifiedRange rm) \<le> int (length modifiedLines)"
    and "1 \<le> rangeStartLineNumber (originalRange rm)"
    and "rangeStartLineNumber (originalRange rm) \<le> int (length originalLines)"
  shows "\<exists>d. lineStartDeltaOf rm originalLines modifiedLines e = Some d"
  using assms by (simp add: lineStartDeltaOf_def js_nth_def)

text \<open>
  C9. When the original and the modified range of a mapping both end at column 1, and
  neither ends on a line before the one it starts on (the test of the code for "the
  range is not empty yet"; every \<^verbatim>\<open>Range\<close> passes it), \<^verbatim>\<open>getLineRangeMapping\<close> returns
  line ranges whose exclusive ends are one less than the default, the end line plus 1.
  The start lines are lines of their documents, so that the function returns.
\<close>

theorem getLineRangeMapping_trailing_newline:
  assumes "endColumn (modifiedRange rm) = 1" and "endColumn (originalRange rm) = 1"
    and "rangeStartLineNumber (originalRange rm) \<le> endLineNumber (originalRange rm)"
    and "rangeStartLineNumber (modifiedRange rm) \<le> endLineNumber (modifiedRange rm)"
    and "1 \<le> rangeStartLineNumber (modifiedRange rm)"
    and "rangeStartLineNumber (modifiedRange rm) \<le> int (length modifiedLines)"
    and "1 \<le> rangeStartLineNumber (originalRange rm)"
    and "rangeStartLineNumber (originalRange rm) \<le> int (length originalLines)"
  shows "\<exists>m. getLineRangeMapping rm originalLines modifiedLines = Some m
           \<and> endLineNumberExclusive (original m) = (endLineNumber (originalRange rm) + 1) - 1
           \<and> endLineNumberExclusive (modified m) = (endLineNumber (modifiedRange rm) + 1) - 1"
proof -
  have e: "lineEndDeltaOf rm = - 1"
    using assms(1-4) by (simp add: lineEndDeltaOf_def)
  obtain d where d: "lineStartDeltaOf rm originalLines modifiedLines (- 1) = Some d"
    using lineStartDeltaOf_Some[OF assms(5-8)] by blast
  show ?thesis
    by (simp add: getLineRangeMapping_def e d)
qed

theorem getLineRangeMapping_trailing_newline_witness:
  "\<exists>m. getLineRangeMapping
          \<lparr>originalRange = mkRange 1 2 2 1, modifiedRange = mkRange 1 2 3 1\<rparr>
          [[97, 98], [99]] [[97, 120], [121], [99]] = Some m
       \<and> endLineNumberExclusive (original m) = 2
       \<and> endLineNumberExclusive (modified m) = 3"
  using getLineRangeMapping_trailing_newline
          [where rm = "\<lparr>originalRange = mkRange 1 2 2 1, modifiedRange = mkRange 1 2 3 1\<rparr>"
             and originalLines = "[[97, 98], [99]]" and modifiedLines = "[[97, 120], [121], [99]]"]
  by (simp add: mkRange_def)

section \<open>Offsets of a slice and their positions\<close>

text \<open>
  The binary search returns the greatest index of a prefix predicate, and the
  constructor's table \<^verbatim>\<open>firstCharOffsetByLine\<close> is sorted, starts with 0 and is no
  longer than \<^verbatim>\<open>additionalOffsetByLine\<close>.
\<close>

declare sliceLoop.simps [simp del] findLastIdxLoop.simps [simp del]

lemma findLastIdxLoop_greatest:
  "prefixPred p xs \<Longrightarrow> i \<le> j \<Longrightarrow> j \<le> length xs \<Longrightarrow> (\<forall>k<i. p (xs ! k)) \<Longrightarrow>
         (\<forall>k. j \<le> k \<and> k < length xs \<longrightarrow> \<not> p (xs ! k)) \<Longrightarrow>
         \<exists>r. findLastIdxLoop xs p i j = int r - 1 \<and> r \<le> length xs \<and> (\<forall>k<r. p (xs ! k))
              \<and> (\<forall>k. r \<le> k \<and> k < length xs \<longrightarrow> \<not> p (xs ! k))"
proof (induction xs p i j rule: findLastIdxLoop.induct)
  case (1 array p i j)
  note mono = 1(3)
  show ?case
  proof (cases "i < j")
    case False
    with 1(4-7) have "i = j" by simp
    with 1(4-7) show ?thesis
      by (subst findLastIdxLoop.simps) (auto intro!: exI[of _ i])
  next
    case True
    define k where "k = (i + j) div 2"
    have kb: "i \<le> k" "k < j" using True by (simp_all add: k_def)
    have kl: "k < length array" using kb 1(5) by simp
    show ?thesis
    proof (cases "p (array ! k)")
      case pk: True
      have "\<forall>m<k + 1. p (array ! m)"
      proof (intro allI impI)
        fix m assume "m < k + 1"
        then have "m \<le> k" by simp
        then show "p (array ! m)" using pk kl mono unfolding prefixPred_def by blast
      qed
      then have "\<exists>r. findLastIdxLoop array p (k + 1) j = int r - 1 \<and> r \<le> length array
           \<and> (\<forall>m<r. p (array ! m)) \<and> (\<forall>m. r \<le> m \<and> m < length array \<longrightarrow> \<not> p (array ! m))"
        using 1(1)[OF True k_def pk mono] kb 1(5,7) by auto
      then show ?thesis
        using True pk by (subst findLastIdxLoop.simps) (simp add: k_def Let_def)
    next
      case npk: False
      have "\<forall>m. k \<le> m \<and> m < length array \<longrightarrow> \<not> p (array ! m)"
        using npk mono unfolding prefixPred_def by blast
      then have "\<exists>r. findLastIdxLoop array p i k = int r - 1 \<and> r \<le> length array
           \<and> (\<forall>m<r. p (array ! m)) \<and> (\<forall>m. r \<le> m \<and> m < length array \<longrightarrow> \<not> p (array ! m))"
        using 1(2)[OF True k_def npk mono] kb 1(5,6) by auto
      then show ?thesis
        using True npk by (subst findLastIdxLoop.simps) (simp add: k_def Let_def)
    qed
  qed
qed

lemma findLastIdxMonotonous_greatest:
  assumes "prefixPred p xs"
  shows "\<exists>r. findLastIdxMonotonous xs p = int r - 1 \<and> r \<le> length xs \<and> (\<forall>k<r. p (xs ! k))
              \<and> (\<forall>k. r \<le> k \<and> k < length xs \<longrightarrow> \<not> p (xs ! k))"
proof -
  have "\<forall>k. length xs \<le> k \<and> k < length xs \<longrightarrow> \<not> p (xs ! k)" by auto
  then show ?thesis
    unfolding findLastIdxMonotonous_def
    using findLastIdxLoop_greatest[OF assms, of 0 "length xs"] by blast
qed

lemma prefixPred_sorted: "sorted xs \<Longrightarrow> prefixPred (\<lambda>v. v \<le> (offset::int)) xs"
  unfolding prefixPred_def by (meson order_trans sorted_nth_mono)

lemma tablesOk_push:
  "tablesOk elems fo ao \<Longrightarrow> tablesOk (elems @ line @ [10]) (fo @ [int (length (elems @ line @ [10]))]) (ao @ [x])"
  unfolding tablesOk_def by (cases fo) (auto simp: sorted_append)

lemma tablesOk_keep:
  "tablesOk elems fo ao \<Longrightarrow> tablesOk (elems @ line) fo (ao @ [x])"
  unfolding tablesOk_def by auto

lemma sliceLoop_tablesOk:
  "sliceLoop lns cws endEx i t elems fo ao = Some (e, f, a) \<Longrightarrow> tablesOk elems fo ao \<Longrightarrow> tablesOk e f a"
proof (induction lns cws endEx i t elems fo ao rule: sliceLoop.induct)
  case (1 lns cws endEx i t elems fo ao)
  show ?case
  proof (cases "i < endEx")
    case False
    with 1(3,4) show ?thesis by (simp add: sliceLoop.simps)
  next
    case True
    then obtain l where l: "js_nth lns i = Some l"
      using 1(3) by (subst (asm) sliceLoop.simps) (auto split: option.splits)
    show ?thesis
    proof (cases "i < int (length lns) - 1")
      case lf: True
      have "sliceLoop lns cws endEx (i + 1) False (elems @ snd (normaliseLine t cws l) @ [10])
              (fo @ [int (length (elems @ snd (normaliseLine t cws l) @ [10]))])
              (ao @ [fst (normaliseLine t cws l)]) = Some (e, f, a)"
        using 1(3) True l lf by (subst (asm) sliceLoop.simps) (simp add: Let_def)
      then show ?thesis
        using 1(1)[OF True l refl refl lf] tablesOk_push[OF 1(4)] by blast
    next
      case nlf: False
      have "sliceLoop lns cws endEx (i + 1) False (elems @ snd (normaliseLine t cws l)) fo
              (ao @ [fst (normaliseLine t cws l)]) = Some (e, f, a)"
        using 1(3) True l nlf by (subst (asm) sliceLoop.simps) (simp add: Let_def)
      then show ?thesis
        using 1(2)[OF True l refl refl nlf] tablesOk_keep[OF 1(4)] by blast
    qed
  qed
qed

lemma newSlice_tablesOk:
  assumes "newLinesSliceCharSequence lns r cws = Some s"
  shows "tablesOk (elements s) (firstCharOffsetByLine s) (butlast (additionalOffsetByLine s))"
    and "additionalOffsetByLine s \<noteq> []"
    and "lineRange s = fst (effectiveLineRange lns r)"
proof -
  obtain r' t where rt: "effectiveLineRange lns r = (r', t)" by (cases "effectiveLineRange lns r")
  obtain e f a where efa: "sliceLoop lns cws (endExclusive r') (start r') t [] [0] [] = Some (e, f, a)"
    and s: "s = \<lparr>elements = e, firstCharOffsetByLine = f, lineRange = r',
                additionalOffsetByLine = a @ [0], lines = lns, considerWhitespaceChanges = cws\<rparr>"
    using assms rt by (auto simp: newLinesSliceCharSequence_def split: option.splits)
  have "tablesOk [] [0] []" by (simp add: tablesOk_def)
  from sliceLoop_tablesOk[OF efa this] s rt
  show "tablesOk (elements s) (firstCharOffsetByLine s) (butlast (additionalOffsetByLine s))"
    and "additionalOffsetByLine s \<noteq> []"
    and "lineRange s = fst (effectiveLineRange lns r)" by simp_all
qed

text \<open>
  C7. For a slice built by the constructor and an offset \<open>0 \<le> o\<close>: when the (effective)
  line range of the slice is empty, \<^verbatim>\<open>translateOffset\<close> returns line \<open>ls + 1\<close>, column 1;
  otherwise it returns line \<open>ls + k + 1\<close> and column
  \<open>o - firstCharOffsetByLine[k] + additionalOffsetByLine[k] + 1\<close>, where \<open>k\<close> is the greatest
  index with \<open>firstCharOffsetByLine[k] \<le> o\<close> and \<open>ls\<close> the start of the effective line
  range.
\<close>

theorem translateOffset_position:
  assumes "newLinesSliceCharSequence lns r cws = Some s" and "0 \<le> offset"
  shows "lineRange s = fst (effectiveLineRange lns r)
       \<and> (if isEmptyO (lineRange s)
          then translateOffset s offset = Some \<lparr>lineNumber = start (lineRange s) + 1, column = 1\<rparr>
          else \<exists>k<length (firstCharOffsetByLine s).
                 firstCharOffsetByLine s ! k \<le> offset
               \<and> (\<forall>j<length (firstCharOffsetByLine s). firstCharOffsetByLine s ! j \<le> offset \<longrightarrow> j \<le> k)
               \<and> translateOffset s offset =
                   Some \<lparr>lineNumber = start (lineRange s) + int k + 1,
                         column = offset - firstCharOffsetByLine s ! k + additionalOffsetByLine s ! k + 1\<rparr>)"
proof (cases "isEmptyO (lineRange s)")
  case True
  then show ?thesis using newSlice_tablesOk(3)[OF assms(1)] by (simp add: translateOffset_def)
next
  case False
  let ?f = "firstCharOffsetByLine s" and ?a = "additionalOffsetByLine s"
  have ok: "tablesOk (elements s) ?f (butlast ?a)" and ne: "?a \<noteq> []"
    using newSlice_tablesOk[OF assms(1)] by simp_all
  then have srt: "sorted ?f" and fne: "?f \<noteq> []" and f0: "?f ! 0 = 0" and len: "length ?f \<le> length ?a"
    by (auto simp: tablesOk_def hd_conv_nth)
  obtain q where q: "findLastIdxMonotonous ?f (\<lambda>v. v \<le> offset) = int q - 1" "q \<le> length ?f"
    "\<forall>k<q. ?f ! k \<le> offset" "\<forall>k. q \<le> k \<and> k < length ?f \<longrightarrow> \<not> ?f ! k \<le> offset"
    using findLastIdxMonotonous_greatest[OF prefixPred_sorted[OF srt, of offset]] by blast
  have "q \<noteq> 0" using q(4)[rule_format, of 0] fne f0 assms(2) by auto
  then obtain k where k: "q = Suc k" by (cases q) auto
  have kl: "k < length ?f" using q(2) k by simp
  have gr: "\<forall>j<length ?f. ?f ! j \<le> offset \<longrightarrow> j \<le> k"
    using q(4) k by (metis not_less_eq_eq)
  have "translateOffset s offset =
          Some \<lparr>lineNumber = start (lineRange s) + int k + 1,
                column = offset - ?f ! k + ?a ! k + 1\<rparr>"
    using False q(1) k kl len by (simp add: translateOffset_def js_nth_def)
  then show ?thesis
    using False kl q(3) k gr newSlice_tablesOk(3)[OF assms(1)] by auto
qed

theorem translateOffset_position_witness:
  "translateOffset
      \<lparr>elements = [10, 99, 10, 100], firstCharOffsetByLine = [0, 1, 3],
       lineRange = \<lparr>start = 0, endExclusive = 3\<rparr>, additionalOffsetByLine = [5, 0, 0, 0],
       lines = [[32, 32, 97, 98, 32], [99], [100]], considerWhitespaceChanges = False\<rparr> 2
     = Some \<lparr>lineNumber = 2, column = 2\<rparr>"
proof -
  let ?s = "\<lparr>elements = [10, 99, 10, 100], firstCharOffsetByLine = [0, 1, 3],
       lineRange = \<lparr>start = 0, endExclusive = 3\<rparr>, additionalOffsetByLine = [5, 0, 0, 0],
       lines = [[32, 32, 97, 98, 32], [99], [100]], considerWhitespaceChanges = False\<rparr>"
  have built: "newLinesSliceCharSequence [[32, 32, 97, 98, 32], [99], [100]]
                 \<lparr>start = 1, endExclusive = 3\<rparr> False = Some ?s"
    by (simp add: newLinesSliceCharSequence_def effectiveLineRange_def sliceLoop.simps js_nth_def
          normaliseLine_def trimStart_def trimEnd_def isWhiteSpace_def)
  have "0 \<le> (2::int)" by simp
  from translateOffset_position[OF built this]
  obtain k where k: "k < 3" "[0, 1, 3::int] ! k \<le> 2"
      "\<forall>j<3. [0, 1, 3::int] ! j \<le> 2 \<longrightarrow> j \<le> k"
      "translateOffset ?s 2 = Some \<lparr>lineNumber = 0 + int k + 1,
          column = 2 - [0, 1, 3] ! k + [5, 0, 0, 0] ! k + 1\<rparr>"
    by (auto simp: isEmptyO_def)
  from k(3) have "1 \<le> k" by (simp add: nth_Cons')
  moreover from k(1,2) have "k \<noteq> 2" by auto
  ultimately have "k = 1" using k(1) by simp
  with k(4) show ?thesis by simp
qed

section \<open>Line feeds of a slice\<close>

lemma normaliseLine_subset: "set (snd (normaliseLine t cws l)) \<subseteq> set l"
  by (auto simp: normaliseLine_def trimStart_def trimEnd_def Let_def dest!: set_dropWhileD)

lemma sliceLoop_count:
  "0 \<le> i \<Longrightarrow> endEx \<le> int (length lns) \<Longrightarrow> \<forall>l\<in>set lns. 10 \<notin> set l \<Longrightarrow>
   \<exists>e f a. sliceLoop lns cws endEx i t elems fo ao = Some (e, f, a)
     \<and> int (count_list e 10) = int (count_list elems 10)
          + (if i < endEx \<and> endEx = int (length lns) then endEx - i - 1 else max 0 (endEx - i))"
proof (induction lns cws endEx i t elems fo ao rule: sliceLoop.induct)
  case (1 lns cws endEx i t elems fo ao)
  show ?case
  proof (cases "i < endEx")
    case False
    then show ?thesis by (subst sliceLoop.simps) simp
  next
    case True
    define l where "l = lns ! nat i"
    have l: "js_nth lns i = Some l" using True 1(3,4) by (simp add: js_nth_def l_def)
    have "l \<in> set lns" using True 1(3,4) by (simp add: l_def)
    then have "10 \<notin> set l" using 1(5) by blast
    then have nolf: "count_list (snd (normaliseLine t cws l)) 10 = 0"
      using normaliseLine_subset[of t cws l] by (auto simp: count_list_0_iff)
    show ?thesis
    proof (cases "i < int (length lns) - 1")
      case lf: True
      obtain e f a where r: "sliceLoop lns cws endEx (i + 1) False (elems @ snd (normaliseLine t cws l) @ [10])
              (fo @ [int (length (elems @ snd (normaliseLine t cws l) @ [10]))])
              (ao @ [fst (normaliseLine t cws l)]) = Some (e, f, a)"
        and c: "int (count_list e 10) = int (count_list (elems @ snd (normaliseLine t cws l) @ [10]) 10)
          + (if i + 1 < endEx \<and> endEx = int (length lns) then endEx - (i + 1) - 1 else max 0 (endEx - (i + 1)))"
        using 1(1)[OF True l refl refl lf] 1(3,4,5) by force
      have "sliceLoop lns cws endEx i t elems fo ao = Some (e, f, a)"
        using r True l lf by (subst sliceLoop.simps) (simp add: Let_def)
      moreover have "int (count_list e 10) = int (count_list elems 10)
          + (if i < endEx \<and> endEx = int (length lns) then endEx - i - 1 else max 0 (endEx - i))"
        using c nolf True lf by (auto split: if_splits)
      ultimately show ?thesis by blast
    next
      case nlf: False
      obtain e f a where r: "sliceLoop lns cws endEx (i + 1) False (elems @ snd (normaliseLine t cws l)) fo
              (ao @ [fst (normaliseLine t cws l)]) = Some (e, f, a)"
        and c: "int (count_list e 10) = int (count_list (elems @ snd (normaliseLine t cws l)) 10)
          + (if i + 1 < endEx \<and> endEx = int (length lns) then endEx - (i + 1) - 1 else max 0 (endEx - (i + 1)))"
        using 1(2)[OF True l refl refl nlf] 1(3,4,5) by force
      have "sliceLoop lns cws endEx i t elems fo ao = Some (e, f, a)"
        using r True l nlf by (subst sliceLoop.simps) (simp add: Let_def)
      moreover have "int (count_list e 10) = int (count_list elems 10)
          + (if i < endEx \<and> endEx = int (length lns) then endEx - i - 1 else max 0 (endEx - i))"
        using c nolf True nlf 1(4) by (auto split: if_splits)
      ultimately show ?thesis by blast
    qed
  qed
qed

text \<open>
  C8. For a document of at least one line, none of which holds a line feed, and a line
  range \<open>[ls, le)\<close> inside it, the constructor returns a slice whose elements hold
  exactly \<open>lines.length - 1\<close> line feeds when the range is the whole document, and
  exactly \<open>le - ls\<close> otherwise (the case \<open>ls > 0\<close> and \<open>le = lines.length\<close>, where the
  slice starts one line earlier with that line trimmed to nothing, included).
\<close>

theorem slice_line_feed_count:
  assumes "lns \<noteq> []" and "\<forall>l\<in>set lns. 10 \<notin> set l"
    and "0 \<le> ls" and "ls \<le> le" and "le \<le> int (length lns)"
  shows "\<exists>s. newLinesSliceCharSequence lns \<lparr>start = ls, endExclusive = le\<rparr> cws = Some s
           \<and> int (count_list (elements s) 10)
               = (if ls = 0 \<and> le = int (length lns) then int (length lns) - 1 else le - ls)"
proof (cases "ls > 0 \<and> le \<ge> int (length lns)")
  case True
  then have eff: "effectiveLineRange lns \<lparr>start = ls, endExclusive = le\<rparr>
                  = (\<lparr>start = ls - 1, endExclusive = le\<rparr>, True)"
    by (simp add: effectiveLineRange_def)
  obtain e f a where r: "sliceLoop lns cws le (ls - 1) True [] [0] [] = Some (e, f, a)"
    and c: "int (count_list e 10) = int (count_list [] 10)
          + (if ls - 1 < le \<and> le = int (length lns) then le - (ls - 1) - 1 else max 0 (le - (ls - 1)))"
    using sliceLoop_count[of "ls - 1" le lns cws True "[]" "[0]" "[]"] True assms by auto
  show ?thesis
    using r c True assms by (auto simp: newLinesSliceCharSequence_def eff)
next
  case False
  then have eff: "effectiveLineRange lns \<lparr>start = ls, endExclusive = le\<rparr>
                  = (\<lparr>start = ls, endExclusive = le\<rparr>, False)"
    by (auto simp: effectiveLineRange_def)
  obtain e f a where r: "sliceLoop lns cws le ls False [] [0] [] = Some (e, f, a)"
    and c: "int (count_list e 10) = int (count_list [] 10)
          + (if ls < le \<and> le = int (length lns) then le - ls - 1 else max 0 (le - ls))"
    using sliceLoop_count[of ls le lns cws False "[]" "[0]" "[]"] assms by auto
  show ?thesis
    using r c False assms by (auto simp: newLinesSliceCharSequence_def eff)
qed

theorem slice_line_feed_count_witness:
  "\<exists>s. newLinesSliceCharSequence [[32, 97], [98], [99, 100]] \<lparr>start = 1, endExclusive = 3\<rparr> False = Some s
       \<and> int (count_list (elements s) 10) = 2"
  using slice_line_feed_count[of "[[32, 97], [98], [99, 100]]" 1 3 False] by simp

section \<open>The choice of the line diff and its equality score\<close>

lemma length_hashLines: "length (fst (hashLines ls hs)) = length ls"
proof (induction ls arbitrary: hs)
  case Nil
  show ?case by simp
next
  case (Cons l ls)
  obtain h hs1 where a: "getOrCreateHash (trim l) hs = (h, hs1)"
    by (cases "getOrCreateHash (trim l) hs")
  obtain r hs2 where b: "hashLines ls hs1 = (r, hs2)" by (cases "hashLines ls hs1")
  from Cons[of hs1] b have "length r = length ls" by simp
  then show ?case by (simp add: a b)
qed

lemma single_empty: "(length xs = 1 \<and> length (xs ! 0) = 0) = (xs = [[]])"
  by (cases xs) auto

text \<open>
  C3, as the code has it. Past the two fast paths, \<^verbatim>\<open>computeDiff\<close> processes the result
  of the dynamic-programming diff, run with the equality score, when the two documents
  have fewer than 1700 lines together, and the result of the Myers diff otherwise. The
  score of original line \<open>i\<close> and modified line \<open>j\<close> is 0.99 when the two lines differ
  as strings (untrimmed), 0.1 when they are equal and empty, and
  \<open>1 + ln (1 + length of modified line j)\<close> otherwise.
\<close>

theorem computeDiff_line_diff_choice:
  assumes "\<not> fastPath originalLines modifiedLines"
    and "i < length originalLines" and "j < length modifiedLines"
  shows "computeDiff env chrKeys originalLines modifiedLines options =
           (let timeout = (if maxComputationTimeMs options = 0 then InfiniteTimeout
                           else newDateTimeout env (maxComputationTimeMs options));
                sequence1 = \<lparr>trimmedHash = fst (hashLines originalLines []), seqLines = originalLines\<rparr>;
                sequence2 = \<lparr>trimmedHash = fst (hashLines modifiedLines (snd (hashLines originalLines []))),
                             seqLines = modifiedLines\<rparr>
            in diffFromLineAlignment env chrKeys originalLines modifiedLines options timeout
                 sequence1 sequence2
                 (if int (length originalLines) + int (length modifiedLines) < 1700
                  then dynamicProgrammingDiffing env (LineSeq sequence1) (LineSeq sequence2) timeout
                         (Some (equalityScore originalLines modifiedLines))
                  else myersDiffingAlgorithm env (LineSeq sequence1) (LineSeq sequence2) InfiniteTimeout))
       \<and> equalityScore originalLines modifiedLines (int i) (int j) =
           Some (if originalLines ! i \<noteq> modifiedLines ! j then 0.99
                 else if length (modifiedLines ! j) = 0 then 0.1
                 else 1 + ln (1 + real (length (modifiedLines ! j))))"
proof -
  have nf: "\<not> (length originalLines \<le> 1 \<and> originalLines = modifiedLines)"
    "\<not> ((length originalLines = 1 \<and> length (originalLines ! 0) = 0)
        \<or> (length modifiedLines = 1 \<and> length (modifiedLines ! 0) = 0))"
    using assms(1) unfolding fastPath_def single_empty by auto
  have "computeDiff env chrKeys originalLines modifiedLines options =
           (let timeout = (if maxComputationTimeMs options = 0 then InfiniteTimeout
                           else newDateTimeout env (maxComputationTimeMs options));
                sequence1 = \<lparr>trimmedHash = fst (hashLines originalLines []), seqLines = originalLines\<rparr>;
                sequence2 = \<lparr>trimmedHash = fst (hashLines modifiedLines (snd (hashLines originalLines []))),
                             seqLines = modifiedLines\<rparr>
            in diffFromLineAlignment env chrKeys originalLines modifiedLines options timeout
                 sequence1 sequence2
                 (if int (length originalLines) + int (length modifiedLines) < 1700
                  then dynamicProgrammingDiffing env (LineSeq sequence1) (LineSeq sequence2) timeout
                         (Some (equalityScore originalLines modifiedLines))
                  else myersDiffingAlgorithm env (LineSeq sequence1) (LineSeq sequence2) InfiniteTimeout))"
    apply (simp only: computeDiff_def nf if_False)
    apply (simp add: Let_def lineAlignmentResult_def length_hashLines case_prod_beta)
    done
  moreover have "equalityScore originalLines modifiedLines (int i) (int j) =
           Some (if originalLines ! i \<noteq> modifiedLines ! j then 0.99
                 else if length (modifiedLines ! j) = 0 then 0.1
                 else 1 + ln (1 + real (length (modifiedLines ! j))))"
    using assms(2,3) by (simp add: equalityScore_def js_nth_def)
  ultimately show ?thesis by blast
qed

theorem computeDiff_line_diff_choice_witness:
  "computeDiff plainCollaborators [] [[120], [32, 32]] [[120], []]
     \<lparr>ignoreTrimWhitespace = True, maxComputationTimeMs = 0, computeMovesOpt = False\<rparr>
   = Some (\<lparr>changes = [], moves = [], hitTimeout = False\<rparr>, [])
   \<and> equalityScore [[120], [32, 32]] [[120], []] 1 1 = Some 0.99"
  using computeDiff_line_diff_choice[of "[[120], [32, 32]]" "[[120], []]" 1 1 plainCollaborators "[]"
        "\<lparr>ignoreTrimWhitespace = True, maxComputationTimeMs = 0, computeMovesOpt = False\<rparr>"]
  by (simp add: fastPath_def getOrCreateHash_def trim_def trimStart_def trimEnd_def isWhiteSpace_def
      plainCollaborators_def replaceAll_def seqElements_def diffFromLineAlignment_def
      scanForWhitespaceChanges_def lineRangeMappingFromRangeMappings_def groupAdjacentBy_def)

text \<open>
  The claim as the spec states it fails: the second lines of these two documents have
  equal trimmed texts and the modified one is empty, yet their score is 0.99, not 0.1.
\<close>

theorem equalityScore_trimmed_counterexample:
  "trim ([[120], [32, 32]] ! 1) = trim ([[120], []] ! 1)
   \<and> length ([[120], []] ! 1) = 0
   \<and> equalityScore [[120], [32, 32]] [[120], []] 1 1 = Some 0.99
   \<and> equalityScore [[120], [32, 32]] [[120], []] 1 1 \<noteq> Some 0.1"
  by (simp add: equalityScore_def js_nth_def trim_def trimStart_def trimEnd_def isWhiteSpace_def)

section \<open>The fast path for a document of one empty line\<close>

lemma computeDiff_single_empty_line:
  assumes "originalLines = [[]] \<or> modifiedLines = [[]]"
    and "originalLines \<noteq> modifiedLines" and "originalLines \<noteq> []" and "modifiedLines \<noteq> []"
  shows "computeDiff env chrKeys originalLines modifiedLines options =
     Some (\<lparr>changes =
             [\<lparr>original = \<lparr>startLineNumber = 1, endLineNumberExclusive = int (length originalLines) + 1\<rparr>,
               modified = \<lparr>startLineNumber = 1, endLineNumberExclusive = int (length modifiedLines) + 1\<rparr>,
               innerChanges =
                 [\<lparr>originalRange =
                     \<lparr>rangeStartLineNumber = 1, startColumn = 1,
                      endLineNumber = int (length originalLines),
                      endColumn = int (length (hd originalLines)) + 1\<rparr>,
                   modifiedRange =
                     \<lparr>rangeStartLineNumber = 1, startColumn = 1,
                      endLineNumber = int (length modifiedLines),
                      endColumn = int (length (hd modifiedLines)) + 1\<rparr>\<rparr>]\<rparr>],
            moves = [], hitTimeout = False\<rparr>, chrKeys)"
proof -
  have c: "(length originalLines = 1 \<and> length (originalLines ! 0) = 0)
        \<or> (length modifiedLines = 1 \<and> length (modifiedLines ! 0) = 0)"
    using assms(1) unfolding single_empty by simp
  have o: "js_nth originalLines 0 = Some (hd originalLines)"
    using assms(3) by (cases originalLines) (simp_all add: js_nth_def)
  have m: "js_nth modifiedLines 0 = Some (hd modifiedLines)"
    using assms(4) by (cases modifiedLines) (simp_all add: js_nth_def)
  have l: "1 \<le> int (length originalLines)" "1 \<le> int (length modifiedLines)"
    using assms(3,4) by (simp_all add: Suc_leI)
  show ?thesis
    apply (simp only: computeDiff_def assms(2) c simp_thms if_True if_False)
    using l assms(3,4) apply (simp add: o m mkRange_def)
    done
qed

text \<open>
  C4, at an input where the code departs from it. The original is one empty line and
  the modified document is the two lines \<^verbatim>\<open>abc\<close> and \<^verbatim>\<open>de\<close>. The one change has the
  line ranges of the claim, but its inner modified range ends at line 2, column 4: the
  column after the last character of the first line, not of the last line (column 3).
\<close>

theorem computeDiff_single_empty_line_first_line_column:
  "computeDiff env chrKeys [[]] [[97, 98, 99], [100, 101]] options =
     Some (\<lparr>changes =
             [\<lparr>original = \<lparr>startLineNumber = 1, endLineNumberExclusive = 2\<rparr>,
               modified = \<lparr>startLineNumber = 1, endLineNumberExclusive = 3\<rparr>,
               innerChanges =
                 [\<lparr>originalRange = \<lparr>rangeStartLineNumber = 1, startColumn = 1,
                                     endLineNumber = 1, endColumn = 1\<rparr>,
                   modifiedRange = \<lparr>rangeStartLineNumber = 1, startColumn = 1,
                                     endLineNumber = 2, endColumn = 4\<rparr>\<rparr>]\<rparr>],
            moves = [], hitTimeout = False\<rparr>, chrKeys)"
  by (simp add: computeDiff_def js_nth_def mkRange_def)

section \<open>Moves on two concrete documents\<close>

lemma isValid_InfiniteTimeout: "isValid InfiniteTimeout = (True, InfiniteTimeout)"
  by (simp add: isValid_def InfiniteTimeout_def)

text \<open>
  First document pair: a block of three lines moves from the start of a seven-line
  document to its end, where an empty line follows it. The changes are the deletion
  of the block and the insertion of the block with the empty line.
\<close>

lemma blockToEnd_deletions:
  "filter isSimpleDeletion (enumerate 0
     [\<lparr>original = \<lparr>startLineNumber = 1, endLineNumberExclusive = 4\<rparr>, modified = \<lparr>startLineNumber = 1, endLineNumberExclusive = 1\<rparr>, innerChanges = [\<lparr>originalRange = \<lparr>rangeStartLineNumber = 1, startColumn = 1, endLineNumber = 4, endColumn = 1\<rparr>, modifiedRange = \<lparr>rangeStartLineNumber = 1, startColumn = 1, endLineNumber = 1, endColumn = 1\<rparr>\<rparr>]\<rparr>,
      \<lparr>original = \<lparr>startLineNumber = 8, endLineNumberExclusive = 8\<rparr>, modified = \<lparr>startLineNumber = 5, endLineNumberExclusive = 9\<rparr>, innerChanges = [\<lparr>originalRange = \<lparr>rangeStartLineNumber = 7, startColumn = 2, endLineNumber = 7, endColumn = 2\<rparr>, modifiedRange = \<lparr>rangeStartLineNumber = 4, startColumn = 2, endLineNumber = 8, endColumn = 1\<rparr>\<rparr>]\<rparr>])
   = [(0, \<lparr>original = \<lparr>startLineNumber = 1, endLineNumberExclusive = 4\<rparr>, modified = \<lparr>startLineNumber = 1, endLineNumberExclusive = 1\<rparr>, innerChanges = [\<lparr>originalRange = \<lparr>rangeStartLineNumber = 1, startColumn = 1, endLineNumber = 4, endColumn = 1\<rparr>, modifiedRange = \<lparr>rangeStartLineNumber = 1, startColumn = 1, endLineNumber = 1, endColumn = 1\<rparr>\<rparr>]\<rparr>)]"
  by (simp add: isSimpleDeletion_def isEmptyL_def lengthL_def)

lemma blockToEnd_insertions:
  "filter isSimpleInsertion (enumerate 0
     [\<lparr>original = \<lparr>startLineNumber = 1, endLineNumberExclusive = 4\<rparr>, modified = \<lparr>startLineNumber = 1, endLineNumberExclusive = 1\<rparr>, innerChanges = [\<lparr>originalRange = \<lparr>rangeStartLineNumber = 1, startColumn = 1, endLineNumber = 4, endColumn = 1\<rparr>, modifiedRange = \<lparr>rangeStartLineNumber = 1, startColumn = 1, endLineNumber = 1, endColumn = 1\<rparr>\<rparr>]\<rparr>,
      \<lparr>original = \<lparr>startLineNumber = 8, endLineNumberExclusive = 8\<rparr>, modified = \<lparr>startLineNumber = 5, endLineNumberExclusive = 9\<rparr>, innerChanges = [\<lparr>originalRange = \<lparr>rangeStartLineNumber = 7, startColumn = 2, endLineNumber = 7, endColumn = 2\<rparr>, modifiedRange = \<lparr>rangeStartLineNumber = 4, startColumn = 2, endLineNumber = 8, endColumn = 1\<rparr>\<rparr>]\<rparr>])
   = [(Suc 0, \<lparr>original = \<lparr>startLineNumber = 8, endLineNumberExclusive = 8\<rparr>, modified = \<lparr>startLineNumber = 5, endLineNumberExclusive = 9\<rparr>, innerChanges = [\<lparr>originalRange = \<lparr>rangeStartLineNumber = 7, startColumn = 2, endLineNumber = 7, endColumn = 2\<rparr>, modifiedRange = \<lparr>rangeStartLineNumber = 4, startColumn = 2, endLineNumber = 8, endColumn = 1\<rparr>\<rparr>]\<rparr>)]"
  by (simp add: isSimpleInsertion_def isEmptyL_def lengthL_def)

lemma blockToEnd_deletion_fragment:
  "newFragments original [[97], [98], [99], [119], [120], [121], [122]]
     [(0, \<lparr>original = \<lparr>startLineNumber = 1, endLineNumberExclusive = 4\<rparr>, modified = \<lparr>startLineNumber = 1, endLineNumberExclusive = 1\<rparr>, innerChanges = [\<lparr>originalRange = \<lparr>rangeStartLineNumber = 1, startColumn = 1, endLineNumber = 4, endColumn = 1\<rparr>, modifiedRange = \<lparr>rangeStartLineNumber = 1, startColumn = 1, endLineNumber = 1, endColumn = 1\<rparr>\<rparr>]\<rparr>)] []
   = Some ([\<lparr>rangeF = \<lparr>startLineNumber = 1, endLineNumberExclusive = 4\<rparr>, source = 0, totalCount = 6, histogram = [1, 3, 1, 1]\<rparr>], [97, 10, 98, 99])"
  by (simp add: newLineRangeFragment_def js_nth_def addLine_def addChar_def getKey_def bump_def)

lemma blockToEnd_insertion_fragment:
  "newFragments modified [[119], [120], [121], [122], [97], [98], [99], []]
     [(Suc 0, \<lparr>original = \<lparr>startLineNumber = 8, endLineNumberExclusive = 8\<rparr>, modified = \<lparr>startLineNumber = 5, endLineNumberExclusive = 9\<rparr>, innerChanges = [\<lparr>originalRange = \<lparr>rangeStartLineNumber = 7, startColumn = 2, endLineNumber = 7, endColumn = 2\<rparr>, modifiedRange = \<lparr>rangeStartLineNumber = 4, startColumn = 2, endLineNumber = 8, endColumn = 1\<rparr>\<rparr>]\<rparr>)] [97, 10, 98, 99]
   = Some ([\<lparr>rangeF = \<lparr>startLineNumber = 5, endLineNumberExclusive = 9\<rparr>, source = Suc 0, totalCount = 7, histogram = [1, 4, 1, 1]\<rparr>], [97, 10, 98, 99])"
  by (simp add: newLineRangeFragment_def js_nth_def addLine_def addChar_def getKey_def bump_def)

lemma blockToEnd_pairing:
  "computeMovesFromSimpleDeletionsToSimpleInsertions
     [\<lparr>original = \<lparr>startLineNumber = 1, endLineNumberExclusive = 4\<rparr>, modified = \<lparr>startLineNumber = 1, endLineNumberExclusive = 1\<rparr>, innerChanges = [\<lparr>originalRange = \<lparr>rangeStartLineNumber = 1, startColumn = 1, endLineNumber = 4, endColumn = 1\<rparr>, modifiedRange = \<lparr>rangeStartLineNumber = 1, startColumn = 1, endLineNumber = 1, endColumn = 1\<rparr>\<rparr>]\<rparr>,
      \<lparr>original = \<lparr>startLineNumber = 8, endLineNumberExclusive = 8\<rparr>, modified = \<lparr>startLineNumber = 5, endLineNumberExclusive = 9\<rparr>, innerChanges = [\<lparr>originalRange = \<lparr>rangeStartLineNumber = 7, startColumn = 2, endLineNumber = 7, endColumn = 2\<rparr>, modifiedRange = \<lparr>rangeStartLineNumber = 4, startColumn = 2, endLineNumber = 8, endColumn = 1\<rparr>\<rparr>]\<rparr>]
     [[97], [98], [99], [119], [120], [121], [122]]
     [[119], [120], [121], [122], [97], [98], [99], []] InfiniteTimeout []
   = Some (([\<lparr>original = \<lparr>startLineNumber = 1, endLineNumberExclusive = 4\<rparr>, modified = \<lparr>startLineNumber = 5, endLineNumberExclusive = 9\<rparr>\<rparr>], [0, Suc 0]), InfiniteTimeout, [97, 10, 98, 99])"
  unfolding computeMovesFromSimpleDeletionsToSimpleInsertions_def blockToEnd_deletions blockToEnd_insertions
  by (simp add: blockToEnd_deletion_fragment blockToEnd_insertion_fragment pairDeletion_def findBest_def betterOf_def
        computeSimilarity_def sumDifferences_def histAt_def isValid_def InfiniteTimeout_def upt_rec
        del: newFragments.simps)

lemma blockToEnd_unchanged:
  "computeUnchangedMoves (notExcluded [0, Suc 0]
     [\<lparr>original = \<lparr>startLineNumber = 1, endLineNumberExclusive = 4\<rparr>, modified = \<lparr>startLineNumber = 1, endLineNumberExclusive = 1\<rparr>, innerChanges = [\<lparr>originalRange = \<lparr>rangeStartLineNumber = 1, startColumn = 1, endLineNumber = 4, endColumn = 1\<rparr>, modifiedRange = \<lparr>rangeStartLineNumber = 1, startColumn = 1, endLineNumber = 1, endColumn = 1\<rparr>\<rparr>]\<rparr>,
      \<lparr>original = \<lparr>startLineNumber = 8, endLineNumberExclusive = 8\<rparr>, modified = \<lparr>startLineNumber = 5, endLineNumberExclusive = 9\<rparr>, innerChanges = [\<lparr>originalRange = \<lparr>rangeStartLineNumber = 7, startColumn = 2, endLineNumber = 7, endColumn = 2\<rparr>, modifiedRange = \<lparr>rangeStartLineNumber = 4, startColumn = 2, endLineNumber = 8, endColumn = 1\<rparr>\<rparr>]\<rparr>])
     hashedOriginalLines hashedModifiedLines InfiniteTimeout
   = ([], InfiniteTimeout)"
  by (simp add: notExcluded_def computeUnchangedMoves_def original3LineHashesOf_def)

lemma blockToEnd_joined:
  "joinedMovesOf
     [\<lparr>original = \<lparr>startLineNumber = 1, endLineNumberExclusive = 4\<rparr>, modified = \<lparr>startLineNumber = 1, endLineNumberExclusive = 1\<rparr>, innerChanges = [\<lparr>originalRange = \<lparr>rangeStartLineNumber = 1, startColumn = 1, endLineNumber = 4, endColumn = 1\<rparr>, modifiedRange = \<lparr>rangeStartLineNumber = 1, startColumn = 1, endLineNumber = 1, endColumn = 1\<rparr>\<rparr>]\<rparr>,
      \<lparr>original = \<lparr>startLineNumber = 8, endLineNumberExclusive = 8\<rparr>, modified = \<lparr>startLineNumber = 5, endLineNumberExclusive = 9\<rparr>, innerChanges = [\<lparr>originalRange = \<lparr>rangeStartLineNumber = 7, startColumn = 2, endLineNumber = 7, endColumn = 2\<rparr>, modifiedRange = \<lparr>rangeStartLineNumber = 4, startColumn = 2, endLineNumber = 8, endColumn = 1\<rparr>\<rparr>]\<rparr>]
     [[97], [98], [99], [119], [120], [121], [122]]
     [\<lparr>original = \<lparr>startLineNumber = 1, endLineNumberExclusive = 4\<rparr>, modified = \<lparr>startLineNumber = 5, endLineNumberExclusive = 9\<rparr>\<rparr>]
   = [\<lparr>original = \<lparr>startLineNumber = 1, endLineNumberExclusive = 4\<rparr>, modified = \<lparr>startLineNumber = 5, endLineNumberExclusive = 9\<rparr>\<rparr>]"
  by (simp add: joinedMovesOf_def differentDistances_def findLastMonotonous_def
        findLastIdxMonotonous_def findLastIdxLoop.simps js_nth_def)

lemma blockToEnd_slice1:
  "newLinesSliceCharSequence [[97], [98], [99], [119], [120], [121], [122]] \<lparr>start = 0, endExclusive = 3\<rparr> False
   = Some \<lparr>elements = [97, 10, 98, 10, 99, 10], firstCharOffsetByLine = [0, 2, 4, 6], lineRange = \<lparr>start = 0, endExclusive = 3\<rparr>, additionalOffsetByLine = [0, 0, 0, 0], lines = [[97], [98], [99], [119], [120], [121], [122]], considerWhitespaceChanges = False\<rparr>"
  by (simp add: newLinesSliceCharSequence_def effectiveLineRange_def sliceLoop.simps js_nth_def
        normaliseLine_def trimStart_def trimEnd_def isWhiteSpace_def)

lemma blockToEnd_slice2:
  "newLinesSliceCharSequence [[119], [120], [121], [122], [97], [98], [99], []] \<lparr>start = 4, endExclusive = 8\<rparr> False
   = Some \<lparr>elements = [10, 97, 10, 98, 10, 99, 10], firstCharOffsetByLine = [0, 1, 3, 5, 7], lineRange = \<lparr>start = 3, endExclusive = 8\<rparr>, additionalOffsetByLine = [1, 0, 0, 0, 0, 0], lines = [[119], [120], [121], [122], [97], [98], [99], []], considerWhitespaceChanges = False\<rparr>"
  by (simp add: newLinesSliceCharSequence_def effectiveLineRange_def sliceLoop.simps js_nth_def
        normaliseLine_def trimStart_def trimEnd_def isWhiteSpace_def)

lemma blockToEnd_refine:
  "refineDiff plainCollaborators [[97], [98], [99], [119], [120], [121], [122]]
     [[119], [120], [121], [122], [97], [98], [99], []]
     \<lparr>seq1Range = \<lparr>start = 0, endExclusive = 3\<rparr>, seq2Range = \<lparr>start = 4, endExclusive = 8\<rparr>\<rparr> InfiniteTimeout False
   = Some ([\<lparr>originalRange = \<lparr>rangeStartLineNumber = 1, startColumn = 1, endLineNumber = 4, endColumn = 1\<rparr>, modifiedRange = \<lparr>rangeStartLineNumber = 4, startColumn = 2, endLineNumber = 8, endColumn = 1\<rparr>\<rparr>], False)"
  by (simp add: refineDiff_def blockToEnd_slice1 blockToEnd_slice2 plainCollaborators_def replaceAll_def
        seqElements_def lengthC_def coverFullWords_def coverStep_def findWordContaining_def
        isWordChar_def maybePushWordToAdditional_def mergeSequenceDiffs_def pushOrJoin_def
        rangeMappingOf_def translateRange_def translateOffset_def isEmptyO_def
        findLastIdxMonotonous_def findLastIdxLoop.simps js_nth_def fromPositions_def mkRange_def)

lemma blockToEnd_moveWithDiffs:
  "moveWithDiffs plainCollaborators [[97], [98], [99], [119], [120], [121], [122]]
     [[119], [120], [121], [122], [97], [98], [99], []] InfiniteTimeout False
     \<lparr>original = \<lparr>startLineNumber = 1, endLineNumberExclusive = 4\<rparr>, modified = \<lparr>startLineNumber = 5, endLineNumberExclusive = 9\<rparr>\<rparr>
   = Some \<lparr>lineRangeMapping = \<lparr>original = \<lparr>startLineNumber = 1, endLineNumberExclusive = 4\<rparr>, modified = \<lparr>startLineNumber = 5, endLineNumberExclusive = 9\<rparr>\<rparr>, moveChanges = [\<lparr>original = \<lparr>startLineNumber = 1, endLineNumberExclusive = 4\<rparr>, modified = \<lparr>startLineNumber = 4, endLineNumberExclusive = 8\<rparr>, innerChanges = [\<lparr>originalRange = \<lparr>rangeStartLineNumber = 1, startColumn = 1, endLineNumber = 4, endColumn = 1\<rparr>, modifiedRange = \<lparr>rangeStartLineNumber = 4, startColumn = 2, endLineNumber = 8, endColumn = 1\<rparr>\<rparr>]\<rparr>]\<rparr>"
  by (simp add: moveWithDiffs_def toOffsetRange_def blockToEnd_refine lineRangeMappingFromRangeMappings_def
        getLineRangeMapping_def lineEndDeltaOf_def lineStartDeltaOf_def js_nth_def
        groupAdjacentBy_def changeOfGroup_def joinL_def)

text \<open>
  C2 fails on the code: the deletion of three lines is paired with the insertion of four
  (similarity 12/13), and the move is returned with an original range of three lines and
  a modified range of four.
\<close>

theorem computeMoves_unequal_lengths_counterexample:
  "computeMoves plainCollaborators
     [\<lparr>original = \<lparr>startLineNumber = 1, endLineNumberExclusive = 4\<rparr>, modified = \<lparr>startLineNumber = 1, endLineNumberExclusive = 1\<rparr>, innerChanges = [\<lparr>originalRange = \<lparr>rangeStartLineNumber = 1, startColumn = 1, endLineNumber = 4, endColumn = 1\<rparr>, modifiedRange = \<lparr>rangeStartLineNumber = 1, startColumn = 1, endLineNumber = 1, endColumn = 1\<rparr>\<rparr>]\<rparr>,
      \<lparr>original = \<lparr>startLineNumber = 8, endLineNumberExclusive = 8\<rparr>, modified = \<lparr>startLineNumber = 5, endLineNumberExclusive = 9\<rparr>, innerChanges = [\<lparr>originalRange = \<lparr>rangeStartLineNumber = 7, startColumn = 2, endLineNumber = 7, endColumn = 2\<rparr>, modifiedRange = \<lparr>rangeStartLineNumber = 4, startColumn = 2, endLineNumber = 8, endColumn = 1\<rparr>\<rparr>]\<rparr>]
     [[97], [98], [99], [119], [120], [121], [122]]
     [[119], [120], [121], [122], [97], [98], [99], []]
     [0, 1, 2, 3, 4, 5, 6] [3, 4, 5, 6, 0, 1, 2, 7] InfiniteTimeout False []
   = Some ([\<lparr>lineRangeMapping = \<lparr>original = \<lparr>startLineNumber = 1, endLineNumberExclusive = 4\<rparr>, modified = \<lparr>startLineNumber = 5, endLineNumberExclusive = 9\<rparr>\<rparr>, moveChanges = [\<lparr>original = \<lparr>startLineNumber = 1, endLineNumberExclusive = 4\<rparr>, modified = \<lparr>startLineNumber = 4, endLineNumberExclusive = 8\<rparr>, innerChanges = [\<lparr>originalRange = \<lparr>rangeStartLineNumber = 1, startColumn = 1, endLineNumber = 4, endColumn = 1\<rparr>, modifiedRange = \<lparr>rangeStartLineNumber = 4, startColumn = 2, endLineNumber = 8, endColumn = 1\<rparr>\<rparr>]\<rparr>]\<rparr>], [97, 10, 98, 99])
   \<and> lengthL \<lparr>startLineNumber = 1, endLineNumberExclusive = 4\<rparr> = 3 \<and> lengthL \<lparr>startLineNumber = 5, endLineNumberExclusive = 9\<rparr> = 4"
  unfolding computeMoves_def blockToEnd_pairing
  by (simp add: isValid_InfiniteTimeout blockToEnd_unchanged blockToEnd_joined blockToEnd_moveWithDiffs lengthL_def)

lemma takeSection_equalLength:
  "list_all equalLength (fst st) \<Longrightarrow> list_all equalLength (fst (takeSection d st s))"
  by (cases st) (simp add: takeSection_def equalLength_def lengthL_def delta_def)

lemma foldl_takeSection_equalLength:
  "list_all equalLength (fst st) \<Longrightarrow> list_all equalLength (fst (foldl (takeSection d) st ss))"
  by (induction ss arbitrary: st) (simp_all add: takeSection_equalLength)

lemma takeMapping_equalLength:
  "list_all equalLength (fst st) \<Longrightarrow> list_all equalLength (fst (takeMapping st mapping))"
  by (cases st) (simp add: takeMapping_def Let_def foldl_takeSection_equalLength)

lemma foldl_takeMapping_equalLength:
  "list_all equalLength (fst st) \<Longrightarrow> list_all equalLength (fst (foldl takeMapping st ms))"
  by (induction ms arbitrary: st) (simp_all add: takeMapping_equalLength)

text \<open>
  C2, as the code has it. Every move that the search for unchanged blocks
  (\<^verbatim>\<open>computeUnchangedMoves\<close>) produces has an original and a modified range of the same
  length. (\<^verbatim>\<open>computeMoves\<close> has no test of the lengths: a move made by pairing a deletion
  with an insertion, or by joining two moves, is returned whatever its lengths.)
\<close>

theorem computeUnchangedMoves_equal_length:
  "list_all (\<lambda>m. lengthL (original m) = lengthL (modified m))
     (fst (computeUnchangedMoves cs hashedOriginalLines hashedModifiedLines timeout))"
proof -
  have "list_all equalLength (fst (computeUnchangedMoves cs hashedOriginalLines hashedModifiedLines timeout))"
    by (auto simp: computeUnchangedMoves_def Let_def foldl_takeMapping_equalLength
          split: prod.splits option.splits)
  then show ?thesis by (simp add: equalLength_def[abs_def])
qed

lemma unchanged_block_moves: "fst (computeUnchangedMoves
     [\<lparr>original = \<lparr>startLineNumber = 1, endLineNumberExclusive = 1\<rparr>, modified = \<lparr>startLineNumber = 1, endLineNumberExclusive = 5\<rparr>, innerChanges = []\<rparr>,
      \<lparr>original = \<lparr>startLineNumber = 2, endLineNumberExclusive = 6\<rparr>, modified = \<lparr>startLineNumber = 6, endLineNumberExclusive = 6\<rparr>, innerChanges = []\<rparr>]
     [0, 1, 2, 3, 4, 5] [1, 2, 3, 4, 0, 5] InfiniteTimeout)
   = [\<lparr>original = \<lparr>startLineNumber = 2, endLineNumberExclusive = 6\<rparr>, modified = \<lparr>startLineNumber = 1, endLineNumberExclusive = 5\<rparr>\<rparr>]"
  by (simp add: computeUnchangedMoves_def original3LineHashesOf_def keyAt_def js_nth_def
        changeStep_def windowStep_def matchRange_def isValid_def InfiniteTimeout_def
        takeMapping_def takeSection_def subtractFrom_def getWithDelta_def delta_def lengthL_def
        intersectL_def isEmptyL_def addRange_def joinL_def upto.simps)

theorem computeUnchangedMoves_equal_length_witness:
  "list_all (\<lambda>m. lengthL (original m) = lengthL (modified m))
     [\<lparr>original = \<lparr>startLineNumber = 2, endLineNumberExclusive = 6\<rparr>,
       modified = \<lparr>startLineNumber = 1, endLineNumberExclusive = 5\<rparr>\<rparr>]"
  using computeUnchangedMoves_equal_length
          [of "[\<lparr>original = \<lparr>startLineNumber = 1, endLineNumberExclusive = 1\<rparr>, modified = \<lparr>startLineNumber = 1, endLineNumberExclusive = 5\<rparr>, innerChanges = []\<rparr>,
                \<lparr>original = \<lparr>startLineNumber = 2, endLineNumberExclusive = 6\<rparr>, modified = \<lparr>startLineNumber = 6, endLineNumberExclusive = 6\<rparr>, innerChanges = []\<rparr>]"
              "[0, 1, 2, 3, 4, 5]" "[1, 2, 3, 4, 0, 5]" InfiniteTimeout]
  unfolding unchanged_block_moves .

text \<open>
  Second document pair: a block of three one-letter lines moves from the end of a
  seven-line document to its start.
\<close>

lemma blockToStart_deletions:
  "filter isSimpleDeletion (enumerate 0
     [\<lparr>original = \<lparr>startLineNumber = 1, endLineNumberExclusive = 1\<rparr>, modified = \<lparr>startLineNumber = 1, endLineNumberExclusive = 4\<rparr>, innerChanges = [\<lparr>originalRange = \<lparr>rangeStartLineNumber = 1, startColumn = 1, endLineNumber = 1, endColumn = 1\<rparr>, modifiedRange = \<lparr>rangeStartLineNumber = 1, startColumn = 1, endLineNumber = 4, endColumn = 1\<rparr>\<rparr>]\<rparr>,
      \<lparr>original = \<lparr>startLineNumber = 5, endLineNumberExclusive = 8\<rparr>, modified = \<lparr>startLineNumber = 8, endLineNumberExclusive = 8\<rparr>, innerChanges = [\<lparr>originalRange = \<lparr>rangeStartLineNumber = 4, startColumn = 2, endLineNumber = 7, endColumn = 2\<rparr>, modifiedRange = \<lparr>rangeStartLineNumber = 7, startColumn = 2, endLineNumber = 7, endColumn = 2\<rparr>\<rparr>]\<rparr>])
   = [(Suc 0, \<lparr>original = \<lparr>startLineNumber = 5, endLineNumberExclusive = 8\<rparr>, modified = \<lparr>startLineNumber = 8, endLineNumberExclusive = 8\<rparr>, innerChanges = [\<lparr>originalRange = \<lparr>rangeStartLineNumber = 4, startColumn = 2, endLineNumber = 7, endColumn = 2\<rparr>, modifiedRange = \<lparr>rangeStartLineNumber = 7, startColumn = 2, endLineNumber = 7, endColumn = 2\<rparr>\<rparr>]\<rparr>)]"
  by (simp add: isSimpleDeletion_def isEmptyL_def lengthL_def)

lemma blockToStart_insertions:
  "filter isSimpleInsertion (enumerate 0
     [\<lparr>original = \<lparr>startLineNumber = 1, endLineNumberExclusive = 1\<rparr>, modified = \<lparr>startLineNumber = 1, endLineNumberExclusive = 4\<rparr>, innerChanges = [\<lparr>originalRange = \<lparr>rangeStartLineNumber = 1, startColumn = 1, endLineNumber = 1, endColumn = 1\<rparr>, modifiedRange = \<lparr>rangeStartLineNumber = 1, startColumn = 1, endLineNumber = 4, endColumn = 1\<rparr>\<rparr>]\<rparr>,
      \<lparr>original = \<lparr>startLineNumber = 5, endLineNumberExclusive = 8\<rparr>, modified = \<lparr>startLineNumber = 8, endLineNumberExclusive = 8\<rparr>, innerChanges = [\<lparr>originalRange = \<lparr>rangeStartLineNumber = 4, startColumn = 2, endLineNumber = 7, endColumn = 2\<rparr>, modifiedRange = \<lparr>rangeStartLineNumber = 7, startColumn = 2, endLineNumber = 7, endColumn = 2\<rparr>\<rparr>]\<rparr>])
   = [(0, \<lparr>original = \<lparr>startLineNumber = 1, endLineNumberExclusive = 1\<rparr>, modified = \<lparr>startLineNumber = 1, endLineNumberExclusive = 4\<rparr>, innerChanges = [\<lparr>originalRange = \<lparr>rangeStartLineNumber = 1, startColumn = 1, endLineNumber = 1, endColumn = 1\<rparr>, modifiedRange = \<lparr>rangeStartLineNumber = 1, startColumn = 1, endLineNumber = 4, endColumn = 1\<rparr>\<rparr>]\<rparr>)]"
  by (simp add: isSimpleInsertion_def isEmptyL_def lengthL_def)

lemma blockToStart_deletion_fragment:
  "newFragments original [[112], [113], [114], [115], [65], [66], [67]]
     [(Suc 0, \<lparr>original = \<lparr>startLineNumber = 5, endLineNumberExclusive = 8\<rparr>, modified = \<lparr>startLineNumber = 8, endLineNumberExclusive = 8\<rparr>, innerChanges = [\<lparr>originalRange = \<lparr>rangeStartLineNumber = 4, startColumn = 2, endLineNumber = 7, endColumn = 2\<rparr>, modifiedRange = \<lparr>rangeStartLineNumber = 7, startColumn = 2, endLineNumber = 7, endColumn = 2\<rparr>\<rparr>]\<rparr>)] []
   = Some ([\<lparr>rangeF = \<lparr>startLineNumber = 5, endLineNumberExclusive = 8\<rparr>, source = Suc 0, totalCount = 6, histogram = [1, 3, 1, 1]\<rparr>], [65, 10, 66, 67])"
  by (simp add: newLineRangeFragment_def js_nth_def addLine_def addChar_def getKey_def bump_def)

lemma blockToStart_insertion_fragment:
  "newFragments modified [[65], [66], [67], [112], [113], [114], [115]]
     [(0, \<lparr>original = \<lparr>startLineNumber = 1, endLineNumberExclusive = 1\<rparr>, modified = \<lparr>startLineNumber = 1, endLineNumberExclusive = 4\<rparr>, innerChanges = [\<lparr>originalRange = \<lparr>rangeStartLineNumber = 1, startColumn = 1, endLineNumber = 1, endColumn = 1\<rparr>, modifiedRange = \<lparr>rangeStartLineNumber = 1, startColumn = 1, endLineNumber = 4, endColumn = 1\<rparr>\<rparr>]\<rparr>)] [65, 10, 66, 67]
   = Some ([\<lparr>rangeF = \<lparr>startLineNumber = 1, endLineNumberExclusive = 4\<rparr>, source = 0, totalCount = 6, histogram = [1, 3, 1, 1]\<rparr>], [65, 10, 66, 67])"
  by (simp add: newLineRangeFragment_def js_nth_def addLine_def addChar_def getKey_def bump_def)

lemma blockToStart_pairing:
  "computeMovesFromSimpleDeletionsToSimpleInsertions
     [\<lparr>original = \<lparr>startLineNumber = 1, endLineNumberExclusive = 1\<rparr>, modified = \<lparr>startLineNumber = 1, endLineNumberExclusive = 4\<rparr>, innerChanges = [\<lparr>originalRange = \<lparr>rangeStartLineNumber = 1, startColumn = 1, endLineNumber = 1, endColumn = 1\<rparr>, modifiedRange = \<lparr>rangeStartLineNumber = 1, startColumn = 1, endLineNumber = 4, endColumn = 1\<rparr>\<rparr>]\<rparr>,
      \<lparr>original = \<lparr>startLineNumber = 5, endLineNumberExclusive = 8\<rparr>, modified = \<lparr>startLineNumber = 8, endLineNumberExclusive = 8\<rparr>, innerChanges = [\<lparr>originalRange = \<lparr>rangeStartLineNumber = 4, startColumn = 2, endLineNumber = 7, endColumn = 2\<rparr>, modifiedRange = \<lparr>rangeStartLineNumber = 7, startColumn = 2, endLineNumber = 7, endColumn = 2\<rparr>\<rparr>]\<rparr>]
     [[112], [113], [114], [115], [65], [66], [67]]
     [[65], [66], [67], [112], [113], [114], [115]] InfiniteTimeout []
   = Some (([\<lparr>original = \<lparr>startLineNumber = 5, endLineNumberExclusive = 8\<rparr>, modified = \<lparr>startLineNumber = 1, endLineNumberExclusive = 4\<rparr>\<rparr>], [Suc 0, 0]), InfiniteTimeout, [65, 10, 66, 67])"
  unfolding computeMovesFromSimpleDeletionsToSimpleInsertions_def blockToStart_deletions blockToStart_insertions
  by (simp add: blockToStart_deletion_fragment blockToStart_insertion_fragment pairDeletion_def findBest_def betterOf_def
        computeSimilarity_def sumDifferences_def histAt_def isValid_def InfiniteTimeout_def upt_rec
        del: newFragments.simps)

lemma blockToStart_unchanged:
  "computeUnchangedMoves (notExcluded [Suc 0, 0]
     [\<lparr>original = \<lparr>startLineNumber = 1, endLineNumberExclusive = 1\<rparr>, modified = \<lparr>startLineNumber = 1, endLineNumberExclusive = 4\<rparr>, innerChanges = [\<lparr>originalRange = \<lparr>rangeStartLineNumber = 1, startColumn = 1, endLineNumber = 1, endColumn = 1\<rparr>, modifiedRange = \<lparr>rangeStartLineNumber = 1, startColumn = 1, endLineNumber = 4, endColumn = 1\<rparr>\<rparr>]\<rparr>,
      \<lparr>original = \<lparr>startLineNumber = 5, endLineNumberExclusive = 8\<rparr>, modified = \<lparr>startLineNumber = 8, endLineNumberExclusive = 8\<rparr>, innerChanges = [\<lparr>originalRange = \<lparr>rangeStartLineNumber = 4, startColumn = 2, endLineNumber = 7, endColumn = 2\<rparr>, modifiedRange = \<lparr>rangeStartLineNumber = 7, startColumn = 2, endLineNumber = 7, endColumn = 2\<rparr>\<rparr>]\<rparr>])
     hashedOriginalLines hashedModifiedLines InfiniteTimeout
   = ([], InfiniteTimeout)"
  by (simp add: notExcluded_def computeUnchangedMoves_def original3LineHashesOf_def)

lemma blockToStart_joined:
  "joinedMovesOf
     [\<lparr>original = \<lparr>startLineNumber = 1, endLineNumberExclusive = 1\<rparr>, modified = \<lparr>startLineNumber = 1, endLineNumberExclusive = 4\<rparr>, innerChanges = [\<lparr>originalRange = \<lparr>rangeStartLineNumber = 1, startColumn = 1, endLineNumber = 1, endColumn = 1\<rparr>, modifiedRange = \<lparr>rangeStartLineNumber = 1, startColumn = 1, endLineNumber = 4, endColumn = 1\<rparr>\<rparr>]\<rparr>,
      \<lparr>original = \<lparr>startLineNumber = 5, endLineNumberExclusive = 8\<rparr>, modified = \<lparr>startLineNumber = 8, endLineNumberExclusive = 8\<rparr>, innerChanges = [\<lparr>originalRange = \<lparr>rangeStartLineNumber = 4, startColumn = 2, endLineNumber = 7, endColumn = 2\<rparr>, modifiedRange = \<lparr>rangeStartLineNumber = 7, startColumn = 2, endLineNumber = 7, endColumn = 2\<rparr>\<rparr>]\<rparr>]
     [[112], [113], [114], [115], [65], [66], [67]]
     [\<lparr>original = \<lparr>startLineNumber = 5, endLineNumberExclusive = 8\<rparr>, modified = \<lparr>startLineNumber = 1, endLineNumberExclusive = 4\<rparr>\<rparr>]
   = [\<lparr>original = \<lparr>startLineNumber = 5, endLineNumberExclusive = 8\<rparr>, modified = \<lparr>startLineNumber = 1, endLineNumberExclusive = 4\<rparr>\<rparr>]"
  by (simp add: joinedMovesOf_def differentDistances_def findLastMonotonous_def
        findLastIdxMonotonous_def findLastIdxLoop.simps js_nth_def)

lemma blockToStart_slice1:
  "newLinesSliceCharSequence [[112], [113], [114], [115], [65], [66], [67]] \<lparr>start = 4, endExclusive = 7\<rparr> False
   = Some \<lparr>elements = [10, 65, 10, 66, 10, 67], firstCharOffsetByLine = [0, 1, 3, 5], lineRange = \<lparr>start = 3, endExclusive = 7\<rparr>, additionalOffsetByLine = [1, 0, 0, 0, 0], lines = [[112], [113], [114], [115], [65], [66], [67]], considerWhitespaceChanges = False\<rparr>"
  by (simp add: newLinesSliceCharSequence_def effectiveLineRange_def sliceLoop.simps js_nth_def
        normaliseLine_def trimStart_def trimEnd_def isWhiteSpace_def)

lemma blockToStart_slice2:
  "newLinesSliceCharSequence [[65], [66], [67], [112], [113], [114], [115]] \<lparr>start = 0, endExclusive = 3\<rparr> False
   = Some \<lparr>elements = [65, 10, 66, 10, 67, 10], firstCharOffsetByLine = [0, 2, 4, 6], lineRange = \<lparr>start = 0, endExclusive = 3\<rparr>, additionalOffsetByLine = [0, 0, 0, 0], lines = [[65], [66], [67], [112], [113], [114], [115]], considerWhitespaceChanges = False\<rparr>"
  by (simp add: newLinesSliceCharSequence_def effectiveLineRange_def sliceLoop.simps js_nth_def
        normaliseLine_def trimStart_def trimEnd_def isWhiteSpace_def)

lemma blockToStart_refine:
  "refineDiff plainCollaborators [[112], [113], [114], [115], [65], [66], [67]]
     [[65], [66], [67], [112], [113], [114], [115]]
     \<lparr>seq1Range = \<lparr>start = 4, endExclusive = 7\<rparr>, seq2Range = \<lparr>start = 0, endExclusive = 3\<rparr>\<rparr> InfiniteTimeout False
   = Some ([\<lparr>originalRange = \<lparr>rangeStartLineNumber = 4, startColumn = 2, endLineNumber = 7, endColumn = 2\<rparr>, modifiedRange = \<lparr>rangeStartLineNumber = 1, startColumn = 1, endLineNumber = 4, endColumn = 1\<rparr>\<rparr>], False)"
  by (simp add: refineDiff_def blockToStart_slice1 blockToStart_slice2 plainCollaborators_def replaceAll_def
        seqElements_def lengthC_def coverFullWords_def coverStep_def findWordContaining_def
        isWordChar_def maybePushWordToAdditional_def mergeSequenceDiffs_def pushOrJoin_def
        rangeMappingOf_def translateRange_def translateOffset_def isEmptyO_def
        findLastIdxMonotonous_def findLastIdxLoop.simps js_nth_def fromPositions_def mkRange_def)

lemma blockToStart_moveWithDiffs:
  "moveWithDiffs plainCollaborators [[112], [113], [114], [115], [65], [66], [67]]
     [[65], [66], [67], [112], [113], [114], [115]] InfiniteTimeout False
     \<lparr>original = \<lparr>startLineNumber = 5, endLineNumberExclusive = 8\<rparr>, modified = \<lparr>startLineNumber = 1, endLineNumberExclusive = 4\<rparr>\<rparr>
   = Some \<lparr>lineRangeMapping = \<lparr>original = \<lparr>startLineNumber = 5, endLineNumberExclusive = 8\<rparr>, modified = \<lparr>startLineNumber = 1, endLineNumberExclusive = 4\<rparr>\<rparr>, moveChanges = [\<lparr>original = \<lparr>startLineNumber = 4, endLineNumberExclusive = 8\<rparr>, modified = \<lparr>startLineNumber = 1, endLineNumberExclusive = 5\<rparr>, innerChanges = [\<lparr>originalRange = \<lparr>rangeStartLineNumber = 4, startColumn = 2, endLineNumber = 7, endColumn = 2\<rparr>, modifiedRange = \<lparr>rangeStartLineNumber = 1, startColumn = 1, endLineNumber = 4, endColumn = 1\<rparr>\<rparr>]\<rparr>]\<rparr>"
  by (simp add: moveWithDiffs_def toOffsetRange_def blockToStart_refine lineRangeMappingFromRangeMappings_def
        getLineRangeMapping_def lineEndDeltaOf_def lineStartDeltaOf_def js_nth_def
        groupAdjacentBy_def changeOfGroup_def joinL_def)

text \<open>
  C5, at an input where the code departs from it. The only move candidate has the
  original text \<^verbatim>\<open>A\<close>, \<^verbatim>\<open>B\<close>, \<^verbatim>\<open>C\<close> joined by line feeds, 5 characters; it is the first
  move of the sorted list, which the joining loop takes without the length test, and
  \<^verbatim>\<open>computeMoves\<close> returns it.
\<close>

theorem computeMoves_keeps_short_first_move:
  "computeMoves plainCollaborators
     [\<lparr>original = \<lparr>startLineNumber = 1, endLineNumberExclusive = 1\<rparr>, modified = \<lparr>startLineNumber = 1, endLineNumberExclusive = 4\<rparr>, innerChanges = [\<lparr>originalRange = \<lparr>rangeStartLineNumber = 1, startColumn = 1, endLineNumber = 1, endColumn = 1\<rparr>, modifiedRange = \<lparr>rangeStartLineNumber = 1, startColumn = 1, endLineNumber = 4, endColumn = 1\<rparr>\<rparr>]\<rparr>,
      \<lparr>original = \<lparr>startLineNumber = 5, endLineNumberExclusive = 8\<rparr>, modified = \<lparr>startLineNumber = 8, endLineNumberExclusive = 8\<rparr>, innerChanges = [\<lparr>originalRange = \<lparr>rangeStartLineNumber = 4, startColumn = 2, endLineNumber = 7, endColumn = 2\<rparr>, modifiedRange = \<lparr>rangeStartLineNumber = 7, startColumn = 2, endLineNumber = 7, endColumn = 2\<rparr>\<rparr>]\<rparr>]
     [[112], [113], [114], [115], [65], [66], [67]]
     [[65], [66], [67], [112], [113], [114], [115]]
     [0, 1, 2, 3, 4, 5, 6] [4, 5, 6, 0, 1, 2, 3] InfiniteTimeout False []
   = Some ([\<lparr>lineRangeMapping = \<lparr>original = \<lparr>startLineNumber = 5, endLineNumberExclusive = 8\<rparr>, modified = \<lparr>startLineNumber = 1, endLineNumberExclusive = 4\<rparr>\<rparr>, moveChanges = [\<lparr>original = \<lparr>startLineNumber = 4, endLineNumberExclusive = 8\<rparr>, modified = \<lparr>startLineNumber = 1, endLineNumberExclusive = 5\<rparr>, innerChanges = [\<lparr>originalRange = \<lparr>rangeStartLineNumber = 4, startColumn = 2, endLineNumber = 7, endColumn = 2\<rparr>, modifiedRange = \<lparr>rangeStartLineNumber = 1, startColumn = 1, endLineNumber = 4, endColumn = 1\<rparr>\<rparr>]\<rparr>]\<rparr>], [65, 10, 66, 67])
   \<and> length (originalTextOf [[112], [113], [114], [115], [65], [66], [67]]
        \<lparr>original = \<lparr>startLineNumber = 5, endLineNumberExclusive = 8\<rparr>, modified = \<lparr>startLineNumber = 1, endLineNumberExclusive = 4\<rparr>\<rparr>) = 5"
  unfolding computeMoves_def blockToStart_pairing
  by (simp add: isValid_InfiniteTimeout blockToStart_unchanged blockToStart_joined
        blockToStart_moveWithDiffs originalTextOf_def toOffsetRange_def sliceO_def js_slice_def
        trim_def trimStart_def trimEnd_def isWhiteSpace_def)

section \<open>Similarity of fragments and the greedy pairing\<close>

declare fragLoop.simps [simp del]

lemma indexOf_Some: "indexOf x ys = Some k \<Longrightarrow> k < length ys \<and> ys ! k = x"
  by (induction ys arbitrary: k) (auto split: if_splits)

lemma indexOf_None: "(indexOf x ys = None) = (x \<notin> set ys)"
  by (induction ys) auto

lemma histAt_bump: "histAt (bump h key) k = histAt h k + (if k = key then 1 else 0)"
  by (auto simp: histAt_def bump_def nth_append nth_Cons')

lemma length_bump: "length (bump h key) = max (length h) (Suc key)"
  by (auto simp: bump_def)

lemma addChar_counts:
  assumes "counts ks h cnt tx"
  shows "\<exists>ks' h' extra. addChar (ks, cnt, h) c = (ks', cnt + 1, h') \<and> ks' = ks @ extra
           \<and> counts ks' h' (cnt + 1) (tx @ [c])"
proof (cases "indexOf c ks")
  case None
  then have notin: "c \<notin> set ks" by (simp add: indexOf_None)
  then have notin_txt: "c \<notin> set tx" using assms by (auto simp: counts_def)
  have a: "addChar (ks, cnt, h) c = (ks @ [c], cnt + 1, bump h (length ks))"
    by (simp add: addChar_def getKey_def None)
  have "counts (ks @ [c]) (bump h (length ks)) (cnt + 1) (tx @ [c])"
    unfolding counts_def
  proof (intro conjI allI impI)
    show "distinct (ks @ [c])" using assms notin by (simp add: counts_def)
    show "set (tx @ [c]) \<subseteq> set (ks @ [c])" using assms by (auto simp: counts_def)
    show "length (bump h (length ks)) \<le> length (ks @ [c])"
      using assms by (simp add: length_bump counts_def)
    show "cnt + 1 = int (length (tx @ [c]))" using assms by (simp add: counts_def)
    fix k assume k: "k < length (ks @ [c])"
    show "histAt (bump h (length ks)) k = int (count_list (tx @ [c]) ((ks @ [c]) ! k))"
    proof (cases "k < length ks")
      case True
      then have "ks ! k \<noteq> c" using notin by (metis nth_mem)
      then show ?thesis using True assms by (simp add: histAt_bump nth_append counts_def)
    next
      case False
      then have kk: "k = length ks" using k by simp
      have "histAt h (length ks) = 0" using assms by (simp add: histAt_def counts_def)
      then show ?thesis using kk notin_txt by (simp add: histAt_bump count_list_0_iff)
    qed
  qed
  with a show ?thesis by blast
next
  case (Some key)
  then have key: "key < length ks" "ks ! key = c" using indexOf_Some by fastforce+
  have a: "addChar (ks, cnt, h) c = (ks, cnt + 1, bump h key)"
    by (simp add: addChar_def getKey_def Some)
  have d: "distinct ks" using assms by (simp add: counts_def)
  have "counts ks (bump h key) (cnt + 1) (tx @ [c])"
    unfolding counts_def
  proof (intro conjI allI impI)
    show "distinct ks" by (rule d)
    show "set (tx @ [c]) \<subseteq> set ks" using assms key by (auto simp: counts_def)
    show "length (bump h key) \<le> length ks" using assms key by (simp add: length_bump counts_def)
    show "cnt + 1 = int (length (tx @ [c]))" using assms by (simp add: counts_def)
    fix k assume k: "k < length ks"
    have "(ks ! k = c) = (k = key)" using d k key by (metis nth_eq_iff_index_eq)
    then show "histAt (bump h key) k = int (count_list (tx @ [c]) (ks ! k))"
      using assms k by (auto simp: histAt_bump counts_def)
  qed
  with a show ?thesis by (intro exI[of _ ks] exI[of _ "bump h key"] exI[of _ "[]"]) simp
qed

lemma foldl_addChar_counts:
  "counts ks h cnt tx \<Longrightarrow>
   \<exists>ks' h' extra. foldl addChar (ks, cnt, h) cs = (ks', cnt + int (length cs), h') \<and> ks' = ks @ extra
           \<and> counts ks' h' (cnt + int (length cs)) (tx @ cs)"
proof (induction cs arbitrary: ks h cnt tx)
  case Nil
  then show ?case by (intro exI[of _ ks] exI[of _ h] exI[of _ "[]"]) simp
next
  case (Cons c cs)
  from addChar_counts[OF Cons.prems, of c] obtain ks1 h1 more1 where
    a: "addChar (ks, cnt, h) c = (ks1, cnt + 1, h1)" "ks1 = ks @ more1"
       "counts ks1 h1 (cnt + 1) (tx @ [c])" by blast
  from Cons.IH[OF a(3)] obtain ks2 h2 more2 where
    b: "foldl addChar (ks1, cnt + 1, h1) cs = (ks2, cnt + 1 + int (length cs), h2)" "ks2 = ks1 @ more2"
       "counts ks2 h2 (cnt + 1 + int (length cs)) ((tx @ [c]) @ cs)" by blast
  show ?case
    using a b by (intro exI[of _ ks2] exI[of _ h2] exI[of _ "more1 @ more2"]) (simp add: add.assoc)
qed

lemma fragLoop_counts:
  "fragLoop lns endEx i (ks, cnt, h) = Some st' \<Longrightarrow> counts ks h cnt tx \<Longrightarrow>
   \<exists>ks' cnt' h' extra. st' = (ks', cnt', h') \<and> ks' = ks @ extra
      \<and> counts ks' h' cnt' (tx @ concat (map (\<lambda>j. lns ! nat j @ [10]) [i .. endEx - 1]))"
proof (induction lns endEx i "(ks, cnt, h)" arbitrary: ks cnt h tx rule: fragLoop.induct)
  case (1 lns endEx i)
  show ?case
  proof (cases "i < endEx")
    case False
    then have "st' = (ks, cnt, h)" using 1(2) by (simp add: fragLoop.simps)
    then show ?thesis using False 1(3) by simp
  next
    case True
    then obtain line where l: "js_nth lns i = Some line"
      using 1(2) by (subst (asm) fragLoop.simps) (auto split: option.splits)
    then have line: "line = lns ! nat i" by (auto simp: js_nth_def split: if_splits)
    from foldl_addChar_counts[OF 1(3), of "line @ [10]"] obtain ks1 h1 more1 where
      a: "addLine (ks, cnt, h) line = (ks1, cnt + int (length (line @ [10])), h1)" "ks1 = ks @ more1"
         "counts ks1 h1 (cnt + int (length (line @ [10]))) (tx @ line @ [10])"
      by (auto simp: addLine_def)
    have r: "fragLoop lns endEx (i + 1) (ks1, cnt + int (length (line @ [10])), h1) = Some st'"
      using 1(2) True l a(1) by (subst (asm) fragLoop.simps) simp
    from 1(1)[OF True l a(1) r a(3)] obtain ks' cnt' h' extra where
      b: "st' = (ks', cnt', h')" "ks' = ks1 @ extra"
         "counts ks' h' cnt' ((tx @ line @ [10]) @ concat (map (\<lambda>j. lns ! nat j @ [10]) [i + 1 .. endEx - 1]))"
      by blast
    have u: "[i .. endEx - 1] = i # [i + 1 .. endEx - 1]" using True by (simp add: upto_rec1)
    show ?thesis
      using a(2) b line u by (intro exI[of _ ks'] exI[of _ cnt'] exI[of _ h'] exI[of _ "more1 @ extra"]) simp
  qed
qed

lemma newLineRangeFragment_counts:
  assumes "newLineRangeFragment r lns src ks = Some (f, ks')" and "distinct ks"
  shows "\<exists>extra. ks' = ks @ extra" and "rangeF f = r"
    and "counts ks' (histogram f) (totalCount f) (fragmentText r lns)"
proof -
  obtain st' where st: "fragLoop lns (endLineNumberExclusive r - 1) (startLineNumber r - 1) (ks, 0, []) = Some st'"
    using assms(1) by (auto simp: newLineRangeFragment_def split: option.splits)
  have "counts ks [] 0 []" using assms(2) by (simp add: counts_def histAt_def)
  from fragLoop_counts[OF st this] obtain ks1 cnt1 h1 extra where
    a: "st' = (ks1, cnt1, h1)" "ks1 = ks @ extra"
       "counts ks1 h1 cnt1 (fragmentText r lns)"
    by (auto simp: fragmentText_def)
  from assms(1) st a(1) have f: "f = \<lparr>rangeF = r, source = src, totalCount = cnt1, histogram = h1\<rparr>"
    and k: "ks' = ks1" by (simp_all add: newLineRangeFragment_def)
  show "\<exists>extra. ks' = ks @ extra" using a(2) k by blast
  show "rangeF f = r" using f by simp
  show "counts ks' (histogram f) (totalCount f) (fragmentText r lns)" using a(3) f k by simp
qed

lemma counts_extend:
  assumes "counts ks h cnt tx" and "distinct (ks @ extra)"
  shows "counts (ks @ extra) h cnt tx"
  unfolding counts_def
proof (intro conjI allI impI)
  show "distinct (ks @ extra)" by (rule assms(2))
  show "set tx \<subseteq> set (ks @ extra)" using assms(1) by (auto simp: counts_def)
  show "length h \<le> length (ks @ extra)" using assms(1) by (simp add: counts_def)
  show "cnt = int (length tx)" using assms(1) by (simp add: counts_def)
  fix k assume k: "k < length (ks @ extra)"
  show "histAt h k = int (count_list tx ((ks @ extra) ! k))"
  proof (cases "k < length ks")
    case True
    then show ?thesis using assms(1) by (simp add: counts_def nth_append)
  next
    case False
    then have "(ks @ extra) ! k \<in> set extra" using k by (simp add: nth_append)
    then have "(ks @ extra) ! k \<notin> set ks" using assms(2) by auto
    then have "(ks @ extra) ! k \<notin> set tx" using assms(1) by (auto simp: counts_def)
    moreover have "histAt h k = 0" using False assms(1) by (simp add: histAt_def counts_def)
    ultimately show ?thesis by (simp add: count_list_0_iff)
  qed
qed

lemma counts_distinct: "counts ks h cnt tx \<Longrightarrow> distinct ks"
  by (simp add: counts_def)

lemma newFragments_counts:
  "newFragments side lns cs ks = Some (fs, ks') \<Longrightarrow> distinct ks \<Longrightarrow>
   distinct ks' \<and> (\<exists>extra. ks' = ks @ extra)
   \<and> (\<forall>f\<in>set fs. counts ks' (histogram f) (totalCount f) (fragmentText (rangeF f) lns))"
proof (induction cs arbitrary: ks fs)
  case Nil
  then show ?case by simp
next
  case (Cons c cs)
  obtain idx d where c: "c = (idx, d)" by (cases c)
  from Cons.prems(1) c obtain f ks1 rest where
    f: "newLineRangeFragment (side d) lns idx ks = Some (f, ks1)"
    and r: "newFragments side lns cs ks1 = Some (rest, ks')" and fs: "fs = f # rest"
    by (auto split: option.splits)
  from newLineRangeFragment_counts[OF f Cons.prems(2)] obtain more1 where
    a: "ks1 = ks @ more1" "rangeF f = side d"
       "counts ks1 (histogram f) (totalCount f) (fragmentText (side d) lns)" by blast
  have d1: "distinct ks1" using a(3) by (rule counts_distinct)
  from Cons.IH[OF r d1] obtain more2 where
    b: "distinct ks'" "ks' = ks1 @ more2"
       "\<forall>g\<in>set rest. counts ks' (histogram g) (totalCount g) (fragmentText (rangeF g) lns)" by blast
  have "counts ks' (histogram f) (totalCount f) (fragmentText (rangeF f) lns)"
    using counts_extend[OF a(3), of more2] b(1,2) a(2) by simp
  then show ?case using b a(1) fs by auto
qed

lemma sum_list_zero: "(\<And>x. x \<in> set xs \<Longrightarrow> f x = (0::int)) \<Longrightarrow> sum_list (map f xs) = 0"
  by (induction xs) auto

lemma sumDifferences_counts:
  assumes "counts ks h1 c1 t1" and "counts ks h2 c2 t2"
  shows "sumDifferences h1 h2 = charDifference t1 t2"
proof -
  let ?g = "\<lambda>i. \<bar>histAt h1 i - histAt h2 i\<bar>"
  let ?F = "\<lambda>c. \<bar>int (count_list t1 c) - int (count_list t2 c)\<bar>"
  let ?m = "max (length h1) (length h2)"
  have le: "?m \<le> length ks" using assms by (simp add: counts_def)
  have d: "distinct ks" using assms(1) by (simp add: counts_def)
  have "[0..<length ks] = [0..<?m] @ [?m..<length ks]"
    using le by (metis le_add_diff_inverse upt_add_eq_append zero_le)
  then have "sum_list (map ?g [0..<length ks]) = sum_list (map ?g [0..<?m]) + sum_list (map ?g [?m..<length ks])"
    by simp
  moreover have "sum_list (map ?g [?m..<length ks]) = 0"
    by (rule sum_list_zero) (simp add: histAt_def)
  ultimately have "sumDifferences h1 h2 = sum_list (map ?g [0..<length ks])"
    by (simp add: sumDifferences_def)
  also have "\<dots> = sum_list (map (\<lambda>i. ?F (ks ! i)) [0..<length ks])"
    using assms by (intro arg_cong[where f = sum_list] map_cong) (simp_all add: counts_def)
  also have "\<dots> = sum_list (map ?F (map (\<lambda>i. ks ! i) [0..<length ks]))"
    by (simp add: comp_def)
  also have "\<dots> = sum_list (map ?F ks)" by (simp add: map_nth)
  also have "\<dots> = sum ?F (set ks)" using d by (rule sum_list_distinct_conv_sum_set)
  also have "\<dots> = sum ?F (set t1 \<union> set t2)"
  proof (rule sum.mono_neutral_right)
    show "finite (set ks)" by simp
    show "set t1 \<union> set t2 \<subseteq> set ks" using assms by (simp add: counts_def)
    show "\<forall>c\<in>set ks - (set t1 \<union> set t2). ?F c = 0" by (simp add: count_list_0_iff)
  qed
  finally show ?thesis by (simp add: charDifference_def)
qed

lemma computeSimilarity_counts:
  assumes "counts ks (histogram a) (totalCount a) t1" and "counts ks (histogram b) (totalCount b) t2"
    and "t1 \<noteq> [] \<or> t2 \<noteq> []"
  shows "computeSimilarity a b
         = Some (1 - real_of_int (charDifference t1 t2) / real (length t1 + length t2))"
proof -
  have "totalCount a = int (length t1)" "totalCount b = int (length t2)"
    using assms(1,2) by (simp_all add: counts_def)
  moreover have "int (length t1) + int (length t2) \<noteq> 0"
  proof -
    have "0 < length t1 + length t2" using assms(3) by auto
    then show ?thesis by linarith
  qed
  ultimately show ?thesis
    using sumDifferences_counts[OF assms(1,2)] by (simp add: computeSimilarity_def)
qed

lemma betterOf_bestSoFar:
  "bestSoFar deletion seen acc \<Longrightarrow> bestSoFar deletion (seen @ [x]) (betterOf deletion acc x)"
  by (cases acc; cases "computeSimilarity deletion x")
     (auto simp: bestSoFar_def betterOf_def split: option.splits)

lemma foldl_betterOf_bestSoFar:
  "bestSoFar deletion seen acc \<Longrightarrow> bestSoFar deletion (seen @ xs) (foldl (betterOf deletion) acc xs)"
proof (induction xs arbitrary: seen acc)
  case Nil
  then show ?case by simp
next
  case (Cons x xs)
  from Cons.IH[OF betterOf_bestSoFar[OF Cons.prems, of x]] show ?case by simp
qed

lemma findBest_bestSoFar: "bestSoFar deletion insertions (findBest deletion insertions)"
  using foldl_betterOf_bestSoFar[of deletion "[]" "(- 1, None)" insertions]
  by (simp add: findBest_def bestSoFar_def)

lemma pairDeletion_accept:
  assumes "\<exists>b\<in>set ins. \<exists>s. computeSimilarity d b = Some s \<and> 0.9 < s"
  shows "\<exists>best h. best \<in> set ins \<and> computeSimilarity d best = Some h \<and> 0.9 < h
           \<and> (\<forall>b\<in>set ins. \<forall>s. computeSimilarity d b = Some s \<longrightarrow> s \<le> h)
           \<and> pairDeletion d (ins, mvs, ex)
               = (filter (\<lambda>f. source f \<noteq> source best) ins,
                  mvs @ [\<lparr>original = rangeF d, modified = rangeF best\<rparr>],
                  ex @ [source d, source best])"
proof -
  obtain h b where fb: "findBest d ins = (h, b)" by (cases "findBest d ins")
  have inv: "bestSoFar d ins (h, b)" using findBest_bestSoFar[of d ins] fb by simp
  then have ub: "\<forall>x\<in>set ins. \<forall>s. computeSimilarity d x = Some s \<longrightarrow> s \<le> h"
    by (simp add: bestSoFar_def)
  with assms have hb: "0.9 < h" by fastforce
  have "b \<noteq> None"
  proof
    assume "b = None"
    then have "h = - 1" using inv by (simp add: bestSoFar_def)
    then show False using hb by simp
  qed
  then obtain best where b: "b = Some best" by auto
  then have "best \<in> set ins" "computeSimilarity d best = Some h"
    using inv by (simp_all add: bestSoFar_def)
  moreover have "pairDeletion d (ins, mvs, ex)
               = (filter (\<lambda>f. source f \<noteq> source best) ins,
                  mvs @ [\<lparr>original = rangeF d, modified = rangeF best\<rparr>],
                  ex @ [source d, source best])"
    using fb b hb by (simp add: pairDeletion_def)
  ultimately show ?thesis using hb ub by blast
qed

lemma pairDeletion_reject:
  assumes "\<not> (\<exists>b\<in>set ins. \<exists>s. computeSimilarity d b = Some s \<and> 0.9 < s)"
  shows "pairDeletion d (ins, mvs, ex) = (ins, mvs, ex)"
proof -
  obtain h b where fb: "findBest d ins = (h, b)" by (cases "findBest d ins")
  have inv: "bestSoFar d ins (h, b)" using findBest_bestSoFar[of d ins] fb by simp
  show ?thesis
  proof (cases b)
    case None
    then show ?thesis using fb by (simp add: pairDeletion_def)
  next
    case (Some best)
    then have "best \<in> set ins" "computeSimilarity d best = Some h"
      using inv by (simp_all add: bestSoFar_def)
    with assms have "\<not> 0.9 < h" by blast
    then show ?thesis using fb Some by (simp add: pairDeletion_def)
  qed
qed

lemma newFragments_ranges:
  "newFragments side lns cs ks = Some (fs, ks') \<Longrightarrow> map rangeF fs = map (\<lambda>c. side (snd c)) cs"
proof (induction cs arbitrary: ks fs)
  case Nil
  then show ?case by simp
next
  case (Cons c cs)
  obtain idx d where c: "c = (idx, d)" by (cases c)
  from Cons.prems c obtain f ks1 rest where
    f: "newLineRangeFragment (side d) lns idx ks = Some (f, ks1)"
    and r: "newFragments side lns cs ks1 = Some (rest, ks')" and fs: "fs = f # rest"
    by (auto split: option.splits)
  have "rangeF f = side d"
    using f by (auto simp: newLineRangeFragment_def split: option.splits)
  then show ?case using Cons.IH[OF r] fs c by simp
qed

lemma fragmentText_nonempty: "1 \<le> lengthL r \<Longrightarrow> fragmentText r lns \<noteq> []"
proof -
  assume "1 \<le> lengthL r"
  then have "startLineNumber r - 1 \<le> endLineNumberExclusive r - 2" by (simp add: lengthL_def)
  then have "[startLineNumber r - 1 .. endLineNumberExclusive r - 2]
             = (startLineNumber r - 1) # [startLineNumber r - 1 + 1 .. endLineNumberExclusive r - 2]"
    by (rule upto_rec1)
  then show ?thesis by (simp add: fragmentText_def)
qed

lemma takeWhile_upt_Suc:
  "takeWhile t [0..<Suc m]
     = (if t 0 then 0 # map Suc (takeWhile (\<lambda>n. t (Suc n)) [0..<m]) else [])"
proof -
  have "[0..<Suc m] = 0 # map Suc [0..<m]"
    by (simp add: upt_conv_Cons map_Suc_upt del: upt_Suc)
  then show ?thesis by (simp add: takeWhile_map comp_def del: upt_Suc)
qed

lemma deletionsHandled_Suc:
  "deletionsHandled t (Suc m) = (if t 0 then Suc (deletionsHandled (\<lambda>n. t (Suc n)) m) else Suc 0)"
  unfolding deletionsHandled_def takeWhile_upt_Suc by simp

lemma deletionsHandled_valid:
  "\<forall>n<k. timeout n \<Longrightarrow> deletionsHandled timeout k = k"
proof -
  assume "\<forall>n<k. timeout n"
  then have tw: "takeWhile timeout [0..<k] = [0..<k]" by (simp add: takeWhile_eq_all_conv)
  show ?thesis unfolding deletionsHandled_def tw by simp
qed

lemma pairLoop_fold:
  "pairLoop ds st timeout
     = (foldl (\<lambda>st d. pairDeletion d st) st (take (deletionsHandled timeout (length ds)) ds),
        \<lambda>n. timeout (n + deletionsHandled timeout (length ds)))"
proof (induction ds arbitrary: st timeout)
  case Nil
  show ?case by (simp add: deletionsHandled_def)
next
  case (Cons d ds)
  show ?case
  proof (cases "timeout 0")
    case True
    then show ?thesis
      using Cons.IH[of "pairDeletion d st" "\<lambda>n. timeout (Suc n)"]
      by (simp add: isValid_def deletionsHandled_Suc)
  next
    case False
    then show ?thesis by (simp add: isValid_def deletionsHandled_Suc)
  qed
qed

text \<open>
  A document pair for the pairing: the original is the lines a, b, c, k, p, q, r, m, n
  and the modified one k, m, x, y, z, n, a, b, c. The changes are the deletions of
  a, b, c and of p, q, r and the insertions of x, y, z and of a, b, c.
\<close>

lemma twoBlocks_deletions:
  "filter isSimpleDeletion (enumerate 0
     [\<lparr>original = \<lparr>startLineNumber = 1, endLineNumberExclusive = 4\<rparr>, modified = \<lparr>startLineNumber = 1, endLineNumberExclusive = 1\<rparr>, innerChanges = []\<rparr>,
      \<lparr>original = \<lparr>startLineNumber = 5, endLineNumberExclusive = 8\<rparr>, modified = \<lparr>startLineNumber = 2, endLineNumberExclusive = 2\<rparr>, innerChanges = []\<rparr>,
      \<lparr>original = \<lparr>startLineNumber = 9, endLineNumberExclusive = 9\<rparr>, modified = \<lparr>startLineNumber = 3, endLineNumberExclusive = 6\<rparr>, innerChanges = []\<rparr>,
      \<lparr>original = \<lparr>startLineNumber = 10, endLineNumberExclusive = 10\<rparr>, modified = \<lparr>startLineNumber = 7, endLineNumberExclusive = 10\<rparr>, innerChanges = []\<rparr>])
   = [(0, \<lparr>original = \<lparr>startLineNumber = 1, endLineNumberExclusive = 4\<rparr>, modified = \<lparr>startLineNumber = 1, endLineNumberExclusive = 1\<rparr>, innerChanges = []\<rparr>), (Suc 0, \<lparr>original = \<lparr>startLineNumber = 5, endLineNumberExclusive = 8\<rparr>, modified = \<lparr>startLineNumber = 2, endLineNumberExclusive = 2\<rparr>, innerChanges = []\<rparr>)]"
  by (simp add: isSimpleDeletion_def isEmptyL_def lengthL_def)

lemma twoBlocks_insertions:
  "filter isSimpleInsertion (enumerate 0
     [\<lparr>original = \<lparr>startLineNumber = 1, endLineNumberExclusive = 4\<rparr>, modified = \<lparr>startLineNumber = 1, endLineNumberExclusive = 1\<rparr>, innerChanges = []\<rparr>,
      \<lparr>original = \<lparr>startLineNumber = 5, endLineNumberExclusive = 8\<rparr>, modified = \<lparr>startLineNumber = 2, endLineNumberExclusive = 2\<rparr>, innerChanges = []\<rparr>,
      \<lparr>original = \<lparr>startLineNumber = 9, endLineNumberExclusive = 9\<rparr>, modified = \<lparr>startLineNumber = 3, endLineNumberExclusive = 6\<rparr>, innerChanges = []\<rparr>,
      \<lparr>original = \<lparr>startLineNumber = 10, endLineNumberExclusive = 10\<rparr>, modified = \<lparr>startLineNumber = 7, endLineNumberExclusive = 10\<rparr>, innerChanges = []\<rparr>])
   = [(2, \<lparr>original = \<lparr>startLineNumber = 9, endLineNumberExclusive = 9\<rparr>, modified = \<lparr>startLineNumber = 3, endLineNumberExclusive = 6\<rparr>, innerChanges = []\<rparr>), (3, \<lparr>original = \<lparr>startLineNumber = 10, endLineNumberExclusive = 10\<rparr>, modified = \<lparr>startLineNumber = 7, endLineNumberExclusive = 10\<rparr>, innerChanges = []\<rparr>)]"
  by (simp add: isSimpleInsertion_def isEmptyL_def lengthL_def)

lemma twoBlocks_deletion_fragments:
  "newFragments original [[97], [98], [99], [107], [112], [113], [114], [109], [110]]
     [(0, \<lparr>original = \<lparr>startLineNumber = 1, endLineNumberExclusive = 4\<rparr>, modified = \<lparr>startLineNumber = 1, endLineNumberExclusive = 1\<rparr>, innerChanges = []\<rparr>), (Suc 0, \<lparr>original = \<lparr>startLineNumber = 5, endLineNumberExclusive = 8\<rparr>, modified = \<lparr>startLineNumber = 2, endLineNumberExclusive = 2\<rparr>, innerChanges = []\<rparr>)] []
   = Some ([\<lparr>rangeF = \<lparr>startLineNumber = 1, endLineNumberExclusive = 4\<rparr>, source = 0, totalCount = 6, histogram = [1, 3, 1, 1]\<rparr>,
            \<lparr>rangeF = \<lparr>startLineNumber = 5, endLineNumberExclusive = 8\<rparr>, source = Suc 0, totalCount = 6, histogram = [0, 3, 0, 0, 1, 1, 1]\<rparr>], [97, 10, 98, 99, 112, 113, 114])"
  by (simp add: newLineRangeFragment_def js_nth_def addLine_def addChar_def getKey_def bump_def fragLoop.simps)

lemma twoBlocks_insertion_fragments:
  "newFragments modified [[107], [109], [120], [121], [122], [110], [97], [98], [99]]
     [(2, \<lparr>original = \<lparr>startLineNumber = 9, endLineNumberExclusive = 9\<rparr>, modified = \<lparr>startLineNumber = 3, endLineNumberExclusive = 6\<rparr>, innerChanges = []\<rparr>), (3, \<lparr>original = \<lparr>startLineNumber = 10, endLineNumberExclusive = 10\<rparr>, modified = \<lparr>startLineNumber = 7, endLineNumberExclusive = 10\<rparr>, innerChanges = []\<rparr>)] [97, 10, 98, 99, 112, 113, 114]
   = Some ([\<lparr>rangeF = \<lparr>startLineNumber = 3, endLineNumberExclusive = 6\<rparr>, source = 2, totalCount = 6, histogram = [0, 3, 0, 0, 0, 0, 0, 1, 1, 1]\<rparr>,
            \<lparr>rangeF = \<lparr>startLineNumber = 7, endLineNumberExclusive = 10\<rparr>, source = 3, totalCount = 6, histogram = [1, 3, 1, 1]\<rparr>], [97, 10, 98, 99, 112, 113, 114, 120, 121, 122])"
  by (simp add: newLineRangeFragment_def js_nth_def addLine_def addChar_def getKey_def bump_def fragLoop.simps)

text \<open>
  C6. When \<^verbatim>\<open>computeMovesFromSimpleDeletionsToSimpleInsertions\<close> has built the fragments
  of the simple deletions and of the simple insertions (the character keys distinct at
  the start, as the keys of a map are), it returns the moves and the excluded changes
  that the pairing step, done for the deletions in turn from the state in which every
  insertion remains and there is no move, ends with. The timeout is asked after each
  step and the loop returns when it is no longer valid; with a timeout that stays valid
  every deletion is handled. For every deletion fragment and every insertion fragment,
  \<^verbatim>\<open>computeSimilarity\<close> is 1 minus the character difference of the two texts, which is
  the sum over the character keys of the absolute histogram differences, divided by the
  two total counts together (a line feed counted per line). One step pairs the deletion
  with an insertion of the highest similarity among the remaining ones and accepts the
  pairing exactly when that similarity exceeds 0.90: then the move is pushed, the
  insertion leaves the remaining ones and both changes are excluded; otherwise the
  state is unchanged. The code computes in floating point; the model in the reals.
\<close>

theorem simple_moves_similarity_and_pairing:
  assumes "distinct chrKeys"
    and "newFragments original originalLines (filter isSimpleDeletion (enumerate 0 cs)) chrKeys
           = Some (deletions, chrKeys1)"
    and "newFragments modified modifiedLines (filter isSimpleInsertion (enumerate 0 cs)) chrKeys1
           = Some (insertions, chrKeys2)"
  shows "computeMovesFromSimpleDeletionsToSimpleInsertions cs originalLines modifiedLines timeout chrKeys
           = Some (snd (foldl (\<lambda>st d. pairDeletion d st) (insertions, [], [])
                           (take (deletionsHandled timeout (length deletions)) deletions)),
                   (\<lambda>n. timeout (n + deletionsHandled timeout (length deletions))), chrKeys2)
       \<and> ((\<forall>n<length deletions. timeout n) \<longrightarrow>
            take (deletionsHandled timeout (length deletions)) deletions = deletions)
       \<and> (\<forall>d\<in>set deletions. \<forall>i\<in>set insertions.
            computeSimilarity d i
              = Some (1 - real_of_int (charDifference (fragmentText (rangeF d) originalLines)
                                                      (fragmentText (rangeF i) modifiedLines))
                          / real (length (fragmentText (rangeF d) originalLines)
                                  + length (fragmentText (rangeF i) modifiedLines))))
       \<and> ((\<exists>b\<in>set remaining. \<exists>s. computeSimilarity deletion b = Some s \<and> 0.9 < s) \<longrightarrow>
            (\<exists>best h. best \<in> set remaining \<and> computeSimilarity deletion best = Some h \<and> 0.9 < h
               \<and> (\<forall>b\<in>set remaining. \<forall>s. computeSimilarity deletion b = Some s \<longrightarrow> s \<le> h)
               \<and> pairDeletion deletion (remaining, mvs, excluded)
                   = (filter (\<lambda>f. source f \<noteq> source best) remaining,
                      mvs @ [\<lparr>original = rangeF deletion, modified = rangeF best\<rparr>],
                      excluded @ [source deletion, source best])))
       \<and> (\<not> (\<exists>b\<in>set remaining. \<exists>s. computeSimilarity deletion b = Some s \<and> 0.9 < s) \<longrightarrow>
            pairDeletion deletion (remaining, mvs, excluded) = (remaining, mvs, excluded))"
proof -
  from newFragments_counts[OF assms(2,1)] obtain extra1 where
    d: "distinct chrKeys1" "chrKeys1 = chrKeys @ extra1"
       "\<forall>f\<in>set deletions. counts chrKeys1 (histogram f) (totalCount f) (fragmentText (rangeF f) originalLines)"
    by blast
  from newFragments_counts[OF assms(3) d(1)] obtain extra2 where
    i: "distinct chrKeys2" "chrKeys2 = chrKeys1 @ extra2"
       "\<forall>f\<in>set insertions. counts chrKeys2 (histogram f) (totalCount f) (fragmentText (rangeF f) modifiedLines)"
    by blast
  have sim: "\<forall>d\<in>set deletions. \<forall>i\<in>set insertions.
            computeSimilarity d i
              = Some (1 - real_of_int (charDifference (fragmentText (rangeF d) originalLines)
                                                      (fragmentText (rangeF i) modifiedLines))
                          / real (length (fragmentText (rangeF d) originalLines)
                                  + length (fragmentText (rangeF i) modifiedLines)))"
  proof (intro ballI)
    fix dl ins
    assume dl: "dl \<in> set deletions" and ins: "ins \<in> set insertions"
    have cd: "counts chrKeys2 (histogram dl) (totalCount dl) (fragmentText (rangeF dl) originalLines)"
      using counts_extend[of chrKeys1 _ _ _ extra2] d(3) i(1,2) dl by blast
    have ci: "counts chrKeys2 (histogram ins) (totalCount ins) (fragmentText (rangeF ins) modifiedLines)"
      using i(3) ins by blast
    have "rangeF dl \<in> set (map rangeF deletions)" using dl by simp
    then obtain c where "c \<in> set (filter isSimpleDeletion (enumerate 0 cs))"
        "rangeF dl = original (snd c)"
      unfolding newFragments_ranges[OF assms(2)] by auto
    then have "1 \<le> lengthL (rangeF dl)" by (simp add: isSimpleDeletion_def)
    then have ne: "fragmentText (rangeF dl) originalLines \<noteq> []" by (rule fragmentText_nonempty)
    show "computeSimilarity dl ins
            = Some (1 - real_of_int (charDifference (fragmentText (rangeF dl) originalLines)
                                                    (fragmentText (rangeF ins) modifiedLines))
                        / real (length (fragmentText (rangeF dl) originalLines)
                                + length (fragmentText (rangeF ins) modifiedLines)))"
      using computeSimilarity_counts[OF cd ci] ne by blast
  qed
  have run: "computeMovesFromSimpleDeletionsToSimpleInsertions cs originalLines modifiedLines timeout chrKeys
           = Some (snd (foldl (\<lambda>st d. pairDeletion d st) (insertions, [], [])
                           (take (deletionsHandled timeout (length deletions)) deletions)),
                   (\<lambda>n. timeout (n + deletionsHandled timeout (length deletions))), chrKeys2)"
    using assms(2,3)
    by (simp add: computeMovesFromSimpleDeletionsToSimpleInsertions_def pairLoop_fold case_prod_beta)
  have all: "(\<forall>n<length deletions. timeout n) \<longrightarrow>
            take (deletionsHandled timeout (length deletions)) deletions = deletions"
    using deletionsHandled_valid[of "length deletions" timeout] by simp
  show ?thesis
    using run all sim pairDeletion_accept[of remaining deletion mvs excluded]
      pairDeletion_reject[of remaining deletion mvs excluded]
    by blast
qed

theorem simple_moves_similarity_and_pairing_witness:
  "map_option fst (computeMovesFromSimpleDeletionsToSimpleInsertions
     [\<lparr>original = \<lparr>startLineNumber = 1, endLineNumberExclusive = 4\<rparr>, modified = \<lparr>startLineNumber = 1, endLineNumberExclusive = 1\<rparr>, innerChanges = []\<rparr>,
      \<lparr>original = \<lparr>startLineNumber = 5, endLineNumberExclusive = 8\<rparr>, modified = \<lparr>startLineNumber = 2, endLineNumberExclusive = 2\<rparr>, innerChanges = []\<rparr>,
      \<lparr>original = \<lparr>startLineNumber = 9, endLineNumberExclusive = 9\<rparr>, modified = \<lparr>startLineNumber = 3, endLineNumberExclusive = 6\<rparr>, innerChanges = []\<rparr>,
      \<lparr>original = \<lparr>startLineNumber = 10, endLineNumberExclusive = 10\<rparr>, modified = \<lparr>startLineNumber = 7, endLineNumberExclusive = 10\<rparr>, innerChanges = []\<rparr>]
     [[97], [98], [99], [107], [112], [113], [114], [109], [110]]
     [[107], [109], [120], [121], [122], [110], [97], [98], [99]] (\<lambda>n. n < 5) [])
   = Some ([\<lparr>original = \<lparr>startLineNumber = 1, endLineNumberExclusive = 4\<rparr>, modified = \<lparr>startLineNumber = 7, endLineNumberExclusive = 10\<rparr>\<rparr>], [0, 3])
   \<and> computeSimilarity
       \<lparr>rangeF = \<lparr>startLineNumber = 1, endLineNumberExclusive = 4\<rparr>, source = 0, totalCount = 6, histogram = [1, 3, 1, 1]\<rparr>
       \<lparr>rangeF = \<lparr>startLineNumber = 7, endLineNumberExclusive = 10\<rparr>, source = 3, totalCount = 6, histogram = [1, 3, 1, 1]\<rparr>
     = Some 1
   \<and> computeSimilarity
       \<lparr>rangeF = \<lparr>startLineNumber = 1, endLineNumberExclusive = 4\<rparr>, source = 0, totalCount = 6, histogram = [1, 3, 1, 1]\<rparr>
       \<lparr>rangeF = \<lparr>startLineNumber = 3, endLineNumberExclusive = 6\<rparr>, source = 2, totalCount = 6, histogram = [0, 3, 0, 0, 0, 0, 0, 1, 1, 1]\<rparr>
     = Some (1 / 2)
   \<and> pairDeletion
       \<lparr>rangeF = \<lparr>startLineNumber = 1, endLineNumberExclusive = 4\<rparr>, source = 0, totalCount = 6, histogram = [1, 3, 1, 1]\<rparr>
       ([\<lparr>rangeF = \<lparr>startLineNumber = 3, endLineNumberExclusive = 6\<rparr>, source = 2, totalCount = 6, histogram = [0, 3, 0, 0, 0, 0, 0, 1, 1, 1]\<rparr>,
         \<lparr>rangeF = \<lparr>startLineNumber = 7, endLineNumberExclusive = 10\<rparr>, source = 3, totalCount = 6, histogram = [1, 3, 1, 1]\<rparr>], [], [])
     = ([\<lparr>rangeF = \<lparr>startLineNumber = 3, endLineNumberExclusive = 6\<rparr>, source = 2, totalCount = 6, histogram = [0, 3, 0, 0, 0, 0, 0, 1, 1, 1]\<rparr>],
        [\<lparr>original = \<lparr>startLineNumber = 1, endLineNumberExclusive = 4\<rparr>, modified = \<lparr>startLineNumber = 7, endLineNumberExclusive = 10\<rparr>\<rparr>], [0, 3])"
proof -
  let ?cs = "[\<lparr>original = \<lparr>startLineNumber = 1, endLineNumberExclusive = 4\<rparr>, modified = \<lparr>startLineNumber = 1, endLineNumberExclusive = 1\<rparr>, innerChanges = []\<rparr>,
      \<lparr>original = \<lparr>startLineNumber = 5, endLineNumberExclusive = 8\<rparr>, modified = \<lparr>startLineNumber = 2, endLineNumberExclusive = 2\<rparr>, innerChanges = []\<rparr>,
      \<lparr>original = \<lparr>startLineNumber = 9, endLineNumberExclusive = 9\<rparr>, modified = \<lparr>startLineNumber = 3, endLineNumberExclusive = 6\<rparr>, innerChanges = []\<rparr>,
      \<lparr>original = \<lparr>startLineNumber = 10, endLineNumberExclusive = 10\<rparr>, modified = \<lparr>startLineNumber = 7, endLineNumberExclusive = 10\<rparr>, innerChanges = []\<rparr>]"
  let ?oL = "[[97], [98], [99], [107], [112], [113], [114], [109], [110]]"
  let ?mL = "[[107], [109], [120], [121], [122], [110], [97], [98], [99]]"
  let ?D1 = "\<lparr>rangeF = \<lparr>startLineNumber = 1, endLineNumberExclusive = 4\<rparr>, source = 0, totalCount = 6, histogram = [1, 3, 1, 1]\<rparr>"
  let ?D2 = "\<lparr>rangeF = \<lparr>startLineNumber = 5, endLineNumberExclusive = 8\<rparr>, source = Suc 0, totalCount = 6, histogram = [0, 3, 0, 0, 1, 1, 1]\<rparr>"
  let ?I1 = "\<lparr>rangeF = \<lparr>startLineNumber = 3, endLineNumberExclusive = 6\<rparr>, source = 2, totalCount = 6, histogram = [0, 3, 0, 0, 0, 0, 0, 1, 1, 1]\<rparr>"
  let ?I2 = "\<lparr>rangeF = \<lparr>startLineNumber = 7, endLineNumberExclusive = 10\<rparr>, source = 3, totalCount = 6, histogram = [1, 3, 1, 1]\<rparr>"
  let ?t = "\<lambda>n::nat. n < 5"
  have d: "newFragments original ?oL (filter isSimpleDeletion (enumerate 0 ?cs)) [] = Some ([?D1, ?D2], [97, 10, 98, 99, 112, 113, 114])"
    unfolding twoBlocks_deletions by (rule twoBlocks_deletion_fragments)
  have i: "newFragments modified ?mL (filter isSimpleInsertion (enumerate 0 ?cs)) [97, 10, 98, 99, 112, 113, 114] = Some ([?I1, ?I2], [97, 10, 98, 99, 112, 113, 114, 120, 121, 122])"
    unfolding twoBlocks_insertions by (rule twoBlocks_insertion_fragments)
  have m: "distinct ([]::nat list)" "?D1 \<in> set [?D1, ?D2]" "?I2 \<in> set [?I1, ?I2]" "?I1 \<in> set [?I1, ?I2]" by simp_all
  from simple_moves_similarity_and_pairing[OF m(1) d i,
         where timeout = ?t and deletion = ?D1 and remaining = "[?I1, ?I2]" and mvs = "[]" and excluded = "[]"]
  have run: "computeMovesFromSimpleDeletionsToSimpleInsertions ?cs ?oL ?mL ?t []
           = Some (snd (foldl (\<lambda>st d. pairDeletion d st) ([?I1, ?I2], [], [])
                           (take (deletionsHandled ?t (length [?D1, ?D2])) [?D1, ?D2])),
                   (\<lambda>n. ?t (n + deletionsHandled ?t (length [?D1, ?D2]))), [97, 10, 98, 99, 112, 113, 114, 120, 121, 122])"
    and all: "(\<forall>n<length [?D1, ?D2]. ?t n) \<longrightarrow>
            take (deletionsHandled ?t (length [?D1, ?D2])) [?D1, ?D2] = [?D1, ?D2]"
    and acc: "(\<exists>b\<in>set [?I1, ?I2]. \<exists>s. computeSimilarity ?D1 b = Some s \<and> 0.9 < s) \<longrightarrow>
            (\<exists>best h. best \<in> set [?I1, ?I2] \<and> computeSimilarity ?D1 best = Some h \<and> 0.9 < h
               \<and> (\<forall>b\<in>set [?I1, ?I2]. \<forall>s. computeSimilarity ?D1 b = Some s \<longrightarrow> s \<le> h)
               \<and> pairDeletion ?D1 ([?I1, ?I2], [], [])
                   = (filter (\<lambda>f. source f \<noteq> source best) [?I1, ?I2],
                      [] @ [\<lparr>original = rangeF ?D1, modified = rangeF best\<rparr>],
                      [] @ [source ?D1, source best]))"
    and sim: "\<forall>d\<in>set [?D1, ?D2]. \<forall>i\<in>set [?I1, ?I2].
            computeSimilarity d i
              = Some (1 - real_of_int (charDifference (fragmentText (rangeF d) ?oL) (fragmentText (rangeF i) ?mL))
                          / real (length (fragmentText (rangeF d) ?oL) + length (fragmentText (rangeF i) ?mL)))"
    by blast+
  have sim2: "computeSimilarity ?D1 ?I2
           = Some (1 - real_of_int (charDifference (fragmentText (rangeF ?D1) ?oL) (fragmentText (rangeF ?I2) ?mL))
                       / real (length (fragmentText (rangeF ?D1) ?oL) + length (fragmentText (rangeF ?I2) ?mL)))"
    using sim m(2,3) by blast
  have sim1: "computeSimilarity ?D1 ?I1
           = Some (1 - real_of_int (charDifference (fragmentText (rangeF ?D1) ?oL) (fragmentText (rangeF ?I1) ?mL))
                       / real (length (fragmentText (rangeF ?D1) ?oL) + length (fragmentText (rangeF ?I1) ?mL)))"
    using sim m(2,4) by blast
  have tk: "take (deletionsHandled ?t (length [?D1, ?D2])) [?D1, ?D2] = [?D1, ?D2]"
    using all by simp
  have t1: "fragmentText (rangeF ?D1) ?oL = [97, 10, 98, 10, 99, 10]"
    by (simp add: fragmentText_def upto.simps)
  have t2: "fragmentText (rangeF ?I2) ?mL = [97, 10, 98, 10, 99, 10]"
    by (simp add: fragmentText_def upto.simps)
  have t3: "fragmentText (rangeF ?I1) ?mL = [120, 10, 121, 10, 122, 10]"
    by (simp add: fragmentText_def upto.simps)
  have c2: "charDifference [97, 10, 98, 10, 99, 10] [97, 10, 98, 10, 99, 10] = 0"
    unfolding charDifference_def by simp
  have u: "set [97, 10, 98, 10, 99, 10] \<union> set [120, 10, 121, 10, 122, 10] = {97, 10, 98, 99, 120, 121, 122::nat}"
    by auto
  have c1: "charDifference [97, 10, 98, 10, 99, 10] [120, 10, 121, 10, 122, 10] = 6"
    unfolding charDifference_def u by simp
  have s2: "computeSimilarity ?D1 ?I2 = Some 1"
    unfolding sim2 t1 t2 c2 by simp
  have s1: "computeSimilarity ?D1 ?I1 = Some (1 / 2)"
    unfolding sim1 t1 t3 c1 by simp
  have f: "foldl (\<lambda>st d. pairDeletion d st) ([?I1, ?I2], [], []) [?D1, ?D2]
           = ([?I1], [\<lparr>original = \<lparr>startLineNumber = 1, endLineNumberExclusive = 4\<rparr>, modified = \<lparr>startLineNumber = 7, endLineNumberExclusive = 10\<rparr>\<rparr>], [0, 3])"
    by (simp add: pairDeletion_def findBest_def betterOf_def computeSimilarity_def sumDifferences_def
          histAt_def upt_rec)
  have "map_option fst (computeMovesFromSimpleDeletionsToSimpleInsertions ?cs ?oL ?mL ?t [])
        = Some ([\<lparr>original = \<lparr>startLineNumber = 1, endLineNumberExclusive = 4\<rparr>, modified = \<lparr>startLineNumber = 7, endLineNumberExclusive = 10\<rparr>\<rparr>], [0, 3])"
    unfolding run tk f by simp
  moreover have "pairDeletion ?D1 ([?I1, ?I2], [], []) = ([?I1], [\<lparr>original = \<lparr>startLineNumber = 1, endLineNumberExclusive = 4\<rparr>, modified = \<lparr>startLineNumber = 7, endLineNumberExclusive = 10\<rparr>\<rparr>], [0, 3])"
  proof -
    have "(0.9::real) < 1" by simp
    with s2 have "\<exists>b\<in>set [?I1, ?I2]. \<exists>s. computeSimilarity ?D1 b = Some s \<and> 0.9 < s"
      by (intro bexI[of _ ?I2] exI[of _ 1]) simp_all
    with acc obtain best h where b: "best \<in> set [?I1, ?I2]" "computeSimilarity ?D1 best = Some h" "0.9 < h"
      and p: "pairDeletion ?D1 ([?I1, ?I2], [], [])
                   = (filter (\<lambda>f. source f \<noteq> source best) [?I1, ?I2],
                      [] @ [\<lparr>original = rangeF ?D1, modified = rangeF best\<rparr>],
                      [] @ [source ?D1, source best])"
      by blast
    have "best \<noteq> ?I1"
    proof
      assume "best = ?I1"
      with b(2) s1 have "h = 1 / 2" by simp
      with b(3) show False by simp
    qed
    with b(1) have "best = ?I2" by simp
    with p show ?thesis by simp
  qed
  ultimately show ?thesis using s1 s2 by blast
qed

section \<open>What the aggregation into changes guarantees\<close>

text \<open>
  \<^verbatim>\<open>lineRangeMappingFromRangeMappings\<close> ends with the assertion of the line-boundary
  invariant. The function contributes the merging: two neighbours that touch or
  overlap on either side end in one change. \<^verbatim>\<open>inOrder\<close> is what the assertion needs of
  the line-range mappings that come in: their starts and ends do not decrease, and two
  neighbours that are not grouped are equally far apart on the two sides. Then the
  asserted condition holds of the changes. \<^verbatim>\<open>getLineRangeMapping\<close> moves the start lines
  of the two sides by the same amount, and the end lines by the same amount.
\<close>

lemma not_grouped_separated:
  assumes "inOrder a b" and "validRanges b" and "\<not> shouldBeGrouped a b"
  shows "endLineNumberExclusive (original a) < startLineNumber (original b)
       \<and> endLineNumberExclusive (modified a) < startLineNumber (modified b)
       \<and> startLineNumber (original b) - endLineNumberExclusive (original a)
              = startLineNumber (modified b) - endLineNumberExclusive (modified a)"
  using assms by (auto simp: inOrder_def validRanges_def shouldBeGrouped_def overlapOrTouch_def)

lemma successively_inOrder_hd_last:
  "g \<noteq> [] \<Longrightarrow> successively inOrder g \<Longrightarrow>
   startLineNumber (original (hd g)) \<le> startLineNumber (original (last g))
   \<and> endLineNumberExclusive (original (hd g)) \<le> endLineNumberExclusive (original (last g))
   \<and> startLineNumber (modified (hd g)) \<le> startLineNumber (modified (last g))
   \<and> endLineNumberExclusive (modified (hd g)) \<le> endLineNumberExclusive (modified (last g))"
proof (induction g rule: rev_induct)
  case Nil
  then show ?case by simp
next
  case (snoc x xs)
  show ?case
  proof (cases "xs = []")
    case True
    then show ?thesis by simp
  next
    case False
    then have s: "successively inOrder xs" "inOrder (last xs) x"
      using snoc.prems(2) by (simp_all add: successively_append_iff)
    from snoc.IH[OF False s(1)] s(2) False show ?thesis
      by (auto simp: inOrder_def)
  qed
qed

lemma changeOfGroup_bounds:
  assumes "groupOk g"
  shows "startLineNumber (original (changeOfGroup g)) = startLineNumber (original (hd g))"
    and "endLineNumberExclusive (original (changeOfGroup g)) = endLineNumberExclusive (original (last g))"
    and "startLineNumber (modified (changeOfGroup g)) = startLineNumber (modified (hd g))"
    and "endLineNumberExclusive (modified (changeOfGroup g)) = endLineNumberExclusive (modified (last g))"
  using successively_inOrder_hd_last[of g] assms
  by (simp_all add: groupOk_def changeOfGroup_def joinL_def)

lemma groupLoop_nonempty: "groupLoop p items g \<noteq> []"
  by (induction items arbitrary: g) auto

lemma groupLoop_invariant:
  "groupOk g \<Longrightarrow> successively inOrder (last g # items) \<Longrightarrow> list_all validRanges items \<Longrightarrow>
   successively lineBoundaryInvariant (map changeOfGroup (groupLoop shouldBeGrouped items g))
   \<and> hd (hd (groupLoop shouldBeGrouped items g)) = hd g
   \<and> list_all groupOk (groupLoop shouldBeGrouped items g)"
proof (induction items arbitrary: g)
  case Nil
  then show ?case by simp
next
  case (Cons x items)
  have o: "inOrder (last g) x" and rest: "successively inOrder (x # items)"
    using Cons.prems(2) by simp_all
  have vx: "validRanges x" and vi: "list_all validRanges items" using Cons.prems(3) by simp_all
  have gne: "g \<noteq> []" using Cons.prems(1) by (simp add: groupOk_def)
  show ?case
  proof (cases "shouldBeGrouped (last g) x")
    case True
    have g1: "groupOk (g @ [x])"
      using Cons.prems(1) o vx by (simp add: groupOk_def successively_append_iff)
    have "successively inOrder (last (g @ [x]) # items)" using rest by simp
    from Cons.IH[OF g1 this vi] gne True show ?thesis by simp
  next
    case False
    have g1: "groupOk [x]" using vx by (simp add: groupOk_def)
    have "successively inOrder (last [x] # items)" using rest by simp
    from Cons.IH[OF g1 this vi] have ih:
      "successively lineBoundaryInvariant (map changeOfGroup (groupLoop shouldBeGrouped items [x]))"
      "hd (hd (groupLoop shouldBeGrouped items [x])) = x"
      "list_all groupOk (groupLoop shouldBeGrouped items [x])" by simp_all
    obtain h t where ht: "groupLoop shouldBeGrouped items [x] = h # t"
      using groupLoop_nonempty[of shouldBeGrouped items "[x]"] by (cases "groupLoop shouldBeGrouped items [x]") auto
    have hok: "groupOk h" and hx: "hd h = x" using ih(2,3) ht by simp_all
    have "lineBoundaryInvariant (changeOfGroup g) (changeOfGroup h)"
      using not_grouped_separated[OF o vx False] changeOfGroup_bounds[OF Cons.prems(1)]
        changeOfGroup_bounds[OF hok] hx
      by (simp add: lineBoundaryInvariant_def)
    then show ?thesis
      using False ih ht Cons.prems(1) by simp
  qed
qed

lemma grouped_changes_invariant:
  assumes "successively inOrder ms" and "list_all validRanges ms"
  shows "checkAdjacentItems lineBoundaryInvariant (map changeOfGroup (groupAdjacentBy shouldBeGrouped ms))"
proof (cases ms)
  case Nil
  then show ?thesis by (simp add: groupAdjacentBy_def)
next
  case (Cons m rest)
  have "groupOk [m]" using assms(2) Cons by (simp add: groupOk_def)
  moreover have "successively inOrder (last [m] # rest)" using assms(1) Cons by simp
  moreover have "list_all validRanges rest" using assms(2) Cons by simp
  ultimately show ?thesis
    using groupLoop_invariant[of "[m]" rest] Cons
    by (simp add: groupAdjacentBy_def checkAdjacentItems_successively)
qed

lemma lineRangeMappingFromRangeMappings_invariant:
  assumes "mapM (\<lambda>a. getLineRangeMapping a originalLines modifiedLines) alignments = Some ms"
    and "successively inOrder ms" and "list_all validRanges ms"
  shows "\<exists>cs. lineRangeMappingFromRangeMappings alignments originalLines modifiedLines = Some cs
           \<and> checkAdjacentItems lineBoundaryInvariant cs"
  using grouped_changes_invariant[OF assms(2,3)] assms(1)
  by (simp add: lineRangeMappingFromRangeMappings_def)

lemma getLineRangeMapping_same_deltas:
  assumes "getLineRangeMapping rm originalLines modifiedLines = Some m"
  shows "startLineNumber (original m) - rangeStartLineNumber (originalRange rm)
           = startLineNumber (modified m) - rangeStartLineNumber (modifiedRange rm)
       \<and> endLineNumberExclusive (original m) - endLineNumber (originalRange rm)
           = endLineNumberExclusive (modified m) - endLineNumber (modifiedRange rm)"
  using assms by (auto simp: getLineRangeMapping_def Let_def split: option.splits)

end
